theory Spec2Isabelle
  imports Complex_Main "HOL-Library.Word"
begin

section \<open>Characters and the C library\<close>

text \<open>
  A C string is modelled by the list of its bytes before the terminating NUL; a
  \<^verbatim>\<open>char *\<close> that may be \<^verbatim>\<open>NULL\<close> is a \<open>string option\<close>. The character
  classes are those of the C locale.
\<close>

abbreviation dquote :: char where "dquote \<equiv> CHR 0x22"
abbreviation backslash :: char where "backslash \<equiv> CHR 0x5C"

definition isprint :: "char \<Rightarrow> bool" where
  "isprint c = (32 \<le> (of_char c :: nat) \<and> (of_char c :: nat) \<le> 126)"

definition isspace :: "char \<Rightarrow> bool" where
  "isspace c = ((of_char c :: nat) = 32 \<or> (9 \<le> (of_char c :: nat) \<and> (of_char c :: nat) \<le> 13))"

definition isdigit :: "char \<Rightarrow> bool" where
  "isdigit c = (48 \<le> (of_char c :: nat) \<and> (of_char c :: nat) \<le> 57)"

definition isodigit :: "char \<Rightarrow> bool" where
  "isodigit c = (48 \<le> (of_char c :: nat) \<and> (of_char c :: nat) \<le> 55)"

definition isxdigit :: "char \<Rightarrow> bool" where
  "isxdigit c = (isdigit c \<or> (97 \<le> (of_char c :: nat) \<and> (of_char c :: nat) \<le> 102) \<or>
     (65 \<le> (of_char c :: nat) \<and> (of_char c :: nat) \<le> 70))"

definition tolower :: "char \<Rightarrow> char" where
  "tolower c = (if 65 \<le> (of_char c :: nat) \<and> (of_char c :: nat) \<le> 90
                then char_of ((of_char c :: nat) + 32) else c)"

text \<open>\<open>strcasecmp a b\<close> stands for the test \<^verbatim>\<open>strcasecmp(a, b) == 0\<close>.\<close>

definition strcasecmp :: "string \<Rightarrow> string \<Rightarrow> bool" where
  "strcasecmp a b = (map tolower a = map tolower b)"

fun starts_with :: "string \<Rightarrow> string \<Rightarrow> bool" where
  "starts_with s [] = True"
| "starts_with [] (k # ks) = False"
| "starts_with (c # s) (k # ks) = (c = k \<and> starts_with s ks)"

text \<open>\<^verbatim>\<open>strstr\<close>: the tail of the haystack at the first occurrence of the needle.\<close>

fun strstr :: "string \<Rightarrow> string \<Rightarrow> string option" where
  "strstr [] needle = (if needle = [] then Some [] else None)"
| "strstr (c # s) needle =
     (if starts_with (c # s) needle then Some (c # s) else strstr s needle)"

text \<open>
  A file opened for reading is its content; \<open>getlines\<close> lists what successive calls of
  \<^verbatim>\<open>getline\<close> return from its start (each line with its newline, the last one perhaps
  without). \<open>c_str\<close> is a buffer read as a C string: the bytes before the first NUL.
\<close>

fun getlines :: "string \<Rightarrow> string list" where
  "getlines [] = []"
| "getlines (c # cs) =
     (if c = CHR 0x0A then [c] # getlines cs
      else (case getlines cs of [] \<Rightarrow> [[c]] | l # ls \<Rightarrow> (c # l) # ls))"

definition c_str :: "string \<Rightarrow> string" where
  "c_str buf = takeWhile (\<lambda>c. c \<noteq> CHR 0x00) buf"

subsection \<open>Number scanning\<close>

text \<open>
  What one conversion of \<^verbatim>\<open>sscanf\<close> does: the input ends before the conversion starts
  (\<^verbatim>\<open>sscanf\<close> returns \<^verbatim>\<open>EOF\<close>, which is \<open>-1\<close>), the input does not match (it returns the
  number of earlier assignments), or a value is assigned.
\<close>

datatype 'a scan = ScanEOF | ScanFail | ScanOK 'a

text \<open>The return value of an \<^verbatim>\<open>sscanf\<close> with a single conversion.\<close>

definition sscanf_ret :: "'a scan \<Rightarrow> int" where
  "sscanf_ret r = (case r of ScanEOF \<Rightarrow> -1 | ScanFail \<Rightarrow> 0 | ScanOK _ \<Rightarrow> 1)"

text \<open>
  The variable that a conversion \<^verbatim>\<open>%i\<close>, \<^verbatim>\<open>%u\<close> or \<^verbatim>\<open>%f\<close> points to: assigned on a match,
  left alone otherwise.
\<close>

definition assigned :: "'a scan \<Rightarrow> 'a \<Rightarrow> 'a" where
  "assigned r old = (case r of ScanOK v \<Rightarrow> v | _ \<Rightarrow> old)"

text \<open>
  The pointer that a conversion \<^verbatim>\<open>%ms\<close> points to. The library allocates the buffer of the
  string itself and stores its address in the pointer before it reads; when the input
  ends before the conversion, the GNU library frees that buffer and stores \<^verbatim>\<open>NULL\<close> in the
  pointer. So the pointer is the new string on a match and \<^verbatim>\<open>NULL\<close> when \<^verbatim>\<open>sscanf\<close>
  returns \<^verbatim>\<open>EOF\<close>, whatever it was before the call.
\<close>

definition assigned_ms :: "string scan \<Rightarrow> string option \<Rightarrow> string option" where
  "assigned_ms r old = (case r of ScanOK s \<Rightarrow> Some s | ScanEOF \<Rightarrow> None | ScanFail \<Rightarrow> old)"

definition xdigit_val :: "char \<Rightarrow> nat" where
  "xdigit_val c =
     (if isdigit c then (of_char c :: nat) - 48
      else if 97 \<le> (of_char c :: nat) then (of_char c :: nat) - 87
      else (of_char c :: nat) - 55)"

definition digits_val :: "nat \<Rightarrow> string \<Rightarrow> nat" where
  "digits_val base ds = foldl (\<lambda>acc c. acc * base + xdigit_val c) 0 ds"

text \<open>
  Out-of-range input to \<^verbatim>\<open>%i\<close> and \<^verbatim>\<open>%u\<close> is undefined in ISO C. The model does what the
  GNU library does on a 64-bit platform: \<^verbatim>\<open>strtol\<close>/\<^verbatim>\<open>strtoul\<close> saturate at the bounds of
  \<^verbatim>\<open>long\<close>, and the result is cut to the 32 bits of the target.
\<close>

definition strtol_clamp :: "bool \<Rightarrow> nat \<Rightarrow> int" where
  "strtol_clamp neg n =
     (if neg then max (- (2 ^ 63)) (- int n) else min (2 ^ 63 - 1) (int n))"

definition to_int32 :: "int \<Rightarrow> int" where
  "to_int32 x = (x + 2 ^ 31) mod 2 ^ 32 - 2 ^ 31"

definition strtoul_clamp :: "bool \<Rightarrow> nat \<Rightarrow> nat" where
  "strtoul_clamp neg n =
     (if n > 2 ^ 64 - 1 then 2 ^ 64 - 1 else if neg then (2 ^ 64 - n) mod 2 ^ 64 else n)"

definition to_uint32 :: "nat \<Rightarrow> nat" where
  "to_uint32 n = n mod 2 ^ 32"

definition scan_digits :: "bool \<Rightarrow> nat \<Rightarrow> (char \<Rightarrow> bool) \<Rightarrow> string \<Rightarrow> (int \<times> string) scan" where
  "scan_digits neg base ok s =
     (let ds = takeWhile ok s
      in if ds = [] then ScanFail
         else ScanOK (to_int32 (strtol_clamp neg (digits_val base ds)), dropWhile ok s))"

text \<open>
  \<^verbatim>\<open>%i\<close>: white space, a sign, then a hexadecimal, octal or decimal number. A \<^verbatim>\<open>0x\<close> with
  no hexadecimal digit after it is a matching failure in ISO C; the GNU library takes it
  for the number 0, and so does the model.
\<close>

definition scan_i :: "string \<Rightarrow> (int \<times> string) scan" where
  "scan_i buf =
     (let s = dropWhile isspace buf
      in if s = [] then ScanEOF
         else let neg = (hd s = CHR ''-'');
                  s1 = (if hd s = CHR ''-'' \<or> hd s = CHR ''+'' then tl s else s)
              in if starts_with s1 ''0x'' \<or> starts_with s1 ''0X''
                 then (if takeWhile isxdigit (drop 2 s1) = [] then ScanOK (0, drop 2 s1)
                       else scan_digits neg 16 isxdigit (drop 2 s1))
                 else if starts_with s1 ''0'' then scan_digits neg 8 isodigit s1
                 else scan_digits neg 10 isdigit s1)"

definition map_scan :: "('a \<Rightarrow> 'b) \<Rightarrow> 'a scan \<Rightarrow> 'b scan" where
  "map_scan f r = (case r of ScanEOF \<Rightarrow> ScanEOF | ScanFail \<Rightarrow> ScanFail | ScanOK v \<Rightarrow> ScanOK (f v))"

definition sscanf_i :: "string \<Rightarrow> int scan" where
  "sscanf_i buf = map_scan fst (scan_i buf)"

text \<open>\<^verbatim>\<open>%u\<close>: white space, a sign, then a decimal number, read as \<^verbatim>\<open>strtoul\<close> does.\<close>

definition scan_u :: "string \<Rightarrow> (nat \<times> string) scan" where
  "scan_u buf =
     (let s = dropWhile isspace buf
      in if s = [] then ScanEOF
         else let neg = (hd s = CHR ''-'');
                  s1 = (if hd s = CHR ''-'' \<or> hd s = CHR ''+'' then tl s else s);
                  ds = takeWhile isdigit s1
              in if ds = [] then ScanFail
                 else ScanOK (to_uint32 (strtoul_clamp neg (digits_val 10 ds)), dropWhile isdigit s1))"

definition sscanf_u :: "string \<Rightarrow> nat scan" where
  "sscanf_u buf = map_scan fst (scan_u buf)"

text \<open>
  \<^verbatim>\<open>sscanf(buffer, "%u/%u", &count, &interval)\<close>: the return value and the two variables,
  from their values before the call.
\<close>

definition sscanf_u_u :: "string \<Rightarrow> nat \<times> nat \<Rightarrow> int \<times> nat \<times> nat" where
  "sscanf_u_u buf init =
     (case scan_u buf of
        ScanEOF \<Rightarrow> (-1, init)
      | ScanFail \<Rightarrow> (0, init)
      | ScanOK (a, r) \<Rightarrow>
          (case r of
             [] \<Rightarrow> (1, a, snd init)
           | c # r' \<Rightarrow>
               if c \<noteq> CHR ''/'' then (1, a, snd init)
               else (case scan_u r' of ScanOK (b, _) \<Rightarrow> (2, a, b) | _ \<Rightarrow> (1, a, snd init))))"

text \<open>\<^verbatim>\<open>%127ms\<close>: white space, then up to 127 characters that are not white space.\<close>

definition sscanf_ms :: "string \<Rightarrow> string scan" where
  "sscanf_ms buf =
     (let s = dropWhile isspace buf
      in if s = [] then ScanEOF else ScanOK (take 127 (takeWhile (\<lambda>c. \<not> isspace c) s)))"

subsection \<open>Addresses\<close>

type_synonym byte = "8 word"

datatype addr_family = AF_INET | AF_INET6

fun split_on :: "char \<Rightarrow> string \<Rightarrow> string list" where
  "split_on d [] = [[]]"
| "split_on d (c # cs) =
     (if c = d then [] # split_on d cs
      else (case split_on d cs of [] \<Rightarrow> [[c]] | t # ts \<Rightarrow> (c # t) # ts))"

text \<open>
  \<^verbatim>\<open>inet_pton(AF_INET, ...)\<close>: four decimal numbers of at most 255, with no leading zero,
  separated by dots, and nothing else.
\<close>

definition octet :: "string \<Rightarrow> nat option" where
  "octet t =
     (if t \<noteq> [] \<and> list_all isdigit t \<and> (length t = 1 \<or> hd t \<noteq> CHR ''0'') \<and> length t \<le> 3 \<and>
         digits_val 10 t \<le> 255
      then Some (digits_val 10 t) else None)"

definition inet_pton4 :: "string \<Rightarrow> byte list option" where
  "inet_pton4 src =
     (let ts = split_on CHR ''.'' src
      in if length ts = 4 then map_option (map of_nat) (those (map octet ts)) else None)"

text \<open>
  \<^verbatim>\<open>inet_pton(AF_INET6, ...)\<close>: groups of one to four hexadecimal digits separated by
  colons, at most one \<^verbatim>\<open>::\<close> standing for one or more groups of zeros, and possibly a
  dotted quad in the place of the last two groups.
\<close>

definition hex_group :: "string \<Rightarrow> byte list option" where
  "hex_group t =
     (if t \<noteq> [] \<and> length t \<le> 4 \<and> list_all isxdigit t
      then Some [of_nat (digits_val 16 t div 256), of_nat (digits_val 16 t mod 256)]
      else None)"

fun strip_colon :: "string list \<Rightarrow> string list option" where
  "strip_colon ([] # [] # ts) = Some ([] # ts)"
| "strip_colon ([] # ts) = None"
| "strip_colon ts = Some ts"

fun tokens_bytes :: "string list \<Rightarrow> byte list option" where
  "tokens_bytes [] = Some []"
| "tokens_bytes [t] = (case hex_group t of Some g \<Rightarrow> Some g | None \<Rightarrow> inet_pton4 t)"
| "tokens_bytes (t # ts) =
     (case hex_group t of
        None \<Rightarrow> None
      | Some g \<Rightarrow> map_option ((@) g) (tokens_bytes ts))"

definition inet_pton6 :: "string \<Rightarrow> byte list option" where
  "inet_pton6 src =
     (case strip_colon (split_on CHR '':'' src) of
        None \<Rightarrow> None
      | Some ts1 \<Rightarrow>
          (case strip_colon (rev ts1) of
             None \<Rightarrow> None
           | Some ts2 \<Rightarrow>
               let ts = rev ts2;
                   front = takeWhile (\<lambda>t. t \<noteq> []) ts;
                   back = drop 1 (dropWhile (\<lambda>t. t \<noteq> []) ts)
               in if list_all (\<lambda>t. t \<noteq> []) ts
                  then (case tokens_bytes ts of
                          Some bs \<Rightarrow> if length bs = 16 then Some bs else None
                        | None \<Rightarrow> None)
                  else (case (map_option concat (those (map hex_group front)), tokens_bytes back) of
                          (Some f, Some b) \<Rightarrow>
                            if length f + length b < 16
                            then Some (f @ replicate (16 - length f - length b) 0 @ b)
                            else None
                        | _ \<Rightarrow> None)))"

text \<open>\<open>inet_pton af src\<close> is \<open>None\<close> where \<^verbatim>\<open>inet_pton\<close> returns 0 and writes nothing.\<close>

definition inet_pton :: "addr_family \<Rightarrow> string \<Rightarrow> byte list option" where
  "inet_pton af src = (case af of AF_INET \<Rightarrow> inet_pton4 src | AF_INET6 \<Rightarrow> inet_pton6 src)"

section \<open>The configuration and the process state\<close>

text \<open>
  The enumerations come from a header that is not among the sources; the enumerators
  below are the ones the readers name. The privacy level is kept as the number of its
  enumerator: the comments of \<^verbatim>\<open>readFTLlegacy\<close> give \<^verbatim>\<open>PRIVACY_SHOW_ALL\<close> as 0 and
  \<^verbatim>\<open>PRIVACY_MAXIMUM\<close> as 3.
\<close>

datatype blocking_mode = MODE_IP | MODE_NX | MODE_NULL | MODE_IP_NODATA_AAAA | MODE_NODATA

datatype refresh_hostnames = REFRESH_ALL | REFRESH_IPV4_ONLY | REFRESH_UNKNOWN | REFRESH_NONE

datatype ptr_type = PTR_PIHOLE | PTR_HOSTNAME | PTR_HOSTNAMEFQDN | PTR_NONE

datatype busy_reply = BUSY_BLOCK | BUSY_ALLOW | BUSY_REFUSE | BUSY_DROP

abbreviation (input) PRIVACY_SHOW_ALL :: int where "PRIVACY_SHOW_ALL \<equiv> 0"
abbreviation (input) PRIVACY_MAXIMUM :: int where "PRIVACY_MAXIMUM \<equiv> 3"
abbreviation (input) INT_MAX :: int where "INT_MAX \<equiv> 2147483647"

datatype log_level = LOG_CRIT | LOG_ERR | LOG_WARN | LOG_NOTICE | LOG_INFO

text \<open>
  The state the legacy reader works on: the current value \<^verbatim>\<open>v\<close> of every item of the
  global \<^verbatim>\<open>config\<close> it touches, under the union member it uses (\<^verbatim>\<open>v.b\<close> a \<open>bool\<close>,
  \<^verbatim>\<open>v.i\<close> an \<open>int\<close>, \<^verbatim>\<open>v.ui\<close> a \<open>nat\<close>, \<^verbatim>\<open>v.s\<close> a \<open>string option\<close>, an address its bytes in
  network order), the default \<^verbatim>\<open>d\<close> of the two items whose default it reads, the
  debug items by the name of their flag, the lines sent to the log, the number of
  \<^verbatim>\<open>fclose\<close> calls, and \<^verbatim>\<open>argv_dnsmasq[2]\<close>.
\<close>

record ftl =
  dns_analyzeAAAA :: bool
  database_maxDBdays :: int
  resolver_resolveIPv6 :: bool
  resolver_resolveIPv4 :: bool
  database_DBinterval :: nat
  files_database :: "string option"
  files_database_d :: "string option"
  database_maxHistory :: nat
  misc_privacylevel :: nat
  dns_ignoreLocalhost :: bool
  dns_blockingmode :: blocking_mode
  dns_blockingmode_d :: blocking_mode
  dns_analyzeOnlyAandAAAA :: bool
  database_DBimport :: bool
  files_pid :: "string option"
  files_setupVars :: "string option"
  files_macvendor :: "string option"
  files_gravity :: "string option"
  database_network_parseARPcache :: bool
  dns_CNAMEdeepInspect :: bool
  misc_delay_startup :: nat
  dns_blockESNI :: bool
  http_paths_webroot :: "string option"
  http_port :: "string option"
  http_paths_webhome :: "string option"
  http_acl :: "string option"
  http_localAPIauth :: bool
  http_sessionTimeout :: nat
  http_prettyJSON :: bool
  files_ph7_error :: "string option"
  files_http_info :: "string option"
  database_network_expire :: nat
  resolver_networkNames :: bool
  dns_EDNS0ECS :: bool
  resolver_refreshNames :: refresh_hostnames
  http_domain :: "string option"
  dns_rateLimit_count :: nat
  dns_rateLimit_interval :: nat
  dns_reply_host_overwrite_v4 :: bool
  dns_reply_host_v4 :: "byte list"
  dns_reply_host_overwrite_v6 :: bool
  dns_reply_host_v6 :: "byte list"
  dns_reply_blocking_overwrite_v4 :: bool
  dns_reply_blocking_v4 :: "byte list"
  dns_reply_blocking_overwrite_v6 :: bool
  dns_reply_blocking_v6 :: "byte list"
  dns_showDNSSEC :: bool
  dns_specialDomains_mozillaCanary :: bool
  dns_piholePTR :: ptr_type
  misc_addr2line :: bool
  dns_replyWhenBusy :: busy_reply
  dns_blockTTL :: nat
  dns_specialDomains_iCloudPrivateRelay :: bool
  misc_check_load :: bool
  misc_check_shmem :: nat
  misc_check_disk :: bool
  files_log :: "string option"
  debug :: "string \<Rightarrow> bool"
  log_out :: "(log_level \<times> string) list"
  fclose_count :: nat
  argv_dnsmasq2 :: "string option"

definition log_line :: "log_level \<Rightarrow> string \<Rightarrow> ftl \<Rightarrow> ftl" where
  "log_line lvl msg w = w\<lparr>log_out := log_out w @ [(lvl, msg)]\<rparr>"

definition fclose :: "ftl \<Rightarrow> ftl" where
  "fclose w = w\<lparr>fclose_count := fclose_count w + 1\<rparr>"

text \<open>
  The files a reader can open: the content of each of the two legacy files and of the two
  structured files, \<open>None\<close> where \<^verbatim>\<open>fopen\<close> fails.
\<close>

record filesys =
  local_conf :: "string option"
  global_conf :: "string option"
  local_toml :: "string option"
  global_toml :: "string option"

section \<open>The legacy reader\<close>

text \<open>\<^verbatim>\<open>openFTLconf\<close>: the path it reports and the file it opened.\<close>

definition openFTLconf :: "filesys \<Rightarrow> (string \<times> string) option" where
  "openFTLconf fs =
     (case local_conf fs of
        Some content \<Rightarrow> Some (''pihole-FTL.conf'', content)
      | None \<Rightarrow>
          (case global_conf fs of
             Some content \<Rightarrow> Some (''/etc/pihole/pihole-FTL.conf'', content)
           | None \<Rightarrow> None))"

text \<open>
  Modelled from the spec: \<^verbatim>\<open>find_equals\<close> and \<^verbatim>\<open>trim_whitespace\<close> are helpers of a file that
  is not among the sources. The spec has the reader ``extract and trim the remainder''
  after \<^verbatim>\<open>KEY=\<close>, with ``whitespace trimmed from the value'': \<open>find_equals\<close> points at
  the first \<^verbatim>\<open>=\<close> of the line (at its end when there is none), and \<open>trim_whitespace\<close>
  removes the white space at both ends.
\<close>

definition find_equals :: "string \<Rightarrow> string" where
  "find_equals s = dropWhile (\<lambda>c. c \<noteq> CHR ''='') s"

definition trim_whitespace :: "string \<Rightarrow> string" where
  "trim_whitespace s = rev (dropWhile isspace (rev (dropWhile isspace s)))"

text \<open>
  The loop of \<^verbatim>\<open>parseFTLconf\<close> over the lines of the file, \<open>keystr\<close> being the key
  followed by \<^verbatim>\<open>=\<close>. Memory allocation is taken to succeed, and the lock around the
  loop is left out.
\<close>

fun scan_lines :: "string \<Rightarrow> string list \<Rightarrow> string option" where
  "scan_lines keystr [] = None"
| "scan_lines keystr (l # ls) =
     (let conflinebuffer = c_str l
      in if (case conflinebuffer of [] \<Rightarrow> False | c # _ \<Rightarrow> c = CHR ''#'' \<or> c = CHR '';'')
         then scan_lines keystr ls
         else if strstr conflinebuffer keystr = None then scan_lines keystr ls
         else Some (trim_whitespace (drop 1 (find_equals conflinebuffer))))"

definition parseFTLconf :: "string option \<Rightarrow> string \<Rightarrow> string option" where
  "parseFTLconf fp key =
     (case fp of
        None \<Rightarrow> None
      | Some content \<Rightarrow> scan_lines (key @ ''='') (getlines content))"

text \<open>
  The start of the three readers that can be called without a file handle: the file to
  read, and whether the reader opened it itself.
\<close>

definition handle_or_open :: "filesys \<Rightarrow> string option \<Rightarrow> (string \<times> bool) option" where
  "handle_or_open fs fp =
     (case fp of
        Some content \<Rightarrow> Some (content, False)
      | None \<Rightarrow>
          (case openFTLconf fs of
             None \<Rightarrow> None
           | Some (path, content) \<Rightarrow> Some (content, True)))"


definition getPrivacyLevelLegacy :: "filesys \<Rightarrow> string option \<Rightarrow> ftl \<Rightarrow> ftl" where
  "getPrivacyLevelLegacy fs fp w =
     (case handle_or_open fs fp of
        None \<Rightarrow> w
      | Some (file, opened) \<Rightarrow>
          let buffer = parseFTLconf (Some file) ''PRIVACYLEVEL'';
              w1 = (case buffer of
                      None \<Rightarrow> w
                    | Some b \<Rightarrow>
                        let r = sscanf_i b;
                            val = assigned r 0
                        in if sscanf_ret r = 1 \<and>
                              val \<ge> PRIVACY_SHOW_ALL \<and> val \<le> PRIVACY_MAXIMUM \<and>
                              val > int (misc_privacylevel w)
                           then w\<lparr>misc_privacylevel := nat val\<rparr>
                           else w)
          in if opened then fclose w1 else w1)"

definition getBlockingModeLegacy :: "filesys \<Rightarrow> string option \<Rightarrow> ftl \<Rightarrow> ftl" where
  "getBlockingModeLegacy fs fp w0 =
     (let w = w0\<lparr>dns_blockingmode := dns_blockingmode_d w0\<rparr>
      in case handle_or_open fs fp of
           None \<Rightarrow> w
         | Some (file, opened) \<Rightarrow>
             let buffer = parseFTLconf (Some file) ''BLOCKINGMODE'';
                 w1 = (case buffer of
                         None \<Rightarrow> w
                       | Some b \<Rightarrow>
                           if strcasecmp b ''NXDOMAIN'' then w\<lparr>dns_blockingmode := MODE_NX\<rparr>
                           else if strcasecmp b ''NULL'' then w\<lparr>dns_blockingmode := MODE_NULL\<rparr>
                           else if strcasecmp b ''IP-NODATA-AAAA''
                             then w\<lparr>dns_blockingmode := MODE_IP_NODATA_AAAA\<rparr>
                           else if strcasecmp b ''IP'' then w\<lparr>dns_blockingmode := MODE_IP\<rparr>
                           else if strcasecmp b ''NODATA'' then w\<lparr>dns_blockingmode := MODE_NODATA\<rparr>
                           else log_line LOG_WARN ''Unknown blocking mode, using NULL as fallback'' w)
             in if opened then fclose w1 else w1)"

text \<open>\<^verbatim>\<open>parseBool\<close>: what it returns, and the value behind \<^verbatim>\<open>ptr\<close> afterwards.\<close>

definition parseBool :: "string option \<Rightarrow> bool \<Rightarrow> bool \<times> bool" where
  "parseBool option ptr =
     (case option of
        None \<Rightarrow> (False, ptr)
      | Some s \<Rightarrow>
          if strcasecmp s ''false'' \<or> strcasecmp s ''no'' then (True, False)
          else if strcasecmp s ''true'' \<or> strcasecmp s ''yes'' then (True, True)
          else (False, ptr))"

text \<open>
  \<^verbatim>\<open>getPath\<close>: the pointer it returns, and the state with what it logged. \<^verbatim>\<open>sscanf\<close> writes
  to the parameter \<^verbatim>\<open>ptr\<close> itself, so what is returned when it did not return 1 is the
  pointer as \<^verbatim>\<open>sscanf\<close> left it.
\<close>

definition getPath :: "string option \<Rightarrow> string \<Rightarrow> string option \<Rightarrow> ftl \<Rightarrow> string option \<times> ftl" where
  "getPath fp option ptr w =
     (case parseFTLconf fp option of
        None \<Rightarrow> (ptr, w)
      | Some buffer \<Rightarrow>
          let r = sscanf_ms buffer;
              ptr' = assigned_ms r ptr
          in if sscanf_ret r \<noteq> 1 then (ptr', w)
             else if (case ptr' of None \<Rightarrow> False | Some s \<Rightarrow> length s = 0)
               then (ptr', log_line LOG_INFO
                             (''   '' @ option @ '': Empty path is not possible, using default'') w)
             else (ptr', w))"

subsection \<open>What the model takes from outside\<close>

text \<open>
  Floating point is not modelled: a \<^verbatim>\<open>float\<close> is the rational it stands for (or no finite
  number), and the two operations of the C library and of the hardware that round, the
  conversion \<^verbatim>\<open>%f\<close> and the multiplication, are parameters. So are the values of the
  local variables that \<^verbatim>\<open>readFTLlegacy\<close> reads without having initialised them
  (\<^verbatim>\<open>unum\<close>, and the bytes of \<^verbatim>\<open>reply_addr6\<close> that \<^verbatim>\<open>inet_pton(AF_INET, ...)\<close> does not
  write), and the names \<^verbatim>\<open>debugstr\<close> gives the debug flags from \<^verbatim>\<open>DEBUG_DATABASE\<close> up to,
  and without, \<^verbatim>\<open>DEBUG_EXTRA\<close>.
\<close>

datatype cfloat = Fin rat | NonFin

record env =
  scanf_f :: "string \<Rightarrow> cfloat scan"
  fmul :: "cfloat \<Rightarrow> rat \<Rightarrow> cfloat"
  unum_init :: nat
  reply_addr6_init :: "byte list"
  debug_names :: "string list"

text \<open>\<open>f_between lo hi x\<close> is \<^verbatim>\<open>x >= lo && x <= hi\<close>; \<open>f_to_int\<close> is the cast \<^verbatim>\<open>(int)\<close>.\<close>

definition f_between :: "rat \<Rightarrow> rat \<Rightarrow> cfloat \<Rightarrow> bool" where
  "f_between lo hi x = (case x of Fin q \<Rightarrow> lo \<le> q \<and> q \<le> hi | NonFin \<Rightarrow> False)"

definition f_to_int :: "cfloat \<Rightarrow> int" where
  "f_to_int x = (case x of Fin q \<Rightarrow> (if q < 0 then - \<lfloor>- q\<rfloor> else \<lfloor>q\<rfloor>) | NonFin \<Rightarrow> 0)"

text \<open>The constant \<^verbatim>\<open>0.1f\<close>, and \<^verbatim>\<open>MAXLOGAGE\<close> (24, by the comment of its key).\<close>

abbreviation (input) float_0_1 :: rat where "float_0_1 \<equiv> 13421773 / 134217728"
abbreviation (input) MAXLOGAGE :: rat where "MAXLOGAGE \<equiv> 24"

subsection \<open>The keys of \<^verbatim>\<open>readFTLlegacy\<close>, one definition for each block of the function\<close>

definition legacy_MAXDBDAYS :: "string option \<Rightarrow> ftl \<Rightarrow> ftl" where
  "legacy_MAXDBDAYS fp w =
     (let maxdbdays_max = INT_MAX div 24 div 60 div 60
      in case parseFTLconf fp ''MAXDBDAYS'' of
           None \<Rightarrow> w
         | Some buffer \<Rightarrow>
             let r = sscanf_i buffer;
                 val = assigned r 0
             in if sscanf_ret r \<noteq> 0
                then let val' = (if val > maxdbdays_max then maxdbdays_max else val)
                     in if val' = -1 \<or> val' \<ge> 0 then w\<lparr>database_maxDBdays := val'\<rparr> else w
                else w)"

definition legacy_DBINTERVAL :: "env \<Rightarrow> string option \<Rightarrow> ftl \<Rightarrow> ftl" where
  "legacy_DBINTERVAL e fp w =
     (case parseFTLconf fp ''DBINTERVAL'' of
        None \<Rightarrow> w
      | Some buffer \<Rightarrow>
          let r = scanf_f e buffer;
              fvalue = assigned r (Fin 0)
          in if sscanf_ret r \<noteq> 0 \<and> f_between float_0_1 1440 fvalue
             then w\<lparr>database_DBinterval := nat (f_to_int (fmul e fvalue 60))\<rparr>
             else w)"

definition legacy_DBFILE :: "string option \<Rightarrow> ftl \<Rightarrow> ftl" where
  "legacy_DBFILE fp w =
     (let w1 = (case parseFTLconf fp ''DBFILE'' of
                  None \<Rightarrow> w\<lparr>files_database := files_database_d w\<rparr>
                | Some buffer \<Rightarrow>
                    let r = sscanf_ms buffer;
                        w' = w\<lparr>files_database := assigned_ms r (files_database w)\<rparr>
                    in if \<not> (sscanf_ret r \<noteq> 0)
                       then w'\<lparr>files_database := files_database_d w'\<rparr>
                       else w')
      in if (case files_database w1 of None \<Rightarrow> True | Some s \<Rightarrow> length s = 0)
         then w1\<lparr>files_database := files_database_d w1, database_maxDBdays := 0\<rparr>
         else w1)"

definition legacy_MAXLOGAGE :: "env \<Rightarrow> string option \<Rightarrow> ftl \<Rightarrow> ftl" where
  "legacy_MAXLOGAGE e fp w =
     (case parseFTLconf fp ''MAXLOGAGE'' of
        None \<Rightarrow> w
      | Some buffer \<Rightarrow>
          let r = scanf_f e buffer;
              fvalue = assigned r (Fin 0)
          in if sscanf_ret r \<noteq> 0 \<and> f_between 0 (1 * MAXLOGAGE) fvalue
             then w\<lparr>database_maxHistory := nat (f_to_int (fmul e fvalue 3600))\<rparr>
             else w)"

definition legacy_IGNORE_LOCALHOST :: "string option \<Rightarrow> ftl \<Rightarrow> ftl" where
  "legacy_IGNORE_LOCALHOST fp w =
     (let buffer = parseFTLconf fp ''IGNORE_LOCALHOST'';
          w1 = w\<lparr>dns_ignoreLocalhost := snd (parseBool buffer (dns_ignoreLocalhost w))\<rparr>
      in case buffer of
           None \<Rightarrow> w1
         | Some b \<Rightarrow> if strcasecmp b ''yes'' then w1\<lparr>dns_ignoreLocalhost := True\<rparr> else w1)"

definition legacy_ANALYZE_ONLY_A_AND_AAAA :: "string option \<Rightarrow> ftl \<Rightarrow> ftl" where
  "legacy_ANALYZE_ONLY_A_AND_AAAA fp w =
     (let buffer = parseFTLconf fp ''ANALYZE_ONLY_A_AND_AAAA'';
          w1 = w\<lparr>dns_analyzeOnlyAandAAAA := snd (parseBool buffer (dns_analyzeOnlyAandAAAA w))\<rparr>
      in case buffer of
           None \<Rightarrow> w1
         | Some b \<Rightarrow> if strcasecmp b ''true'' then w1\<lparr>dns_analyzeOnlyAandAAAA := True\<rparr> else w1)"

definition legacy_DELAY_STARTUP :: "env \<Rightarrow> string option \<Rightarrow> ftl \<Rightarrow> ftl" where
  "legacy_DELAY_STARTUP e fp w =
     (case parseFTLconf fp ''DELAY_STARTUP'' of
        None \<Rightarrow> w
      | Some buffer \<Rightarrow>
          let r = sscanf_u buffer;
              unum = assigned r (unum_init e)
          in if sscanf_ret r \<noteq> 0 \<and> unum > 0 \<and> unum \<le> 300
             then w\<lparr>misc_delay_startup := unum\<rparr>
             else w)"

definition legacy_WEBPORT :: "string option \<Rightarrow> ftl \<Rightarrow> ftl" where
  "legacy_WEBPORT fp w =
     (case parseFTLconf fp ''WEBPORT'' of
        None \<Rightarrow> w
      | Some buffer \<Rightarrow> if length buffer > 0 then w\<lparr>http_port := Some buffer\<rparr> else w)"

definition legacy_WEBACL :: "string option \<Rightarrow> ftl \<Rightarrow> ftl" where
  "legacy_WEBACL fp w =
     (case parseFTLconf fp ''WEBACL'' of
        None \<Rightarrow> w
      | Some buffer \<Rightarrow> w\<lparr>http_acl := Some buffer\<rparr>)"

definition legacy_API_SESSION_TIMEOUT :: "string option \<Rightarrow> ftl \<Rightarrow> ftl" where
  "legacy_API_SESSION_TIMEOUT fp w =
     (case parseFTLconf fp ''API_SESSION_TIMEOUT'' of
        None \<Rightarrow> w
      | Some buffer \<Rightarrow>
          let r = sscanf_i buffer;
              val = assigned r 0
          in if sscanf_ret r \<noteq> 0 \<and> val > 0 then w\<lparr>http_sessionTimeout := nat val\<rparr> else w)"

text \<open>
  \<^verbatim>\<open>MAXNETAGE\<close> declares \<^verbatim>\<open>ivalue\<close>, which \<^verbatim>\<open>CHECK_SHMEM\<close> and \<^verbatim>\<open>CHECK_DISK\<close> use again
  without setting it: the three blocks pass it on.
\<close>

definition legacy_MAXNETAGE :: "string option \<Rightarrow> ftl \<Rightarrow> int \<times> ftl" where
  "legacy_MAXNETAGE fp w =
     (case parseFTLconf fp ''MAXNETAGE'' of
        None \<Rightarrow> (0, w)
      | Some buffer \<Rightarrow>
          let r = sscanf_i buffer;
              ivalue = assigned r 0
          in if sscanf_ret r \<noteq> 0 \<and> ivalue > 0 \<and> ivalue \<le> 8760
             then (ivalue, w\<lparr>database_network_expire := nat ivalue\<rparr>)
             else (ivalue, w))"

text \<open>\<open>set_and_is buffer s\<close> is the test \<^verbatim>\<open>buffer != NULL && strcasecmp(buffer, s) == 0\<close>.\<close>

definition set_and_is :: "string option \<Rightarrow> string \<Rightarrow> bool" where
  "set_and_is buffer s = (case buffer of None \<Rightarrow> False | Some b \<Rightarrow> strcasecmp b s)"

definition legacy_REFRESH_HOSTNAMES :: "string option \<Rightarrow> ftl \<Rightarrow> ftl" where
  "legacy_REFRESH_HOSTNAMES fp w =
     (let buffer = parseFTLconf fp ''REFRESH_HOSTNAMES''
      in if set_and_is buffer ''ALL'' then w\<lparr>resolver_refreshNames := REFRESH_ALL\<rparr>
         else if set_and_is buffer ''NONE'' then w\<lparr>resolver_refreshNames := REFRESH_NONE\<rparr>
         else if set_and_is buffer ''UNKNOWN'' then w\<lparr>resolver_refreshNames := REFRESH_UNKNOWN\<rparr>
         else w\<lparr>resolver_refreshNames := REFRESH_IPV4_ONLY\<rparr>)"

definition legacy_RATE_LIMIT :: "string option \<Rightarrow> ftl \<Rightarrow> ftl" where
  "legacy_RATE_LIMIT fp w =
     (case parseFTLconf fp ''RATE_LIMIT'' of
        None \<Rightarrow> w
      | Some buffer \<Rightarrow>
          (case sscanf_u_u buffer (0, 0) of
             (ret, count, interval) \<Rightarrow>
               if ret = 2
               then w\<lparr>dns_rateLimit_count := count, dns_rateLimit_interval := interval\<rparr>
               else w))"

definition legacy_LOCAL_IPV4 :: "string option \<Rightarrow> ftl \<Rightarrow> ftl" where
  "legacy_LOCAL_IPV4 fp w =
     (let w1 = w\<lparr>dns_reply_host_overwrite_v4 := False, dns_reply_host_v4 := replicate 4 0\<rparr>
      in case parseFTLconf fp ''LOCAL_IPV4'' of
           None \<Rightarrow> w1
         | Some buffer \<Rightarrow>
             (case inet_pton AF_INET buffer of
                None \<Rightarrow> w1
              | Some a \<Rightarrow> w1\<lparr>dns_reply_host_v4 := a, dns_reply_host_overwrite_v4 := True\<rparr>))"

definition legacy_LOCAL_IPV6 :: "string option \<Rightarrow> ftl \<Rightarrow> ftl" where
  "legacy_LOCAL_IPV6 fp w =
     (let w1 = w\<lparr>dns_reply_host_overwrite_v6 := False, dns_reply_host_v6 := replicate 16 0\<rparr>
      in case parseFTLconf fp ''LOCAL_IPV6'' of
           None \<Rightarrow> w1
         | Some buffer \<Rightarrow>
             (case inet_pton AF_INET6 buffer of
                None \<Rightarrow> w1
              | Some a \<Rightarrow> w1\<lparr>dns_reply_host_v6 := a, dns_reply_host_overwrite_v6 := True\<rparr>))"

definition legacy_BLOCK_IPV4 :: "string option \<Rightarrow> ftl \<Rightarrow> ftl" where
  "legacy_BLOCK_IPV4 fp w =
     (let w1 = w\<lparr>dns_reply_blocking_overwrite_v4 := False, dns_reply_blocking_v4 := replicate 4 0\<rparr>
      in case parseFTLconf fp ''BLOCK_IPV4'' of
           None \<Rightarrow> w1
         | Some buffer \<Rightarrow>
             (case inet_pton AF_INET buffer of
                None \<Rightarrow> w1
              | Some a \<Rightarrow> w1\<lparr>dns_reply_blocking_v4 := a, dns_reply_blocking_overwrite_v4 := True\<rparr>))"

definition legacy_BLOCK_IPV6 :: "string option \<Rightarrow> ftl \<Rightarrow> ftl" where
  "legacy_BLOCK_IPV6 fp w =
     (let w1 = w\<lparr>dns_reply_blocking_overwrite_v6 := False, dns_reply_blocking_v6 := replicate 16 0\<rparr>
      in case parseFTLconf fp ''BLOCK_IPV6'' of
           None \<Rightarrow> w1
         | Some buffer \<Rightarrow>
             (case inet_pton AF_INET6 buffer of
                None \<Rightarrow> w1
              | Some a \<Rightarrow> w1\<lparr>dns_reply_blocking_v6 := a, dns_reply_blocking_overwrite_v6 := True\<rparr>))"

definition legacy_REPLY_ADDR4 :: "string option \<Rightarrow> ftl \<Rightarrow> ftl" where
  "legacy_REPLY_ADDR4 fp w =
     (case parseFTLconf fp ''REPLY_ADDR4'' of
        None \<Rightarrow> w
      | Some buffer \<Rightarrow>
          (case inet_pton AF_INET buffer of
             None \<Rightarrow> w
           | Some reply_addr4 \<Rightarrow>
               if dns_reply_host_overwrite_v4 w \<or> dns_reply_blocking_overwrite_v4 w
               then log_line LOG_WARN
                      ''Ignoring REPLY_ADDR4 as LOCAL_IPV4 or BLOCK_IPV4 has been specified.'' w
               else w\<lparr>dns_reply_host_overwrite_v4 := True, dns_reply_host_v4 := reply_addr4,
                       dns_reply_blocking_overwrite_v4 := True,
                       dns_reply_blocking_v4 := reply_addr4\<rparr>))"

text \<open>
  The block of \<^verbatim>\<open>REPLY_ADDR6\<close> calls \<^verbatim>\<open>inet_pton\<close> with \<^verbatim>\<open>AF_INET\<close>: on success the four
  bytes of an IPv4 address are written to the start of \<^verbatim>\<open>reply_addr6\<close>, whose other
  twelve bytes are what they were.
\<close>

definition legacy_REPLY_ADDR6 :: "env \<Rightarrow> string option \<Rightarrow> ftl \<Rightarrow> ftl" where
  "legacy_REPLY_ADDR6 e fp w =
     (case parseFTLconf fp ''REPLY_ADDR6'' of
        None \<Rightarrow> w
      | Some buffer \<Rightarrow>
          (case inet_pton AF_INET buffer of
             None \<Rightarrow> w
           | Some a \<Rightarrow>
               let reply_addr6 = a @ drop 4 (reply_addr6_init e)
               in if dns_reply_host_overwrite_v6 w \<or> dns_reply_blocking_overwrite_v6 w
                  then log_line LOG_WARN
                         ''Ignoring REPLY_ADDR6 as LOCAL_IPV6 or BLOCK_IPV6 has been specified.'' w
                  else w\<lparr>dns_reply_host_overwrite_v6 := True, dns_reply_host_v6 := reply_addr6,
                          dns_reply_blocking_overwrite_v6 := True,
                          dns_reply_blocking_v6 := reply_addr6\<rparr>))"

definition legacy_PIHOLE_PTR :: "string option \<Rightarrow> ftl \<Rightarrow> ftl" where
  "legacy_PIHOLE_PTR fp w =
     (case parseFTLconf fp ''PIHOLE_PTR'' of
        None \<Rightarrow> w
      | Some buffer \<Rightarrow>
          if strcasecmp buffer ''none'' \<or> strcasecmp buffer ''false''
            then w\<lparr>dns_piholePTR := PTR_NONE\<rparr>
          else if strcasecmp buffer ''hostname'' then w\<lparr>dns_piholePTR := PTR_HOSTNAME\<rparr>
          else if strcasecmp buffer ''hostnamefqdn'' then w\<lparr>dns_piholePTR := PTR_HOSTNAMEFQDN\<rparr>
          else w)"

definition legacy_REPLY_WHEN_BUSY :: "string option \<Rightarrow> ftl \<Rightarrow> ftl" where
  "legacy_REPLY_WHEN_BUSY fp w =
     (case parseFTLconf fp ''REPLY_WHEN_BUSY'' of
        None \<Rightarrow> w
      | Some buffer \<Rightarrow>
          if strcasecmp buffer ''DROP'' then w\<lparr>dns_replyWhenBusy := BUSY_DROP\<rparr>
          else if strcasecmp buffer ''REFUSE'' then w\<lparr>dns_replyWhenBusy := BUSY_REFUSE\<rparr>
          else if strcasecmp buffer ''BLOCK'' then w\<lparr>dns_replyWhenBusy := BUSY_BLOCK\<rparr>
          else w)"

definition legacy_BLOCK_TTL :: "string option \<Rightarrow> ftl \<Rightarrow> ftl" where
  "legacy_BLOCK_TTL fp w =
     (let w1 = w\<lparr>dns_blockTTL := 2\<rparr>
      in case parseFTLconf fp ''BLOCK_TTL'' of
           None \<Rightarrow> w1
         | Some buffer \<Rightarrow>
             let r = sscanf_u buffer;
                 uval = assigned r 0
             in if sscanf_ret r \<noteq> 0 then w1\<lparr>dns_blockTTL := uval\<rparr> else w1)"

definition legacy_CHECK_SHMEM :: "string option \<Rightarrow> int \<Rightarrow> ftl \<Rightarrow> int \<times> ftl" where
  "legacy_CHECK_SHMEM fp ivalue0 w =
     (let w1 = w\<lparr>misc_check_shmem := 90\<rparr>
      in case parseFTLconf fp ''CHECK_SHMEM'' of
           None \<Rightarrow> (ivalue0, w1)
         | Some buffer \<Rightarrow>
             let r = sscanf_i buffer;
                 ivalue = assigned r ivalue0
             in if sscanf_ret r \<noteq> 0 \<and> ivalue \<ge> 0 \<and> ivalue \<le> 100
                then (ivalue, w1\<lparr>misc_check_shmem := nat ivalue\<rparr>)
                else (ivalue, w1))"

text \<open>
  \<^verbatim>\<open>CHECK_DISK\<close> goes through the \<^verbatim>\<open>bool\<close> member of the item: 90 and every other value
  but 0 is stored as true.
\<close>

definition legacy_CHECK_DISK :: "string option \<Rightarrow> int \<Rightarrow> ftl \<Rightarrow> ftl" where
  "legacy_CHECK_DISK fp ivalue0 w =
     (let w1 = w\<lparr>misc_check_disk := ((90 :: int) \<noteq> 0)\<rparr>
      in case parseFTLconf fp ''CHECK_DISK'' of
           None \<Rightarrow> w1
         | Some buffer \<Rightarrow>
             let r = sscanf_i buffer;
                 ivalue = assigned r ivalue0
             in if sscanf_ret r \<noteq> 0 \<and> ivalue \<ge> 0 \<and> ivalue \<le> 100
                then w1\<lparr>misc_check_disk := (ivalue \<noteq> 0)\<rparr>
                else w1)"

text \<open>
  Modelled from the spec: \<^verbatim>\<open>set_all_debug\<close>, \<^verbatim>\<open>get_debug_item\<close>, \<^verbatim>\<open>debugstr\<close> and
  \<^verbatim>\<open>parse_debug_options\<close> are not among the sources. The spec has ``one bit per debug
  category plus an "all" pseudo-flag, each with a name derived from its symbol'', and
  the ``presence of any enabled debug flag after this pass'' passed on to the resolver:
  a debug item is found by the name of its flag, \<^verbatim>\<open>set_all_debug(false)\<close> clears every
  item, and \<^verbatim>\<open>debug_any\<close> says that some item is set.
\<close>

definition setDebugOption :: "string option \<Rightarrow> string \<Rightarrow> ftl \<Rightarrow> ftl" where
  "setDebugOption fp option w =
     (case parseFTLconf fp option of
        None \<Rightarrow> w
      | Some buffer \<Rightarrow>
          (case parseBool (Some buffer) False of
             (found, b) \<Rightarrow> if found then w\<lparr>debug := (debug w)(option := b)\<rparr> else w))"

definition readDebugingSettingsLegacy :: "env \<Rightarrow> filesys \<Rightarrow> string option \<Rightarrow> ftl \<Rightarrow> ftl" where
  "readDebugingSettingsLegacy e fs fp w0 =
     (let w = w0\<lparr>debug := (\<lambda>name. False)\<rparr>
      in case handle_or_open fs fp of
           None \<Rightarrow> w
         | Some (file, opened) \<Rightarrow>
             let w1 = setDebugOption (Some file) ''DEBUG_ALL'' w;
                 w2 = fold (setDebugOption (Some file)) (debug_names e) w1;
                 debug_any = list_ex (debug w2) (''DEBUG_ALL'' # debug_names e);
                 w3 = (if debug_any then w2\<lparr>argv_dnsmasq2 := Some ''--log-debug''\<rparr> else w2)
             in if opened then fclose w3 else w3)"

text \<open>
  The two patterns that \<^verbatim>\<open>readFTLlegacy\<close> repeats for most keys, the item being given by
  its update (and its selector): \<^verbatim>\<open>buffer = parseFTLconf(fp, key); parseBool(buffer, &item);\<close>
  and \<^verbatim>\<open>item = getPath(fp, key, item);\<close>.
\<close>

definition legacy_bool ::
  "string option \<Rightarrow> string \<Rightarrow> ((bool \<Rightarrow> bool) \<Rightarrow> ftl \<Rightarrow> ftl) \<Rightarrow> ftl \<Rightarrow> ftl" where
  "legacy_bool fp key item_update w =
     item_update (\<lambda>old. snd (parseBool (parseFTLconf fp key) old)) w"

definition legacy_path ::
  "string option \<Rightarrow> string \<Rightarrow> (ftl \<Rightarrow> string option) \<Rightarrow>
   ((string option \<Rightarrow> string option) \<Rightarrow> ftl \<Rightarrow> ftl) \<Rightarrow> ftl \<Rightarrow> ftl" where
  "legacy_path fp key item item_update w =
     (case getPath fp key (item w) w of (ptr, w') \<Rightarrow> item_update (\<lambda>old. ptr) w')"

subsection \<open>\<^verbatim>\<open>readFTLlegacy\<close>\<close>

text \<open>
  The blocks in the order of the function. The key \<^verbatim>\<open>NICE\<close> is looked up and not used. The result is the path of the file read
  (\<open>None\<close> when there is none) and the state.
\<close>

definition readFTLlegacy :: "env \<Rightarrow> filesys \<Rightarrow> ftl \<Rightarrow> string option \<times> ftl" where
  "readFTLlegacy e fs w0 =
     (case openFTLconf fs of
        None \<Rightarrow> (None, w0)
      | Some (path, content) \<Rightarrow>
          let fp = Some content;
              w = log_line LOG_NOTICE ''Reading legacy config file'' w0;
              w = legacy_bool fp ''AAAA_QUERY_ANALYSIS'' dns_analyzeAAAA_update w;
              w = legacy_MAXDBDAYS fp w;
              w = legacy_bool fp ''RESOLVE_IPV6'' resolver_resolveIPv6_update w;
              w = legacy_bool fp ''RESOLVE_IPV4'' resolver_resolveIPv4_update w;
              w = legacy_DBINTERVAL e fp w;
              w = legacy_DBFILE fp w;
              w = legacy_MAXLOGAGE e fp w;
              w = getPrivacyLevelLegacy fs fp w;
              w = legacy_IGNORE_LOCALHOST fp w;
              w = getBlockingModeLegacy fs fp w;
              w = legacy_ANALYZE_ONLY_A_AND_AAAA fp w;
              w = legacy_bool fp ''DBIMPORT'' database_DBimport_update w;
              w = legacy_path fp ''PIDFILE'' files_pid files_pid_update w;
              w = legacy_path fp ''SETUPVARSFILE'' files_setupVars files_setupVars_update w;
              w = legacy_path fp ''MACVENDORDB'' files_macvendor files_macvendor_update w;
              w = legacy_path fp ''GRAVITYDB'' files_gravity files_gravity_update w;
              w = legacy_bool fp ''PARSE_ARP_CACHE'' database_network_parseARPcache_update w;
              w = legacy_bool fp ''CNAME_DEEP_INSPECT'' dns_CNAMEdeepInspect_update w;
              w = legacy_DELAY_STARTUP e fp w;
              w = legacy_bool fp ''BLOCK_ESNI'' dns_blockESNI_update w;
              w = legacy_path fp ''WEBROOT'' http_paths_webroot http_paths_webroot_update w;
              w = legacy_WEBPORT fp w;
              w = legacy_path fp ''WEBHOME'' http_paths_webhome http_paths_webhome_update w;
              w = legacy_WEBACL fp w;
              w = legacy_bool fp ''API_AUTH_FOR_LOCALHOST'' http_localAPIauth_update w;
              w = legacy_API_SESSION_TIMEOUT fp w;
              w = legacy_bool fp ''API_PRETTY_JSON'' http_prettyJSON_update w;
              w = legacy_path fp ''API_ERROR_LOG'' files_ph7_error files_ph7_error_update w;
              w = legacy_path fp ''API_INFO_LOG'' files_http_info files_http_info_update w;
              (ivalue, w) = legacy_MAXNETAGE fp w;
              w = legacy_bool fp ''NAMES_FROM_NETDB'' resolver_networkNames_update w;
              w = legacy_bool fp ''EDNS0_ECS'' dns_EDNS0ECS_update w;
              w = legacy_REFRESH_HOSTNAMES fp w;
              w = legacy_path fp ''WEBDOMAIN'' http_domain http_domain_update w;
              w = legacy_RATE_LIMIT fp w;
              w = legacy_LOCAL_IPV4 fp w;
              w = legacy_LOCAL_IPV6 fp w;
              w = legacy_BLOCK_IPV4 fp w;
              w = legacy_BLOCK_IPV6 fp w;
              w = legacy_REPLY_ADDR4 fp w;
              w = legacy_REPLY_ADDR6 e fp w;
              w = legacy_bool fp ''SHOW_DNSSEC'' dns_showDNSSEC_update w;
              w = legacy_bool fp ''MOZILLA_CANARY'' dns_specialDomains_mozillaCanary_update w;
              w = legacy_PIHOLE_PTR fp w;
              w = legacy_bool fp ''ADDR2LINE'' misc_addr2line_update w;
              w = legacy_REPLY_WHEN_BUSY fp w;
              w = legacy_BLOCK_TTL fp w;
              w = legacy_bool fp ''BLOCK_ICLOUD_PR'' dns_specialDomains_iCloudPrivateRelay_update w;
              w = legacy_bool fp ''CHECK_LOAD'' misc_check_load_update w;
              (ivalue, w) = legacy_CHECK_SHMEM fp ivalue w;
              w = legacy_CHECK_DISK fp ivalue w;
              w = readDebugingSettingsLegacy e fs fp w
          in (Some path, fclose w))"

section \<open>The structured file: the queries before the load\<close>

text \<open>
  Modelled from the spec: the library that parses the structured file is not among the
  sources. The spec has a ``nested table document'' from which the readers descend
  through ``nested tables'' and take a value by ``typed numeric/boolean extraction'' or
  ``direct string extraction'': a table lists its keys with a boolean, an integer (of 64
  bits), a string, a table, or a value of another kind, and \<open>toml_table_in\<close>,
  \<open>toml_bool_in\<close>, \<open>toml_int_in\<close> and \<open>toml_string_in\<close> find a key whose value has the kind
  asked for (\<open>None\<close> where the library reports that it is not \<^verbatim>\<open>ok\<close>).
\<close>

datatype toml_value =
  TBool bool | TInt int | TString string | TTable "(string \<times> toml_value) list" | TOther

type_synonym toml_table = "(string \<times> toml_value) list"

definition toml_table_in :: "toml_table \<Rightarrow> string \<Rightarrow> toml_table option" where
  "toml_table_in tab key = (case map_of tab key of Some (TTable sub) \<Rightarrow> Some sub | _ \<Rightarrow> None)"

definition toml_bool_in :: "toml_table \<Rightarrow> string \<Rightarrow> bool option" where
  "toml_bool_in tab key = (case map_of tab key of Some (TBool b) \<Rightarrow> Some b | _ \<Rightarrow> None)"

definition toml_int_in :: "toml_table \<Rightarrow> string \<Rightarrow> int option" where
  "toml_int_in tab key = (case map_of tab key of Some (TInt i) \<Rightarrow> Some i | _ \<Rightarrow> None)"

definition toml_string_in :: "toml_table \<Rightarrow> string \<Rightarrow> string option" where
  "toml_string_in tab key = (case map_of tab key of Some (TString s) \<Rightarrow> Some s | _ \<Rightarrow> None)"

text \<open>
  The parser itself, \<^verbatim>\<open>toml_parse_file\<close>, is a parameter of the readers: from the content
  of the file, the message it leaves in \<^verbatim>\<open>errbuf\<close> or the table of the document. So
  is \<^verbatim>\<open>get_blocking_mode_val\<close> (the parameter \<open>blocking_mode_val\<close>), with \<open>None\<close> for its
  result -1, and so are the key and the help text of the blocking-mode item,
  \<^verbatim>\<open>config.dns.blockingmode.k\<close> and \<^verbatim>\<open>config.dns.blockingmode.h\<close> (the parameters \<open>k\<close> and
  \<open>h\<close>), which are set where the items are registered.
\<close>

type_synonym toml_parser = "string \<Rightarrow> string + toml_table"

definition openFTLtoml :: "filesys \<Rightarrow> string \<Rightarrow> string option" where
  "openFTLtoml fs mode =
     (if mode = ''r'' \<and> local_toml fs \<noteq> None then local_toml fs else global_toml fs)"

definition parseTOML :: "toml_parser \<Rightarrow> filesys \<Rightarrow> ftl \<Rightarrow> toml_table option \<times> ftl" where
  "parseTOML toml_parse_file fs w =
     (case openFTLtoml fs ''r'' of
        None \<Rightarrow> (None, w)
      | Some content \<Rightarrow>
          (case toml_parse_file content of
             Inl errbuf \<Rightarrow>
               (None, log_line LOG_ERR (''Cannot parse config file: '' @ errbuf) (fclose w))
           | Inr conf \<Rightarrow> (Some conf, fclose w)))"

definition getPrivacyLevel :: "toml_parser \<Rightarrow> filesys \<Rightarrow> ftl \<Rightarrow> bool \<times> ftl" where
  "getPrivacyLevel toml_parse_file fs w =
     (case parseTOML toml_parse_file fs w of
        (None, w1) \<Rightarrow> (False, w1)
      | (Some conf, w1) \<Rightarrow>
          (case toml_table_in conf ''misc'' of
             None \<Rightarrow> (False, w1)
           | Some misc \<Rightarrow>
               (case toml_int_in misc ''privacyLevel'' of
                  None \<Rightarrow> (False, w1)
                | Some privacylevel \<Rightarrow>
                    if privacylevel \<ge> PRIVACY_SHOW_ALL \<and> privacylevel \<le> PRIVACY_MAXIMUM
                    then (True, w1\<lparr>misc_privacylevel := nat privacylevel\<rparr>)
                    else (True, log_line LOG_WARN ''Invalid setting for misc.privacyLevel'' w1))))"

definition getBlockingMode ::
  "toml_parser \<Rightarrow> (string \<Rightarrow> blocking_mode option) \<Rightarrow> string \<Rightarrow> string \<Rightarrow> filesys \<Rightarrow> ftl \<Rightarrow>
   bool \<times> ftl" where
  "getBlockingMode toml_parse_file blocking_mode_val k h fs w =
     (case parseTOML toml_parse_file fs w of
        (None, w1) \<Rightarrow> (False, w1)
      | (Some conf, w1) \<Rightarrow>
          (case toml_table_in conf ''dns'' of
             None \<Rightarrow> (False, w1)
           | Some dns \<Rightarrow>
               (case toml_string_in dns ''blockingmode'' of
                  None \<Rightarrow> (False, w1)
                | Some blockingmode \<Rightarrow>
                    (case blocking_mode_val blockingmode of
                       Some blocking_mode \<Rightarrow> (True, w1\<lparr>dns_blockingmode := blocking_mode\<rparr>)
                     | None \<Rightarrow>
                         (True, log_line LOG_WARN
                            (''Config setting '' @ k @ '' is invalid, allowed options are: '' @ h)
                            w1)))))"

text \<open>
  \<^verbatim>\<open>getLogFilePathTOML\<close> gives the current path to \<^verbatim>\<open>strcmp\<close>: with a \<^verbatim>\<open>NULL\<close> there the call
  does not return, and the result is \<open>None\<close>.
\<close>

definition getLogFilePathTOML :: "toml_parser \<Rightarrow> filesys \<Rightarrow> ftl \<Rightarrow> (bool \<times> ftl) option" where
  "getLogFilePathTOML toml_parse_file fs w =
     (case parseTOML toml_parse_file fs w of
        (None, w1) \<Rightarrow> Some (False, w1)
      | (Some conf, w1) \<Rightarrow>
          (case toml_table_in conf ''files'' of
             None \<Rightarrow> Some (False, w1)
           | Some files \<Rightarrow>
               (case toml_string_in files ''log'' of
                  None \<Rightarrow> Some (False, w1)
                | Some log_s \<Rightarrow>
                    (case files_log w1 of
                       None \<Rightarrow> None
                     | Some current \<Rightarrow>
                         if current \<noteq> log_s then Some (True, w1\<lparr>files_log := Some log_s\<rparr>)
                         else Some (True, w1)))))"

text \<open>
  Two states hold the same configuration when they differ in nothing but the log and the
  count of closed files.
\<close>

definition same_config :: "ftl \<Rightarrow> ftl \<Rightarrow> bool" where
  "same_config w' w = (w'\<lparr>log_out := log_out w, fclose_count := fclose_count w\<rparr> = w)"

subsection \<open>A key that is absent, or whose value is not accepted\<close>











text \<open>
  The block of \<^verbatim>\<open>DBFILE\<close> sets \<^verbatim>\<open>maxDBdays\<close> to 0 when it ends with no database path: when
  the key is absent and the default of the item is no path, or when the value of the key
  is empty or white space (\<^verbatim>\<open>sscanf\<close> then leaves \<^verbatim>\<open>NULL\<close> in the item). \<open>has_path\<close> says that a string item
  holds a path that is not empty, \<open>database_path_given\<close> that what \<^verbatim>\<open>parseFTLconf\<close> returned
  for \<^verbatim>\<open>DBFILE\<close> and the default of the item let the block end with one.
\<close>

definition has_path :: "string option \<Rightarrow> bool" where
  "has_path s = (case s of None \<Rightarrow> False | Some p \<Rightarrow> p \<noteq> [])"

definition database_path_given :: "string option \<Rightarrow> string option \<Rightarrow> bool" where
  "database_path_given buffer dflt =
     (case buffer of None \<Rightarrow> has_path dflt | Some b \<Rightarrow> dropWhile isspace b \<noteq> [])"

section \<open>A state and a file system for the examples\<close>

text \<open>
  Every item stands at the default that the comments of \<^verbatim>\<open>readFTLlegacy\<close> give for its
  key, or at an unset value where they give none.
\<close>

definition example_ftl :: ftl where
  "example_ftl = \<lparr>
     dns_analyzeAAAA = True, database_maxDBdays = 365, resolver_resolveIPv6 = True,
     resolver_resolveIPv4 = True, database_DBinterval = 60,
     files_database = Some ''/etc/pihole/pihole-FTL.db'',
     files_database_d = Some ''/etc/pihole/pihole-FTL.db'',
     database_maxHistory = 86400, misc_privacylevel = 0, dns_ignoreLocalhost = False,
     dns_blockingmode = MODE_NULL, dns_blockingmode_d = MODE_NULL,
     dns_analyzeOnlyAandAAAA = False, database_DBimport = True,
     files_pid = None, files_setupVars = None, files_macvendor = None, files_gravity = None,
     database_network_parseARPcache = True, dns_CNAMEdeepInspect = True,
     misc_delay_startup = 0, dns_blockESNI = True, http_paths_webroot = None,
     http_port = Some ''8080'', http_paths_webhome = Some ''/admin/'', http_acl = None,
     http_localAPIauth = True, http_sessionTimeout = 300, http_prettyJSON = False,
     files_ph7_error = None, files_http_info = None, database_network_expire = 365,
     resolver_networkNames = True, dns_EDNS0ECS = True,
     resolver_refreshNames = REFRESH_IPV4_ONLY, http_domain = None,
     dns_rateLimit_count = 1000, dns_rateLimit_interval = 60,
     dns_reply_host_overwrite_v4 = False, dns_reply_host_v4 = replicate 4 0,
     dns_reply_host_overwrite_v6 = False, dns_reply_host_v6 = replicate 16 0,
     dns_reply_blocking_overwrite_v4 = False, dns_reply_blocking_v4 = replicate 4 0,
     dns_reply_blocking_overwrite_v6 = False, dns_reply_blocking_v6 = replicate 16 0,
     dns_showDNSSEC = True, dns_specialDomains_mozillaCanary = True,
     dns_piholePTR = PTR_PIHOLE, misc_addr2line = True, dns_replyWhenBusy = BUSY_BLOCK,
     dns_blockTTL = 2, dns_specialDomains_iCloudPrivateRelay = True, misc_check_load = True,
     misc_check_shmem = 90, misc_check_disk = True,
     files_log = Some ''/var/log/pihole/FTL.log'', debug = (\<lambda>name. False), log_out = [],
     fclose_count = 0, argv_dnsmasq2 = None\<rparr>"

definition example_env :: env where
  "example_env = \<lparr>
     scanf_f = (\<lambda>buffer. ScanFail),
     fmul = (\<lambda>x c. case x of Fin q \<Rightarrow> Fin (q * c) | NonFin \<Rightarrow> NonFin),
     unum_init = 0, reply_addr6_init = replicate 16 0,
     debug_names = [''DEBUG_DATABASE'', ''DEBUG_LOCKS'', ''DEBUG_CONFIG'']\<rparr>"

definition no_files :: filesys where
  "no_files = \<lparr>local_conf = None, global_conf = None, local_toml = None, global_toml = None\<rparr>"




section \<open>toml_helper.c: the writer\<close>

text \<open>
  \<^verbatim>\<open>printTOMLstring\<close> writes to a stream; the model returns the bytes written.
  \<open>hex_digit\<close> and \<open>hex2\<close> are \<^verbatim>\<open>printf("%02x", ch & 0xff)\<close>.
\<close>

definition hex_digit :: "nat \<Rightarrow> char" where
  "hex_digit n = (if n < 10 then char_of (48 + n) else char_of (87 + n))"

definition hex2 :: "char \<Rightarrow> string" where
  "hex2 ch = [hex_digit ((of_char ch :: nat) div 16), hex_digit ((of_char ch :: nat) mod 16)]"

text \<open>The first loop of \<^verbatim>\<open>printTOMLstring\<close>: it runs while \<^verbatim>\<open>*p && ok\<close>.\<close>

fun scan_ok :: "string \<Rightarrow> bool \<Rightarrow> bool" where
  "scan_ok [] ok = ok"
| "scan_ok (ch # p) ok =
     (if ok then scan_ok p (isprint ch \<and> ch \<noteq> dquote \<and> ch \<noteq> backslash) else ok)"

text \<open>The body of the second loop, for one character.\<close>

definition escape_char :: "char \<Rightarrow> string" where
  "escape_char ch =
     (if isprint ch \<and> ch \<noteq> dquote \<and> ch \<noteq> backslash then [ch]
      else if ch = CHR 0x08 then [backslash, CHR ''b'']
      else if ch = CHR 0x09 then [backslash, CHR ''t'']
      else if ch = CHR 0x0A then [backslash, CHR ''n'']
      else if ch = CHR 0x0C then [backslash, CHR ''f'']
      else if ch = CHR 0x0D then [backslash, CHR ''r'']
      else if ch = dquote then [backslash, dquote]
      else if ch = backslash then [backslash, backslash]
      else [backslash, CHR ''0'', CHR ''x''] @ hex2 ch)"

fun escape_loop :: "string \<Rightarrow> string" where
  "escape_loop [] = []"
| "escape_loop (ch # s) = escape_char ch @ escape_loop s"

definition fast_path :: "string \<Rightarrow> string" where
  "fast_path s = [dquote] @ s @ [dquote]"

definition slow_path :: "string \<Rightarrow> string" where
  "slow_path s = [dquote] @ escape_loop s @ [dquote]"

definition printTOMLstring :: "string option \<Rightarrow> string" where
  "printTOMLstring p =
     (let s = (case p of None \<Rightarrow> [] | Some s' \<Rightarrow> s')
      in if scan_ok s True then fast_path s else slow_path s)"

subsection \<open>Numbers and addresses as text\<close>

text \<open>
  \<open>dec\<close> is \<^verbatim>\<open>printf\<close> with \<^verbatim>\<open>%u\<close> or \<^verbatim>\<open>%lu\<close>, \<open>dec_int\<close> with \<^verbatim>\<open>%i\<close> or \<^verbatim>\<open>%li\<close>, and
  \<open>inet_ntop4\<close> is \<^verbatim>\<open>inet_ntop(AF_INET, ...)\<close>.
\<close>

fun dec :: "nat \<Rightarrow> string" where
  "dec n = (if n < 10 then [char_of (48 + n)] else dec (n div 10) @ [char_of (48 + n mod 10)])"

declare dec.simps [simp del]

definition dec_int :: "int \<Rightarrow> string" where
  "dec_int i = (if i < 0 then CHR ''-'' # dec (nat (- i)) else dec (nat i))"

fun join_with :: "char \<Rightarrow> string list \<Rightarrow> string" where
  "join_with sep [] = []"
| "join_with sep [s] = s"
| "join_with sep (s # ss) = s @ sep # join_with sep ss"

definition inet_ntop4 :: "byte list \<Rightarrow> string" where
  "inet_ntop4 a = join_with CHR ''.'' (map (\<lambda>b. dec (unat b)) a)"

subsection \<open>The types of \<^verbatim>\<open>config.h\<close>\<close>

text \<open>
  The header is not among the sources; the tags are those of the two \<^verbatim>\<open>switch\<close>
  statements. A \<^verbatim>\<open>union conf_value\<close> is the member that is in use: the members \<^verbatim>\<open>i\<close> and
  \<^verbatim>\<open>ui\<close> (and the privacy level, which the writer prints as \<^verbatim>\<open>ui\<close> and the reader
  stores as \<^verbatim>\<open>i\<close>) are the same 32 bits, the members \<^verbatim>\<open>l\<close> and \<^verbatim>\<open>ul\<close> the same 64 bits
  (\<^verbatim>\<open>long\<close> is taken to have 64 bits). The fields of a \<^verbatim>\<open>struct conf_item\<close> are called
  \<open>item_k\<close>, \<open>item_h\<close>, \<open>item_t\<close>, \<open>item_v\<close> and \<open>item_d\<close> for \<^verbatim>\<open>k\<close>, \<^verbatim>\<open>h\<close>, \<^verbatim>\<open>t\<close>, \<^verbatim>\<open>v\<close>
  and \<^verbatim>\<open>d\<close>.
\<close>

datatype conf_type =
  CONF_BOOL | CONF_INT | CONF_UINT | CONF_LONG | CONF_ULONG | CONF_STRING
| CONF_ENUM_PTR_TYPE | CONF_ENUM_BUSY_TYPE | CONF_ENUM_BLOCKING_MODE
| CONF_ENUM_REFRESH_HOSTNAMES | CONF_ENUM_PRIVACY_LEVEL
| CONF_STRUCT_IN_ADDR | CONF_STRUCT_IN6_ADDR

datatype conf_value =
  V_b bool
| V_int "32 word"
| V_long "64 word"
| V_s "string option"
| V_ptr_type ptr_type
| V_busy_reply busy_reply
| V_blocking_mode blocking_mode
| V_refresh_hostnames refresh_hostnames
| V_in_addr "byte list"
| V_in6_addr "byte list"

record conf_item =
  item_k :: string
  item_h :: string
  item_t :: conf_type
  item_v :: conf_value
  item_d :: conf_value

text \<open>
  The functions that give an enumerator its name and a name its enumerator are in a
  file that is not among the sources, and \<^verbatim>\<open>inet_ntop\<close> for \<^verbatim>\<open>AF_INET6\<close> is not modelled:
  they are parameters. A name can be \<^verbatim>\<open>NULL\<close>; \<open>None\<close> from a \<open>_val\<close> function is its
  result -1.
\<close>

record helpers =
  get_ptr_type_str :: "ptr_type \<Rightarrow> string option"
  get_ptr_type_val :: "string \<Rightarrow> ptr_type option"
  get_busy_reply_str :: "busy_reply \<Rightarrow> string option"
  get_busy_reply_val :: "string \<Rightarrow> busy_reply option"
  get_blocking_mode_str :: "blocking_mode \<Rightarrow> string option"
  get_blocking_mode_val :: "string \<Rightarrow> blocking_mode option"
  get_refresh_hostnames_str :: "refresh_hostnames \<Rightarrow> string option"
  get_refresh_hostnames_val :: "string \<Rightarrow> refresh_hostnames option"
  inet_ntop6 :: "byte list \<Rightarrow> string"

subsection \<open>\<^verbatim>\<open>writeTOMLvalue\<close> and \<^verbatim>\<open>readTOMLvalue\<close>\<close>

text \<open>
  \<^verbatim>\<open>writeTOMLvalue\<close>: the bytes written, \<open>None\<close> where the tag does not go with the member
  in use (the C code would read the bytes of another member).
\<close>

definition writeTOMLvalue :: "helpers \<Rightarrow> conf_type \<Rightarrow> conf_value \<Rightarrow> string option" where
  "writeTOMLvalue H ty val =
     (case (ty, val) of
        (CONF_BOOL, V_b b) \<Rightarrow> Some (if b then ''true'' else ''false'')
      | (CONF_INT, V_int i) \<Rightarrow> Some (dec_int (sint i))
      | (CONF_UINT, V_int ui) \<Rightarrow> Some (dec (unat ui))
      | (CONF_ENUM_PRIVACY_LEVEL, V_int ui) \<Rightarrow> Some (dec (unat ui))
      | (CONF_LONG, V_long l) \<Rightarrow> Some (dec_int (sint l))
      | (CONF_ULONG, V_long ul) \<Rightarrow> Some (dec (unat ul))
      | (CONF_STRING, V_s s) \<Rightarrow> Some (printTOMLstring s)
      | (CONF_ENUM_PTR_TYPE, V_ptr_type e) \<Rightarrow> Some (printTOMLstring (get_ptr_type_str H e))
      | (CONF_ENUM_BUSY_TYPE, V_busy_reply e) \<Rightarrow> Some (printTOMLstring (get_busy_reply_str H e))
      | (CONF_ENUM_BLOCKING_MODE, V_blocking_mode e) \<Rightarrow>
          Some (printTOMLstring (get_blocking_mode_str H e))
      | (CONF_ENUM_REFRESH_HOSTNAMES, V_refresh_hostnames e) \<Rightarrow>
          Some (printTOMLstring (get_refresh_hostnames_str H e))
      | (CONF_STRUCT_IN_ADDR, V_in_addr a) \<Rightarrow> Some (printTOMLstring (Some (inet_ntop4 a)))
      | (CONF_STRUCT_IN6_ADDR, V_in6_addr a) \<Rightarrow> Some (printTOMLstring (Some (inet_ntop6 H a)))
      | _ \<Rightarrow> None)"

text \<open>
  \<^verbatim>\<open>readTOMLvalue\<close>: the item afterwards and the warnings logged (the debug lines, which
  depend on the debug flags, are left out).
\<close>

definition invalid_setting :: "conf_item \<Rightarrow> string" where
  "invalid_setting item =
     ''Config setting '' @ item_k item @ '' is invalid, allowed options are: '' @ item_h item"

definition readTOMLvalue ::
  "helpers \<Rightarrow> conf_item \<Rightarrow> string \<Rightarrow> toml_table \<Rightarrow> conf_item \<times> string list" where
  "readTOMLvalue H item key toml =
     (case item_t item of
        CONF_BOOL \<Rightarrow>
          (case toml_bool_in toml key of
             Some b \<Rightarrow> (item\<lparr>item_v := V_b b\<rparr>, [])
           | None \<Rightarrow> (item, []))
      | CONF_INT \<Rightarrow>
          (case toml_int_in toml key of
             Some i \<Rightarrow> (item\<lparr>item_v := V_int (word_of_int i)\<rparr>, [])
           | None \<Rightarrow> (item, []))
      | CONF_UINT \<Rightarrow>
          (case toml_int_in toml key of
             Some i \<Rightarrow> if i \<ge> 0 then (item\<lparr>item_v := V_int (word_of_int i)\<rparr>, []) else (item, [])
           | None \<Rightarrow> (item, []))
      | CONF_LONG \<Rightarrow>
          (case toml_int_in toml key of
             Some i \<Rightarrow> (item\<lparr>item_v := V_long (word_of_int i)\<rparr>, [])
           | None \<Rightarrow> (item, []))
      | CONF_ULONG \<Rightarrow>
          (case toml_int_in toml key of
             Some i \<Rightarrow> if i \<ge> 0 then (item\<lparr>item_v := V_long (word_of_int i)\<rparr>, []) else (item, [])
           | None \<Rightarrow> (item, []))
      | CONF_STRING \<Rightarrow>
          (case toml_string_in toml key of
             Some s \<Rightarrow> (item\<lparr>item_v := V_s (Some s)\<rparr>, [])
           | None \<Rightarrow> (item, []))
      | CONF_ENUM_PTR_TYPE \<Rightarrow>
          (case toml_string_in toml key of
             Some s \<Rightarrow>
               (case get_ptr_type_val H s of
                  Some ptr_type \<Rightarrow> (item\<lparr>item_v := V_ptr_type ptr_type\<rparr>, [])
                | None \<Rightarrow> (item, [invalid_setting item]))
           | None \<Rightarrow> (item, []))
      | CONF_ENUM_BUSY_TYPE \<Rightarrow>
          (case toml_string_in toml key of
             Some s \<Rightarrow>
               (case get_busy_reply_val H s of
                  Some busy_reply \<Rightarrow> (item\<lparr>item_v := V_busy_reply busy_reply\<rparr>, [])
                | None \<Rightarrow> (item, [invalid_setting item]))
           | None \<Rightarrow> (item, []))
      | CONF_ENUM_BLOCKING_MODE \<Rightarrow>
          (case toml_string_in toml key of
             Some s \<Rightarrow>
               (case get_blocking_mode_val H s of
                  Some blocking_mode \<Rightarrow> (item\<lparr>item_v := V_blocking_mode blocking_mode\<rparr>, [])
                | None \<Rightarrow> (item, [invalid_setting item]))
           | None \<Rightarrow> (item, []))
      | CONF_ENUM_REFRESH_HOSTNAMES \<Rightarrow>
          (case toml_string_in toml key of
             Some s \<Rightarrow>
               (case get_refresh_hostnames_val H s of
                  Some refresh_hostnames \<Rightarrow>
                    (item\<lparr>item_v := V_refresh_hostnames refresh_hostnames\<rparr>, [])
                | None \<Rightarrow> (item, [invalid_setting item]))
           | None \<Rightarrow> (item, []))
      | CONF_ENUM_PRIVACY_LEVEL \<Rightarrow>
          (case toml_int_in toml key of
             Some i \<Rightarrow>
               if i \<ge> PRIVACY_SHOW_ALL \<and> i \<le> PRIVACY_MAXIMUM
               then (item\<lparr>item_v := V_int (word_of_int i)\<rparr>, [])
               else (item, [])
           | None \<Rightarrow> (item, []))
      | CONF_STRUCT_IN_ADDR \<Rightarrow>
          (case toml_string_in toml key of
             Some s \<Rightarrow>
               (case inet_pton AF_INET s of
                  Some addr4 \<Rightarrow> (item\<lparr>item_v := V_in_addr addr4\<rparr>, [])
                | None \<Rightarrow> (item, []))
           | None \<Rightarrow> (item, []))
      | CONF_STRUCT_IN6_ADDR \<Rightarrow>
          (case toml_string_in toml key of
             Some s \<Rightarrow>
               (case inet_pton AF_INET6 s of
                  Some addr6 \<Rightarrow> (item\<lparr>item_v := V_in6_addr addr6\<rparr>, [])
                | None \<Rightarrow> (item, []))
           | None \<Rightarrow> (item, [])))"

subsection \<open>From the text of a value to the value in the document\<close>

text \<open>
  Modelled from the spec: the parser is not among the sources, and the spec names the
  format only (``\<^verbatim>\<open>.toml\<close>-style''). \<open>toml_value_of\<close> reads the three forms of value that
  the writer emits as that format defines them: the words \<^verbatim>\<open>true\<close> and \<^verbatim>\<open>false\<close>; a
  decimal integer with an optional sign and no leading zero, which is an integer of the
  document when it fits 64 bits and otherwise a value that no typed extraction accepts; a
  string between double quotes, in which a backslash starts one of the escapes
  \<^verbatim>\<open>\b \t \n \f \r \" \\\<close> (the escapes by code point are left out), any other escape
  is an error, and a control character cannot stand unescaped. \<open>None\<close> is a text that
  does not parse, which makes the parser reject the whole document.
\<close>

definition toml_escape :: "char \<Rightarrow> char option" where
  "toml_escape e =
     (if e = CHR ''b'' then Some (CHR 0x08)
      else if e = CHR ''t'' then Some (CHR 0x09)
      else if e = CHR ''n'' then Some (CHR 0x0A)
      else if e = CHR ''f'' then Some (CHR 0x0C)
      else if e = CHR ''r'' then Some (CHR 0x0D)
      else if e = dquote then Some dquote
      else if e = backslash then Some backslash
      else None)"

definition toml_control :: "char \<Rightarrow> bool" where
  "toml_control c = (((of_char c :: nat) < 32 \<and> c \<noteq> CHR 0x09) \<or> (of_char c :: nat) = 127)"

fun toml_string_body :: "string \<Rightarrow> string option" where
  "toml_string_body [] = None"
| "toml_string_body [c] = (if c = dquote then Some [] else None)"
| "toml_string_body (c # e # r) =
     (if c = dquote then None
      else if c = backslash
        then (case toml_escape e of
                None \<Rightarrow> None
              | Some x \<Rightarrow> map_option ((#) x) (toml_string_body r))
      else if toml_control c then None
      else map_option ((#) c) (toml_string_body (e # r)))"

definition toml_integer :: "string \<Rightarrow> toml_value option" where
  "toml_integer s =
     (let neg = (s \<noteq> [] \<and> hd s = CHR ''-'');
          ds = (if s \<noteq> [] \<and> (hd s = CHR ''-'' \<or> hd s = CHR ''+'') then tl s else s)
      in if ds = [] \<or> \<not> list_all isdigit ds \<or> (length ds > 1 \<and> hd ds = CHR ''0'') then None
         else let i = (if neg then - int (digits_val 10 ds) else int (digits_val 10 ds))
              in if - (2 ^ 63) \<le> i \<and> i < 2 ^ 63 then Some (TInt i) else Some TOther)"

definition toml_value_of :: "string \<Rightarrow> toml_value option" where
  "toml_value_of text =
     (if text = ''true'' then Some (TBool True)
      else if text = ''false'' then Some (TBool False)
      else (case text of
              [] \<Rightarrow> None
            | c # rest \<Rightarrow>
                if c = dquote then map_option TString (toml_string_body rest)
                else toml_integer text))"

subsection \<open>Writing a value and reading it back\<close>

text \<open>
  The value of an item is written, the text is parsed as the value of the key in a
  document, and \<^verbatim>\<open>readTOMLvalue\<close> reads the key into the item, which holds \<open>held\<close> at
  that moment (its default, in a load). The result is \<open>None\<close> where the tag does not go
  with the value, or the text written does not parse.
\<close>

definition write_then_read ::
  "helpers \<Rightarrow> conf_item \<Rightarrow> conf_value \<Rightarrow> string \<Rightarrow> (conf_item \<times> string list) option" where
  "write_then_read H item held key =
     (case writeTOMLvalue H (item_t item) (item_v item) of
        None \<Rightarrow> None
      | Some text \<Rightarrow>
          (case toml_value_of text of
             None \<Rightarrow> None
           | Some tv \<Rightarrow> Some (readTOMLvalue H (item\<lparr>item_v := held\<rparr>) key [(key, tv)])))"

text \<open>
  The values that come back: every boolean, every \<^verbatim>\<open>int\<close>, \<^verbatim>\<open>unsigned int\<close> and \<^verbatim>\<open>long\<close>, an
  \<^verbatim>\<open>unsigned long\<close> below \<open>2 ^ 63\<close>, a privacy level of at most \<^verbatim>\<open>PRIVACY_MAXIMUM\<close>, a
  string that is not \<^verbatim>\<open>NULL\<close> and whose characters are printable or one of the five
  control characters with an escape of their own, an enumerator whose name is such a
  string and is the name of that enumerator, an IPv4 address, and an IPv6 address whose
  text is such a string and is read as that address.
\<close>

definition tomlable :: "char \<Rightarrow> bool" where
  "tomlable c = (isprint c \<or> c \<in> {CHR 0x08, CHR 0x09, CHR 0x0A, CHR 0x0C, CHR 0x0D})"

definition good_name :: "('e \<Rightarrow> string option) \<Rightarrow> (string \<Rightarrow> 'e option) \<Rightarrow> 'e \<Rightarrow> bool" where
  "good_name to_str to_val e =
     (case to_str e of
        None \<Rightarrow> False
      | Some name \<Rightarrow> list_all tomlable name \<and> to_val name = Some e)"

definition restorable :: "helpers \<Rightarrow> conf_type \<Rightarrow> conf_value \<Rightarrow> bool" where
  "restorable H ty val =
     (case (ty, val) of
        (CONF_BOOL, V_b b) \<Rightarrow> True
      | (CONF_INT, V_int i) \<Rightarrow> True
      | (CONF_UINT, V_int ui) \<Rightarrow> True
      | (CONF_ENUM_PRIVACY_LEVEL, V_int ui) \<Rightarrow> unat ui \<le> 3
      | (CONF_LONG, V_long l) \<Rightarrow> True
      | (CONF_ULONG, V_long ul) \<Rightarrow> unat ul < 2 ^ 63
      | (CONF_STRING, V_s s) \<Rightarrow> (case s of None \<Rightarrow> False | Some str \<Rightarrow> list_all tomlable str)
      | (CONF_ENUM_PTR_TYPE, V_ptr_type e) \<Rightarrow>
          good_name (get_ptr_type_str H) (get_ptr_type_val H) e
      | (CONF_ENUM_BUSY_TYPE, V_busy_reply e) \<Rightarrow>
          good_name (get_busy_reply_str H) (get_busy_reply_val H) e
      | (CONF_ENUM_BLOCKING_MODE, V_blocking_mode e) \<Rightarrow>
          good_name (get_blocking_mode_str H) (get_blocking_mode_val H) e
      | (CONF_ENUM_REFRESH_HOSTNAMES, V_refresh_hostnames e) \<Rightarrow>
          good_name (get_refresh_hostnames_str H) (get_refresh_hostnames_val H) e
      | (CONF_STRUCT_IN_ADDR, V_in_addr a) \<Rightarrow> length a = 4
      | (CONF_STRUCT_IN6_ADDR, V_in6_addr a) \<Rightarrow>
          list_all tomlable (inet_ntop6 H a) \<and> inet_pton AF_INET6 (inet_ntop6 H a) = Some a
      | _ \<Rightarrow> False)"

subsection \<open>Helpers and items for the examples\<close>

text \<open>
  Modelled from the spec: each enumeration has a table of names, with ``\<open>nameToValue\<close>''
  and ``\<open>valueToName\<close>'' ``done case-insensitively''. The names in the tables below are
  examples (those that the legacy reader compares with, where it has some). The example
  of \<^verbatim>\<open>inet_ntop\<close> for IPv6 writes the eight groups in hexadecimal, without the \<^verbatim>\<open>::\<close>
  short form.
\<close>

definition valueToName :: "(string \<times> 'e) list \<Rightarrow> 'e \<Rightarrow> string option" where
  "valueToName names e = map_option fst (find (\<lambda>entry. snd entry = e) names)"

definition nameToValue :: "(string \<times> 'e) list \<Rightarrow> string \<Rightarrow> 'e option" where
  "nameToValue names s = map_option snd (find (\<lambda>entry. strcasecmp s (fst entry)) names)"

fun hex :: "nat \<Rightarrow> string" where
  "hex n = (if n < 16 then [hex_digit n] else hex (n div 16) @ [hex_digit (n mod 16)])"

declare hex.simps [simp del]

fun groups_of :: "byte list \<Rightarrow> nat list" where
  "groups_of (hi # lo # rest) = (unat hi * 256 + unat lo) # groups_of rest"
| "groups_of rest = []"

definition example_helpers :: helpers where
  "example_helpers = \<lparr>
     get_ptr_type_str = valueToName
       [(''PI.HOLE'', PTR_PIHOLE), (''HOSTNAME'', PTR_HOSTNAME),
        (''HOSTNAMEFQDN'', PTR_HOSTNAMEFQDN), (''NONE'', PTR_NONE)],
     get_ptr_type_val = nameToValue
       [(''PI.HOLE'', PTR_PIHOLE), (''HOSTNAME'', PTR_HOSTNAME),
        (''HOSTNAMEFQDN'', PTR_HOSTNAMEFQDN), (''NONE'', PTR_NONE)],
     get_busy_reply_str = valueToName
       [(''BLOCK'', BUSY_BLOCK), (''ALLOW'', BUSY_ALLOW), (''REFUSE'', BUSY_REFUSE),
        (''DROP'', BUSY_DROP)],
     get_busy_reply_val = nameToValue
       [(''BLOCK'', BUSY_BLOCK), (''ALLOW'', BUSY_ALLOW), (''REFUSE'', BUSY_REFUSE),
        (''DROP'', BUSY_DROP)],
     get_blocking_mode_str = valueToName
       [(''IP'', MODE_IP), (''NXDOMAIN'', MODE_NX), (''NULL'', MODE_NULL),
        (''IP-NODATA-AAAA'', MODE_IP_NODATA_AAAA), (''NODATA'', MODE_NODATA)],
     get_blocking_mode_val = nameToValue
       [(''IP'', MODE_IP), (''NXDOMAIN'', MODE_NX), (''NULL'', MODE_NULL),
        (''IP-NODATA-AAAA'', MODE_IP_NODATA_AAAA), (''NODATA'', MODE_NODATA)],
     get_refresh_hostnames_str = valueToName
       [(''ALL'', REFRESH_ALL), (''IPV4_ONLY'', REFRESH_IPV4_ONLY),
        (''UNKNOWN'', REFRESH_UNKNOWN), (''NONE'', REFRESH_NONE)],
     get_refresh_hostnames_val = nameToValue
       [(''ALL'', REFRESH_ALL), (''IPV4_ONLY'', REFRESH_IPV4_ONLY),
        (''UNKNOWN'', REFRESH_UNKNOWN), (''NONE'', REFRESH_NONE)],
     inet_ntop6 = (\<lambda>a. join_with CHR '':'' (map hex (groups_of a)))\<rparr>"

definition example_item :: "conf_type \<Rightarrow> conf_value \<Rightarrow> conf_value \<Rightarrow> conf_item" where
  "example_item ty val dflt =
     \<lparr>item_k = ''example.key'', item_h = ''the legal values'', item_t = ty, item_v = val,
      item_d = dflt\<rparr>"

text \<open>The log-file item when it holds \<^verbatim>\<open>NULL\<close>, which stands for syslog.\<close>

definition syslog_item :: conf_item where
  "syslog_item =
     \<lparr>item_k = ''files.log'', item_h = ''a path, or nothing for syslog'', item_t = CONF_STRING,
      item_v = V_s None, item_d = V_s (Some ''/var/log/pihole/FTL.log'')\<rparr>"

section \<open>Properties of the string writer\<close>

lemma scan_ok_conj:
  "scan_ok s ok = (ok \<and> list_all (\<lambda>ch. isprint ch \<and> ch \<noteq> dquote \<and> ch \<noteq> backslash) s)"
  by (induction s arbitrary: ok) auto

lemma scan_ok_iff:
  "scan_ok s True = list_all (\<lambda>ch. isprint ch \<and> ch \<noteq> dquote \<and> ch \<noteq> backslash) s"
  by (simp add: scan_ok_conj)

lemma escape_loop_plain:
  "list_all (\<lambda>ch. isprint ch \<and> ch \<noteq> dquote \<and> ch \<noteq> backslash) s \<Longrightarrow> escape_loop s = s"
  by (induction s) (simp_all add: escape_char_def)

text \<open>
  C2. For a string of printable ASCII characters without a double quote or a
  backslash, \<^verbatim>\<open>printTOMLstring\<close> takes the fast path, and the fast path writes the same
  bytes as the escaping loop would. The string \<^verbatim>\<open>a"b<newline>c\<close> is written as
  \<^verbatim>\<open>"a\"b\nc"\<close>.
\<close>

theorem printTOMLstring_fast_eq_slow:
  "(list_all (\<lambda>ch. isprint ch \<and> ch \<noteq> dquote \<and> ch \<noteq> backslash) s \<longrightarrow>
      printTOMLstring (Some s) = fast_path s \<and> fast_path s = slow_path s) \<and>
   printTOMLstring (Some [CHR ''a'', dquote, CHR ''b'', CHR 0x0A, CHR ''c'']) =
     [dquote, CHR ''a'', backslash, dquote, CHR ''b'', backslash, CHR ''n'', CHR ''c'', dquote]"
  by (simp add: printTOMLstring_def scan_ok_iff escape_loop_plain fast_path_def slow_path_def
      escape_char_def isprint_def)

theorem printTOMLstring_fast_eq_slow_witness:
  "list_all (\<lambda>ch. isprint ch \<and> ch \<noteq> dquote \<and> ch \<noteq> backslash) ''/var/log/pihole/FTL.log'' \<and>
   printTOMLstring (Some ''/var/log/pihole/FTL.log'') = fast_path ''/var/log/pihole/FTL.log'' \<and>
   fast_path ''/var/log/pihole/FTL.log'' = slow_path ''/var/log/pihole/FTL.log''"
  using printTOMLstring_fast_eq_slow [of "''/var/log/pihole/FTL.log''"]
  by (simp add: isprint_def)

section \<open>Properties of the writer and the reader\<close>

subsection \<open>Decimal numbers\<close>

lemma digit_char_code: "d < 10 \<Longrightarrow> (of_char (char_of (48 + d)) :: nat) = 48 + d"
  by simp

lemma char_neq_by_code: "(of_char c :: nat) \<noteq> of_char c' \<Longrightarrow> c \<noteq> c'"
  by auto

lemma char_of_48: "char_of (48 :: nat) = CHR ''0''"
  by code_simp

lemma digit_char:
  assumes "d < 10"
  shows "isdigit (char_of (48 + d))" "xdigit_val (char_of (48 + d)) = d"
    "char_of (48 + d) \<noteq> CHR ''-''" "char_of (48 + d) \<noteq> CHR ''+''"
    "char_of (48 + d) \<noteq> dquote" "char_of (48 + d) \<noteq> CHR ''.''"
    "(char_of (48 + d) = CHR ''0'') = (d = 0)"
    "char_of (48 + d) \<noteq> CHR ''t''" "char_of (48 + d) \<noteq> CHR ''f''"
  using assms
  by (auto simp add: isdigit_def xdigit_val_def char_of_48 intro!: char_neq_by_code
      dest: arg_cong [where f = "of_char :: char \<Rightarrow> nat"])

lemma digits_val_snoc: "digits_val b (ds @ [c]) = digits_val b ds * b + xdigit_val c"
  by (simp add: digits_val_def)

lemma digits_val_single: "digits_val b [c] = xdigit_val c"
  by (simp add: digits_val_def)

lemma dec_val: "digits_val 10 (dec n) = n"
proof (induction n rule: dec.induct)
  case (1 n)
  show ?case
  proof (cases "n < 10")
    case True
    then show ?thesis by (subst dec.simps) (simp add: digits_val_single digit_char)
  next
    case False
    with 1 have "digits_val 10 (dec (n div 10)) = n div 10" by simp
    with False show ?thesis
      by (subst dec.simps) (simp add: digits_val_snoc digit_char)
  qed
qed

lemma dec_digits: "list_all isdigit (dec n)"
proof (induction n rule: dec.induct)
  case (1 n)
  then show ?case by (subst dec.simps) (simp add: digit_char)
qed

lemma dec_nonempty: "dec n \<noteq> []"
  by (subst dec.simps) simp

lemma dec_hd_zero: "(hd (dec n) = CHR ''0'') = (n = 0)"
proof (induction n rule: dec.induct)
  case (1 n)
  show ?case
  proof (cases "n < 10")
    case True
    then show ?thesis by (subst dec.simps) (simp add: digit_char)
  next
    case False
    with 1 have "(hd (dec (n div 10)) = CHR ''0'') = (n div 10 = 0)" by simp
    with False show ?thesis
      by (subst dec.simps) (simp add: dec_nonempty)
  qed
qed

lemma dec_length_one: "(length (dec n) = 1) = (n < 10)"
proof (cases "n < 10")
  case True
  then show ?thesis by (subst dec.simps) simp
next
  case False
  have "length (dec (n div 10)) \<noteq> 0" using dec_nonempty [of "n div 10"] by simp
  with False show ?thesis by (subst dec.simps) simp
qed

lemma dec_no_leading_zero: "\<not> (length (dec n) > 1 \<and> hd (dec n) = CHR ''0'')"
  using dec_length_one [of n] dec_hd_zero [of n] by auto

lemma dec_length_le3: "n < 1000 \<Longrightarrow> length (dec n) \<le> 3"
  apply (subst dec.simps)
  apply (subst dec.simps)
  apply (subst dec.simps)
  apply simp
  done

lemma dec_chars: "c \<in> set (dec n) \<Longrightarrow> isdigit c"
  using dec_digits [of n] by (simp add: list_all_iff)

lemma dec_hd_digit: "isdigit (hd (dec n))"
  using dec_chars [of "hd (dec n)" n] dec_nonempty [of n] by simp

lemma hd_dec_not_sign: "hd (dec n) \<noteq> CHR ''-''" "hd (dec n) \<noteq> CHR ''+''" "hd (dec n) \<noteq> dquote"
  using dec_hd_digit [of n]
  by (auto simp add: isdigit_def)

lemma toml_integer_dec: "toml_integer (dec n) = (if n < 2 ^ 63 then Some (TInt (int n)) else Some TOther)"
  using dec_no_leading_zero [of n]
  by (simp add: toml_integer_def Let_def dec_nonempty hd_dec_not_sign dec_digits dec_val)

lemma toml_integer_neg:
  "0 < n \<Longrightarrow> toml_integer (CHR ''-'' # dec n) =
     (if n \<le> 2 ^ 63 then Some (TInt (- int n)) else Some TOther)"
  using dec_no_leading_zero [of n]
  by (simp add: toml_integer_def Let_def dec_nonempty dec_digits dec_val)

lemma toml_integer_dec_int:
  "- (2 ^ 63) \<le> i \<Longrightarrow> i < 2 ^ 63 \<Longrightarrow> toml_integer (dec_int i) = Some (TInt i)"
  by (cases "i < 0") (simp_all add: dec_int_def toml_integer_neg toml_integer_dec)

lemma dec_not_word: "dec n \<noteq> ''true''" "dec n \<noteq> ''false''" "CHR ''-'' # s \<noteq> ''true''" "CHR ''-'' # s \<noteq> ''false''"
  using dec_hd_digit [of n] dec_nonempty [of n]
  by (auto simp add: isdigit_def)

lemma toml_value_of_dec:
  "toml_value_of (dec n) = (if n < 2 ^ 63 then Some (TInt (int n)) else Some TOther)"
proof -
  have ne: "dec n \<noteq> []" by (rule dec_nonempty)
  have hd: "hd (dec n) \<noteq> dquote" by (rule hd_dec_not_sign)
  have w: "dec n \<noteq> ''true''" "dec n \<noteq> ''false''" by (rule dec_not_word)+
  from ne hd w toml_integer_dec [of n] show ?thesis
    by (cases "dec n") (simp_all add: toml_value_of_def)
qed

lemma toml_value_of_dec_int:
  "- (2 ^ 63) \<le> i \<Longrightarrow> i < 2 ^ 63 \<Longrightarrow> toml_value_of (dec_int i) = Some (TInt i)"
proof -
  assume r: "- (2 ^ 63) \<le> i" "i < 2 ^ 63"
  have ne: "dec_int i \<noteq> []" by (simp add: dec_int_def dec_nonempty)
  have hd: "hd (dec_int i) \<noteq> dquote" by (simp add: dec_int_def hd_dec_not_sign)
  have w: "dec_int i \<noteq> ''true''" "dec_int i \<noteq> ''false''"
    by (simp_all add: dec_int_def dec_not_word)
  from ne hd w toml_integer_dec_int [OF r] show ?thesis
    by (cases "dec_int i") (simp_all add: toml_value_of_def)
qed

subsection \<open>Strings\<close>

lemma body_plain:
  "c \<noteq> dquote \<Longrightarrow> c \<noteq> backslash \<Longrightarrow> \<not> toml_control c \<Longrightarrow> rest \<noteq> [] \<Longrightarrow>
   toml_string_body (c # rest) = map_option ((#) c) (toml_string_body rest)"
  by (cases rest) simp_all

lemma body_escape:
  "toml_escape e = Some x \<Longrightarrow>
   toml_string_body (backslash # e # r) = map_option ((#) x) (toml_string_body r)"
  by simp

lemma isprint_not_control: "isprint c \<Longrightarrow> \<not> toml_control c"
  by (auto simp add: isprint_def toml_control_def)

lemma escape_loop_ends: "escape_loop s @ [dquote] \<noteq> []"
  by simp

lemma body_escape_char:
  "tomlable c \<Longrightarrow> rest \<noteq> [] \<Longrightarrow>
   toml_string_body (escape_char c @ rest) = map_option ((#) c) (toml_string_body rest)"
proof -
  assume t: "tomlable c" and r: "rest \<noteq> []"
  show ?thesis
  proof (cases "isprint c \<and> c \<noteq> dquote \<and> c \<noteq> backslash")
    case True
    with r show ?thesis
      by (simp add: escape_char_def body_plain isprint_not_control del: toml_string_body.simps)
  next
    case False
    with t have "c \<in> {CHR 0x08, CHR 0x09, CHR 0x0A, CHR 0x0C, CHR 0x0D, dquote, backslash}"
      by (auto simp add: tomlable_def)
    then show ?thesis
      by (auto simp add: escape_char_def toml_escape_def isprint_def)
  qed
qed

lemma body_escape_loop:
  "list_all tomlable s \<Longrightarrow> toml_string_body (escape_loop s @ [dquote]) = Some s"
proof (induction s)
  case Nil
  show ?case by simp
next
  case (Cons c s)
  then have "toml_string_body (escape_char c @ (escape_loop s @ [dquote])) = Some (c # s)"
    by (simp add: body_escape_char del: toml_string_body.simps)
  then show ?case by simp
qed

lemma printTOMLstring_slow: "printTOMLstring (Some s) = slow_path s"
  by (simp add: printTOMLstring_def scan_ok_conj fast_path_def slow_path_def escape_loop_plain)

lemma toml_value_of_string:
  "list_all tomlable s \<Longrightarrow> toml_value_of (printTOMLstring (Some s)) = Some (TString s)"
  by (simp add: printTOMLstring_slow slow_path_def toml_value_of_def body_escape_loop)

lemma toml_value_of_null: "toml_value_of (printTOMLstring None) = Some (TString [])"
  by (simp add: printTOMLstring_def fast_path_def toml_value_of_def)

subsection \<open>Addresses and machine integers\<close>

lemma split_on_none: "d \<notin> set s \<Longrightarrow> split_on d s = [s]"
  by (induction s) auto

lemma split_on_append:
  "d \<notin> set s \<Longrightarrow> split_on d (s @ d # rest) = s # split_on d rest"
  by (induction s) auto

lemma dec_no_dot: "CHR ''.'' \<notin> set (dec n)"
  using dec_chars [of "CHR ''.''" n] by (auto simp add: isdigit_def)

lemma octet_dec: "n < 256 \<Longrightarrow> octet (dec n) = Some n"
proof -
  assume n: "n < 256"
  have len: "length (dec n) \<noteq> 0" using dec_nonempty [of n] by simp
  from n have "length (dec n) \<le> 3" by (simp add: dec_length_le3)
  moreover have "length (dec n) = 1 \<or> hd (dec n) \<noteq> CHR ''0''"
    using dec_no_leading_zero [of n] len by (cases "length (dec n) = 1") auto
  ultimately show ?thesis
    using n by (simp add: octet_def dec_nonempty dec_digits dec_val)
qed

lemma unat_byte: "unat (b :: byte) < 256"
proof -
  have "unat b < 2 ^ LENGTH(8)" by (rule unsigned_less)
  then show ?thesis by simp
qed

lemma inet_pton4_ntop4: "length a = 4 \<Longrightarrow> inet_pton4 (inet_ntop4 a) = Some a"
proof -
  assume "length a = 4"
  then obtain b1 b2 b3 b4 where a: "a = [b1, b2, b3, b4]"
    by (cases a; cases "tl a"; cases "tl (tl a)"; cases "tl (tl (tl a))") auto
  have s: "split_on CHR ''.'' (inet_ntop4 [b1, b2, b3, b4]) =
    [dec (unat b1), dec (unat b2), dec (unat b3), dec (unat b4)]"
    by (simp add: inet_ntop4_def split_on_append split_on_none dec_no_dot)
  show ?thesis
    unfolding a by (simp add: inet_pton4_def s Let_def octet_dec unat_byte)
qed

lemma isdigit_tomlable: "isdigit c \<Longrightarrow> tomlable c"
  by (simp add: isdigit_def tomlable_def isprint_def)

lemma dec_tomlable: "list_all tomlable (dec n)"
  using dec_chars [of _ n] by (auto simp add: list_all_iff isdigit_tomlable)

lemma join_with_tomlable: "tomlable sep \<Longrightarrow> list_all (list_all tomlable) ss \<Longrightarrow> list_all tomlable (join_with sep ss)"
  by (induction sep ss rule: join_with.induct) simp_all

lemma inet_ntop4_tomlable: "list_all tomlable (inet_ntop4 a)"
proof -
  have "tomlable CHR ''.''" by (simp add: tomlable_def isprint_def)
  moreover have "list_all (list_all tomlable) (map (\<lambda>b. dec (unat b)) a)"
    by (simp add: list_all_iff dec_tomlable [unfolded list_all_iff])
  ultimately show ?thesis unfolding inet_ntop4_def by (rule join_with_tomlable)
qed

lemma word_back:
  "word_of_int (sint (w :: 'a::len word)) = w"
  "word_of_int (int (unat (w :: 'a::len word))) = w"
  by simp_all

lemma sint32_range: "- (2 ^ 63) \<le> sint (w :: 32 word)" "sint (w :: 32 word) < 2 ^ 63"
  using sint_ge [of w] sint_lt [of w] by simp_all

lemma sint64_range: "- (2 ^ 63) \<le> sint (w :: 64 word)" "sint (w :: 64 word) < 2 ^ 63"
  using sint_ge [of w] sint_lt [of w] by simp_all

lemma unat32_range: "unat (w :: 32 word) < 2 ^ 63"
proof -
  have "unat w < 2 ^ LENGTH(32)" by (rule unsigned_less)
  then show ?thesis by simp
qed

subsection \<open>A value that is written and read back\<close>

lemma item_back: "item_v item = x \<Longrightarrow> item\<lparr>item_v := x\<rparr> = item"
  by simp

lemmas accessors = toml_bool_in_def toml_int_in_def toml_string_in_def

lemma restore_bool:
  "item_t item = CONF_BOOL \<Longrightarrow> item_v item = V_b b \<Longrightarrow>
   write_then_read H item held key = Some (item, [])"
  by (simp add: write_then_read_def writeTOMLvalue_def toml_value_of_def readTOMLvalue_def
      accessors item_back)

lemma restore_int:
  "item_t item = CONF_INT \<Longrightarrow> item_v item = V_int w \<Longrightarrow>
   write_then_read H item held key = Some (item, [])"
  using toml_value_of_dec_int [OF sint32_range, of w]
  by (simp add: write_then_read_def writeTOMLvalue_def readTOMLvalue_def accessors item_back)

lemma restore_uint:
  "item_t item = CONF_UINT \<Longrightarrow> item_v item = V_int w \<Longrightarrow>
   write_then_read H item held key = Some (item, [])"
  using unat32_range [of w]
  by (simp add: write_then_read_def writeTOMLvalue_def toml_value_of_dec
      readTOMLvalue_def accessors item_back)

lemma uint_le3:
  assumes "unat w \<le> 3"
  shows "uint w \<le> 3"
proof -
  from assms have "nat (uint w) \<le> 3" by (simp only: unat_eq_nat_uint)
  then show ?thesis by linarith
qed

lemma restore_privacy:
  "item_t item = CONF_ENUM_PRIVACY_LEVEL \<Longrightarrow> item_v item = V_int w \<Longrightarrow> unat w \<le> 3 \<Longrightarrow>
   write_then_read H item held key = Some (item, [])"
  using unat32_range [of w] uint_le3 [of w]
  by (simp add: write_then_read_def writeTOMLvalue_def toml_value_of_dec
      readTOMLvalue_def accessors item_back)

lemma restore_long:
  "item_t item = CONF_LONG \<Longrightarrow> item_v item = V_long w \<Longrightarrow>
   write_then_read H item held key = Some (item, [])"
  using toml_value_of_dec_int [OF sint64_range, of w]
  by (simp add: write_then_read_def writeTOMLvalue_def readTOMLvalue_def accessors item_back)

lemma restore_ulong:
  "item_t item = CONF_ULONG \<Longrightarrow> item_v item = V_long w \<Longrightarrow> unat w < 2 ^ 63 \<Longrightarrow>
   write_then_read H item held key = Some (item, [])"
  by (simp add: write_then_read_def writeTOMLvalue_def toml_value_of_dec
      readTOMLvalue_def accessors item_back)

lemma restore_string:
  "item_t item = CONF_STRING \<Longrightarrow> item_v item = V_s (Some s) \<Longrightarrow> list_all tomlable s \<Longrightarrow>
   write_then_read H item held key = Some (item, [])"
  by (simp add: write_then_read_def writeTOMLvalue_def toml_value_of_string
      readTOMLvalue_def accessors item_back)

lemma good_nameD:
  "good_name to_str to_val e \<Longrightarrow>
   \<exists>name. to_str e = Some name \<and> list_all tomlable name \<and> to_val name = Some e"
  by (cases "to_str e") (simp_all add: good_name_def)

lemma restore_ptr_type:
  "item_t item = CONF_ENUM_PTR_TYPE \<Longrightarrow> item_v item = V_ptr_type e \<Longrightarrow>
   good_name (get_ptr_type_str H) (get_ptr_type_val H) e \<Longrightarrow>
   write_then_read H item held key = Some (item, [])"
  by (auto dest!: good_nameD simp add: write_then_read_def writeTOMLvalue_def toml_value_of_string
      readTOMLvalue_def accessors item_back)

lemma restore_busy_reply:
  "item_t item = CONF_ENUM_BUSY_TYPE \<Longrightarrow> item_v item = V_busy_reply e \<Longrightarrow>
   good_name (get_busy_reply_str H) (get_busy_reply_val H) e \<Longrightarrow>
   write_then_read H item held key = Some (item, [])"
  by (auto dest!: good_nameD simp add: write_then_read_def writeTOMLvalue_def toml_value_of_string
      readTOMLvalue_def accessors item_back)

lemma restore_blocking_mode:
  "item_t item = CONF_ENUM_BLOCKING_MODE \<Longrightarrow> item_v item = V_blocking_mode e \<Longrightarrow>
   good_name (get_blocking_mode_str H) (get_blocking_mode_val H) e \<Longrightarrow>
   write_then_read H item held key = Some (item, [])"
  by (auto dest!: good_nameD simp add: write_then_read_def writeTOMLvalue_def toml_value_of_string
      readTOMLvalue_def accessors item_back)

lemma restore_refresh_hostnames:
  "item_t item = CONF_ENUM_REFRESH_HOSTNAMES \<Longrightarrow> item_v item = V_refresh_hostnames e \<Longrightarrow>
   good_name (get_refresh_hostnames_str H) (get_refresh_hostnames_val H) e \<Longrightarrow>
   write_then_read H item held key = Some (item, [])"
  by (auto dest!: good_nameD simp add: write_then_read_def writeTOMLvalue_def toml_value_of_string
      readTOMLvalue_def accessors item_back)

lemma restore_in_addr:
  "item_t item = CONF_STRUCT_IN_ADDR \<Longrightarrow> item_v item = V_in_addr a \<Longrightarrow> length a = 4 \<Longrightarrow>
   write_then_read H item held key = Some (item, [])"
  by (simp add: write_then_read_def writeTOMLvalue_def toml_value_of_string inet_ntop4_tomlable
      readTOMLvalue_def accessors inet_pton_def inet_pton4_ntop4 item_back)

lemma restore_in6_addr:
  "item_t item = CONF_STRUCT_IN6_ADDR \<Longrightarrow> item_v item = V_in6_addr a \<Longrightarrow>
   list_all tomlable (inet_ntop6 H a) \<Longrightarrow> inet_pton AF_INET6 (inet_ntop6 H a) = Some a \<Longrightarrow>
   write_then_read H item held key = Some (item, [])"
  by (simp add: write_then_read_def writeTOMLvalue_def toml_value_of_string
      readTOMLvalue_def accessors item_back)

lemmas restores = restore_bool restore_int restore_uint restore_privacy restore_long
  restore_ulong restore_string restore_ptr_type restore_busy_reply restore_blocking_mode
  restore_refresh_hostnames restore_in_addr restore_in6_addr

text \<open>
  C1, as amended. A value that satisfies \<open>restorable\<close> comes back: when it is written by
  \<^verbatim>\<open>writeTOMLvalue\<close>, the text is parsed as the value of a key, and \<^verbatim>\<open>readTOMLvalue\<close> reads
  that key into the item, the item holds the value that was written, whatever it held
  before the read, and no warning is logged. These are the values of every tag except a
  \<^verbatim>\<open>NULL\<close> string, a string with a byte that is neither printable ASCII nor one of the
  five control characters with an escape of their own, an \<^verbatim>\<open>unsigned long\<close> from \<open>2 ^ 63\<close>
  on, and a privacy level above \<^verbatim>\<open>PRIVACY_MAXIMUM\<close>; for an enumerator and for an IPv6
  address, the name or text that the library gives must be one that it reads back.
\<close>

theorem write_then_read_restores:
  "restorable H (item_t item) (item_v item) \<Longrightarrow>
   write_then_read H item held key = Some (item, [])"
  by (cases "item_t item"; cases "item_v item")
    (auto simp add: restorable_def restores split: option.splits)

lemma example_item_sel:
  "item_t (example_item ty val dflt) = ty" "item_v (example_item ty val dflt) = val"
  by (simp_all add: example_item_def)

lemma example_names:
  "get_blocking_mode_str example_helpers MODE_NX = Some ''NXDOMAIN''"
  "get_blocking_mode_val example_helpers ''NXDOMAIN'' = Some MODE_NX"
  "list_all tomlable ''NXDOMAIN''"
  by code_simp+

lemma example_address:
  "inet_ntop6 example_helpers [0, 0, 0, 0, 0, 0, 0, 0, 0, 0, 0, 0, 0, 0, 0, 1] = ''0:0:0:0:0:0:0:1''"
  "inet_pton AF_INET6 ''0:0:0:0:0:0:0:1'' = Some [0, 0, 0, 0, 0, 0, 0, 0, 0, 0, 0, 0, 0, 0, 0, 1]"
  "list_all tomlable ''0:0:0:0:0:0:0:1''"
  by code_simp+

lemma example_restorable:
  "restorable example_helpers CONF_ENUM_BLOCKING_MODE (V_blocking_mode MODE_NX)"
  "restorable example_helpers CONF_STRING
     (V_s (Some [CHR ''a'', dquote, CHR ''b'', CHR 0x0A, CHR ''c'']))"
  "restorable example_helpers CONF_INT (V_int (- 5))"
  "restorable example_helpers CONF_STRUCT_IN_ADDR (V_in_addr [192, 168, 2, 1])"
  "restorable example_helpers CONF_STRUCT_IN6_ADDR
     (V_in6_addr [0, 0, 0, 0, 0, 0, 0, 0, 0, 0, 0, 0, 0, 0, 0, 1])"
  by (simp_all add: restorable_def good_name_def example_names example_address tomlable_def
      isprint_def)

text \<open>
  Five items with the helpers of the examples: a blocking mode, the string
  \<^verbatim>\<open>a"b<newline>c\<close>, a negative number, an IPv4 and an IPv6 address.
\<close>

theorem write_then_read_restores_witness:
  "write_then_read example_helpers
     (example_item CONF_ENUM_BLOCKING_MODE (V_blocking_mode MODE_NX) (V_blocking_mode MODE_NULL))
     (V_blocking_mode MODE_NULL) ''blockingmode'' =
     Some (example_item CONF_ENUM_BLOCKING_MODE (V_blocking_mode MODE_NX)
             (V_blocking_mode MODE_NULL), []) \<and>
   write_then_read example_helpers
     (example_item CONF_STRING (V_s (Some [CHR ''a'', dquote, CHR ''b'', CHR 0x0A, CHR ''c'']))
        (V_s (Some [])))
     (V_s (Some [])) ''domain'' =
     Some (example_item CONF_STRING
             (V_s (Some [CHR ''a'', dquote, CHR ''b'', CHR 0x0A, CHR ''c''])) (V_s (Some [])), []) \<and>
   write_then_read example_helpers (example_item CONF_INT (V_int (- 5)) (V_int 0))
     (V_int 0) ''nice'' = Some (example_item CONF_INT (V_int (- 5)) (V_int 0), []) \<and>
   write_then_read example_helpers
     (example_item CONF_STRUCT_IN_ADDR (V_in_addr [192, 168, 2, 1]) (V_in_addr [0, 0, 0, 0]))
     (V_in_addr [0, 0, 0, 0]) ''v4'' =
     Some (example_item CONF_STRUCT_IN_ADDR (V_in_addr [192, 168, 2, 1])
             (V_in_addr [0, 0, 0, 0]), []) \<and>
   write_then_read example_helpers
     (example_item CONF_STRUCT_IN6_ADDR
        (V_in6_addr [0, 0, 0, 0, 0, 0, 0, 0, 0, 0, 0, 0, 0, 0, 0, 1]) (V_in6_addr (replicate 16 0)))
     (V_in6_addr (replicate 16 0)) ''v6'' =
     Some (example_item CONF_STRUCT_IN6_ADDR
             (V_in6_addr [0, 0, 0, 0, 0, 0, 0, 0, 0, 0, 0, 0, 0, 0, 0, 1])
             (V_in6_addr (replicate 16 0)), [])"
  using
    write_then_read_restores [of example_helpers
      "example_item CONF_ENUM_BLOCKING_MODE (V_blocking_mode MODE_NX) (V_blocking_mode MODE_NULL)"
      "V_blocking_mode MODE_NULL" "''blockingmode''"]
    write_then_read_restores [of example_helpers
      "example_item CONF_STRING (V_s (Some [CHR ''a'', dquote, CHR ''b'', CHR 0x0A, CHR ''c'']))
         (V_s (Some []))"
      "V_s (Some [])" "''domain''"]
    write_then_read_restores [of example_helpers
      "example_item CONF_INT (V_int (- 5)) (V_int 0)" "V_int 0" "''nice''"]
    write_then_read_restores [of example_helpers
      "example_item CONF_STRUCT_IN_ADDR (V_in_addr [192, 168, 2, 1]) (V_in_addr [0, 0, 0, 0])"
      "V_in_addr [0, 0, 0, 0]" "''v4''"]
    write_then_read_restores [of example_helpers
      "example_item CONF_STRUCT_IN6_ADDR
         (V_in6_addr [0, 0, 0, 0, 0, 0, 0, 0, 0, 0, 0, 0, 0, 0, 0, 1]) (V_in6_addr (replicate 16 0))"
      "V_in6_addr (replicate 16 0)" "''v6''"]
  by (simp only: example_item_sel example_restorable simp_thms)

text \<open>
  The claim as it was stated fails for a string item that holds \<^verbatim>\<open>NULL\<close>, as the log-file
  item does after \<^verbatim>\<open>getLogFilePathLegacy\<close> has read a \<^verbatim>\<open>LOGFILE=\<close> line with no value.
  \<^verbatim>\<open>printTOMLstring\<close> writes \<^verbatim>\<open>""\<close> for it, which is also what it writes for the empty
  string; what is read back is the empty string, not \<^verbatim>\<open>NULL\<close>.
\<close>

theorem write_then_read_null_string_counterexample:
  "item_v syslog_item = V_s None \<and>
   writeTOMLvalue example_helpers (item_t syslog_item) (item_v syslog_item) =
     Some [dquote, dquote] \<and>
   writeTOMLvalue example_helpers (item_t syslog_item) (V_s (Some [])) = Some [dquote, dquote] \<and>
   toml_value_of [dquote, dquote] = Some (TString []) \<and>
   readTOMLvalue example_helpers syslog_item ''log'' [(''log'', TString [])] =
     (syslog_item\<lparr>item_v := V_s (Some [])\<rparr>, []) \<and>
   write_then_read example_helpers syslog_item (item_d syslog_item) ''log'' =
     Some (syslog_item\<lparr>item_v := V_s (Some [])\<rparr>, []) \<and>
   write_then_read example_helpers syslog_item (item_d syslog_item) ''log'' \<noteq>
     Some (syslog_item, [])"
  by (simp add: syslog_item_def write_then_read_def writeTOMLvalue_def printTOMLstring_def
      fast_path_def toml_value_of_def readTOMLvalue_def toml_string_in_def)

section \<open>Properties of the legacy reader\<close>

subsection \<open>What each block leaves alone\<close>

text \<open>
  Each block of \<^verbatim>\<open>readFTLlegacy\<close> writes the items of its key only. The lemmas list,
  block by block, every other component of the state.
\<close>

lemma log_line_frame:
  "dns_analyzeAAAA (log_line lvl msg w) = dns_analyzeAAAA w"
  "database_maxDBdays (log_line lvl msg w) = database_maxDBdays w"
  "resolver_resolveIPv6 (log_line lvl msg w) = resolver_resolveIPv6 w"
  "resolver_resolveIPv4 (log_line lvl msg w) = resolver_resolveIPv4 w"
  "database_DBinterval (log_line lvl msg w) = database_DBinterval w"
  "files_database (log_line lvl msg w) = files_database w"
  "files_database_d (log_line lvl msg w) = files_database_d w"
  "database_maxHistory (log_line lvl msg w) = database_maxHistory w"
  "misc_privacylevel (log_line lvl msg w) = misc_privacylevel w"
  "dns_ignoreLocalhost (log_line lvl msg w) = dns_ignoreLocalhost w"
  "dns_blockingmode (log_line lvl msg w) = dns_blockingmode w"
  "dns_blockingmode_d (log_line lvl msg w) = dns_blockingmode_d w"
  "dns_analyzeOnlyAandAAAA (log_line lvl msg w) = dns_analyzeOnlyAandAAAA w"
  "database_DBimport (log_line lvl msg w) = database_DBimport w"
  "files_pid (log_line lvl msg w) = files_pid w"
  "files_setupVars (log_line lvl msg w) = files_setupVars w"
  "files_macvendor (log_line lvl msg w) = files_macvendor w"
  "files_gravity (log_line lvl msg w) = files_gravity w"
  "database_network_parseARPcache (log_line lvl msg w) = database_network_parseARPcache w"
  "dns_CNAMEdeepInspect (log_line lvl msg w) = dns_CNAMEdeepInspect w"
  "misc_delay_startup (log_line lvl msg w) = misc_delay_startup w"
  "dns_blockESNI (log_line lvl msg w) = dns_blockESNI w"
  "http_paths_webroot (log_line lvl msg w) = http_paths_webroot w"
  "http_port (log_line lvl msg w) = http_port w"
  "http_paths_webhome (log_line lvl msg w) = http_paths_webhome w"
  "http_acl (log_line lvl msg w) = http_acl w"
  "http_localAPIauth (log_line lvl msg w) = http_localAPIauth w"
  "http_sessionTimeout (log_line lvl msg w) = http_sessionTimeout w"
  "http_prettyJSON (log_line lvl msg w) = http_prettyJSON w"
  "files_ph7_error (log_line lvl msg w) = files_ph7_error w"
  "files_http_info (log_line lvl msg w) = files_http_info w"
  "database_network_expire (log_line lvl msg w) = database_network_expire w"
  "resolver_networkNames (log_line lvl msg w) = resolver_networkNames w"
  "dns_EDNS0ECS (log_line lvl msg w) = dns_EDNS0ECS w"
  "resolver_refreshNames (log_line lvl msg w) = resolver_refreshNames w"
  "http_domain (log_line lvl msg w) = http_domain w"
  "dns_rateLimit_count (log_line lvl msg w) = dns_rateLimit_count w"
  "dns_rateLimit_interval (log_line lvl msg w) = dns_rateLimit_interval w"
  "dns_reply_host_overwrite_v4 (log_line lvl msg w) = dns_reply_host_overwrite_v4 w"
  "dns_reply_host_v4 (log_line lvl msg w) = dns_reply_host_v4 w"
  "dns_reply_host_overwrite_v6 (log_line lvl msg w) = dns_reply_host_overwrite_v6 w"
  "dns_reply_host_v6 (log_line lvl msg w) = dns_reply_host_v6 w"
  "dns_reply_blocking_overwrite_v4 (log_line lvl msg w) = dns_reply_blocking_overwrite_v4 w"
  "dns_reply_blocking_v4 (log_line lvl msg w) = dns_reply_blocking_v4 w"
  "dns_reply_blocking_overwrite_v6 (log_line lvl msg w) = dns_reply_blocking_overwrite_v6 w"
  "dns_reply_blocking_v6 (log_line lvl msg w) = dns_reply_blocking_v6 w"
  "dns_showDNSSEC (log_line lvl msg w) = dns_showDNSSEC w"
  "dns_specialDomains_mozillaCanary (log_line lvl msg w) = dns_specialDomains_mozillaCanary w"
  "dns_piholePTR (log_line lvl msg w) = dns_piholePTR w"
  "misc_addr2line (log_line lvl msg w) = misc_addr2line w"
  "dns_replyWhenBusy (log_line lvl msg w) = dns_replyWhenBusy w"
  "dns_blockTTL (log_line lvl msg w) = dns_blockTTL w"
  "dns_specialDomains_iCloudPrivateRelay (log_line lvl msg w) = dns_specialDomains_iCloudPrivateRelay w"
  "misc_check_load (log_line lvl msg w) = misc_check_load w"
  "misc_check_shmem (log_line lvl msg w) = misc_check_shmem w"
  "misc_check_disk (log_line lvl msg w) = misc_check_disk w"
  "files_log (log_line lvl msg w) = files_log w"
  "debug (log_line lvl msg w) = debug w"
  "fclose_count (log_line lvl msg w) = fclose_count w"
  "argv_dnsmasq2 (log_line lvl msg w) = argv_dnsmasq2 w"
  by (simp_all add: log_line_def)

lemma fclose_frame:
  "dns_analyzeAAAA (fclose w) = dns_analyzeAAAA w"
  "database_maxDBdays (fclose w) = database_maxDBdays w"
  "resolver_resolveIPv6 (fclose w) = resolver_resolveIPv6 w"
  "resolver_resolveIPv4 (fclose w) = resolver_resolveIPv4 w"
  "database_DBinterval (fclose w) = database_DBinterval w"
  "files_database (fclose w) = files_database w"
  "files_database_d (fclose w) = files_database_d w"
  "database_maxHistory (fclose w) = database_maxHistory w"
  "misc_privacylevel (fclose w) = misc_privacylevel w"
  "dns_ignoreLocalhost (fclose w) = dns_ignoreLocalhost w"
  "dns_blockingmode (fclose w) = dns_blockingmode w"
  "dns_blockingmode_d (fclose w) = dns_blockingmode_d w"
  "dns_analyzeOnlyAandAAAA (fclose w) = dns_analyzeOnlyAandAAAA w"
  "database_DBimport (fclose w) = database_DBimport w"
  "files_pid (fclose w) = files_pid w"
  "files_setupVars (fclose w) = files_setupVars w"
  "files_macvendor (fclose w) = files_macvendor w"
  "files_gravity (fclose w) = files_gravity w"
  "database_network_parseARPcache (fclose w) = database_network_parseARPcache w"
  "dns_CNAMEdeepInspect (fclose w) = dns_CNAMEdeepInspect w"
  "misc_delay_startup (fclose w) = misc_delay_startup w"
  "dns_blockESNI (fclose w) = dns_blockESNI w"
  "http_paths_webroot (fclose w) = http_paths_webroot w"
  "http_port (fclose w) = http_port w"
  "http_paths_webhome (fclose w) = http_paths_webhome w"
  "http_acl (fclose w) = http_acl w"
  "http_localAPIauth (fclose w) = http_localAPIauth w"
  "http_sessionTimeout (fclose w) = http_sessionTimeout w"
  "http_prettyJSON (fclose w) = http_prettyJSON w"
  "files_ph7_error (fclose w) = files_ph7_error w"
  "files_http_info (fclose w) = files_http_info w"
  "database_network_expire (fclose w) = database_network_expire w"
  "resolver_networkNames (fclose w) = resolver_networkNames w"
  "dns_EDNS0ECS (fclose w) = dns_EDNS0ECS w"
  "resolver_refreshNames (fclose w) = resolver_refreshNames w"
  "http_domain (fclose w) = http_domain w"
  "dns_rateLimit_count (fclose w) = dns_rateLimit_count w"
  "dns_rateLimit_interval (fclose w) = dns_rateLimit_interval w"
  "dns_reply_host_overwrite_v4 (fclose w) = dns_reply_host_overwrite_v4 w"
  "dns_reply_host_v4 (fclose w) = dns_reply_host_v4 w"
  "dns_reply_host_overwrite_v6 (fclose w) = dns_reply_host_overwrite_v6 w"
  "dns_reply_host_v6 (fclose w) = dns_reply_host_v6 w"
  "dns_reply_blocking_overwrite_v4 (fclose w) = dns_reply_blocking_overwrite_v4 w"
  "dns_reply_blocking_v4 (fclose w) = dns_reply_blocking_v4 w"
  "dns_reply_blocking_overwrite_v6 (fclose w) = dns_reply_blocking_overwrite_v6 w"
  "dns_reply_blocking_v6 (fclose w) = dns_reply_blocking_v6 w"
  "dns_showDNSSEC (fclose w) = dns_showDNSSEC w"
  "dns_specialDomains_mozillaCanary (fclose w) = dns_specialDomains_mozillaCanary w"
  "dns_piholePTR (fclose w) = dns_piholePTR w"
  "misc_addr2line (fclose w) = misc_addr2line w"
  "dns_replyWhenBusy (fclose w) = dns_replyWhenBusy w"
  "dns_blockTTL (fclose w) = dns_blockTTL w"
  "dns_specialDomains_iCloudPrivateRelay (fclose w) = dns_specialDomains_iCloudPrivateRelay w"
  "misc_check_load (fclose w) = misc_check_load w"
  "misc_check_shmem (fclose w) = misc_check_shmem w"
  "misc_check_disk (fclose w) = misc_check_disk w"
  "files_log (fclose w) = files_log w"
  "debug (fclose w) = debug w"
  "log_out (fclose w) = log_out w"
  "argv_dnsmasq2 (fclose w) = argv_dnsmasq2 w"
  by (simp_all add: fclose_def)

lemma legacy_MAXDBDAYS_frame:
  "dns_analyzeAAAA (legacy_MAXDBDAYS fp w) = dns_analyzeAAAA w"
  "resolver_resolveIPv6 (legacy_MAXDBDAYS fp w) = resolver_resolveIPv6 w"
  "resolver_resolveIPv4 (legacy_MAXDBDAYS fp w) = resolver_resolveIPv4 w"
  "database_DBinterval (legacy_MAXDBDAYS fp w) = database_DBinterval w"
  "files_database (legacy_MAXDBDAYS fp w) = files_database w"
  "files_database_d (legacy_MAXDBDAYS fp w) = files_database_d w"
  "database_maxHistory (legacy_MAXDBDAYS fp w) = database_maxHistory w"
  "misc_privacylevel (legacy_MAXDBDAYS fp w) = misc_privacylevel w"
  "dns_ignoreLocalhost (legacy_MAXDBDAYS fp w) = dns_ignoreLocalhost w"
  "dns_blockingmode (legacy_MAXDBDAYS fp w) = dns_blockingmode w"
  "dns_blockingmode_d (legacy_MAXDBDAYS fp w) = dns_blockingmode_d w"
  "dns_analyzeOnlyAandAAAA (legacy_MAXDBDAYS fp w) = dns_analyzeOnlyAandAAAA w"
  "database_DBimport (legacy_MAXDBDAYS fp w) = database_DBimport w"
  "files_pid (legacy_MAXDBDAYS fp w) = files_pid w"
  "files_setupVars (legacy_MAXDBDAYS fp w) = files_setupVars w"
  "files_macvendor (legacy_MAXDBDAYS fp w) = files_macvendor w"
  "files_gravity (legacy_MAXDBDAYS fp w) = files_gravity w"
  "database_network_parseARPcache (legacy_MAXDBDAYS fp w) = database_network_parseARPcache w"
  "dns_CNAMEdeepInspect (legacy_MAXDBDAYS fp w) = dns_CNAMEdeepInspect w"
  "misc_delay_startup (legacy_MAXDBDAYS fp w) = misc_delay_startup w"
  "dns_blockESNI (legacy_MAXDBDAYS fp w) = dns_blockESNI w"
  "http_paths_webroot (legacy_MAXDBDAYS fp w) = http_paths_webroot w"
  "http_port (legacy_MAXDBDAYS fp w) = http_port w"
  "http_paths_webhome (legacy_MAXDBDAYS fp w) = http_paths_webhome w"
  "http_acl (legacy_MAXDBDAYS fp w) = http_acl w"
  "http_localAPIauth (legacy_MAXDBDAYS fp w) = http_localAPIauth w"
  "http_sessionTimeout (legacy_MAXDBDAYS fp w) = http_sessionTimeout w"
  "http_prettyJSON (legacy_MAXDBDAYS fp w) = http_prettyJSON w"
  "files_ph7_error (legacy_MAXDBDAYS fp w) = files_ph7_error w"
  "files_http_info (legacy_MAXDBDAYS fp w) = files_http_info w"
  "database_network_expire (legacy_MAXDBDAYS fp w) = database_network_expire w"
  "resolver_networkNames (legacy_MAXDBDAYS fp w) = resolver_networkNames w"
  "dns_EDNS0ECS (legacy_MAXDBDAYS fp w) = dns_EDNS0ECS w"
  "resolver_refreshNames (legacy_MAXDBDAYS fp w) = resolver_refreshNames w"
  "http_domain (legacy_MAXDBDAYS fp w) = http_domain w"
  "dns_rateLimit_count (legacy_MAXDBDAYS fp w) = dns_rateLimit_count w"
  "dns_rateLimit_interval (legacy_MAXDBDAYS fp w) = dns_rateLimit_interval w"
  "dns_reply_host_overwrite_v4 (legacy_MAXDBDAYS fp w) = dns_reply_host_overwrite_v4 w"
  "dns_reply_host_v4 (legacy_MAXDBDAYS fp w) = dns_reply_host_v4 w"
  "dns_reply_host_overwrite_v6 (legacy_MAXDBDAYS fp w) = dns_reply_host_overwrite_v6 w"
  "dns_reply_host_v6 (legacy_MAXDBDAYS fp w) = dns_reply_host_v6 w"
  "dns_reply_blocking_overwrite_v4 (legacy_MAXDBDAYS fp w) = dns_reply_blocking_overwrite_v4 w"
  "dns_reply_blocking_v4 (legacy_MAXDBDAYS fp w) = dns_reply_blocking_v4 w"
  "dns_reply_blocking_overwrite_v6 (legacy_MAXDBDAYS fp w) = dns_reply_blocking_overwrite_v6 w"
  "dns_reply_blocking_v6 (legacy_MAXDBDAYS fp w) = dns_reply_blocking_v6 w"
  "dns_showDNSSEC (legacy_MAXDBDAYS fp w) = dns_showDNSSEC w"
  "dns_specialDomains_mozillaCanary (legacy_MAXDBDAYS fp w) = dns_specialDomains_mozillaCanary w"
  "dns_piholePTR (legacy_MAXDBDAYS fp w) = dns_piholePTR w"
  "misc_addr2line (legacy_MAXDBDAYS fp w) = misc_addr2line w"
  "dns_replyWhenBusy (legacy_MAXDBDAYS fp w) = dns_replyWhenBusy w"
  "dns_blockTTL (legacy_MAXDBDAYS fp w) = dns_blockTTL w"
  "dns_specialDomains_iCloudPrivateRelay (legacy_MAXDBDAYS fp w) = dns_specialDomains_iCloudPrivateRelay w"
  "misc_check_load (legacy_MAXDBDAYS fp w) = misc_check_load w"
  "misc_check_shmem (legacy_MAXDBDAYS fp w) = misc_check_shmem w"
  "misc_check_disk (legacy_MAXDBDAYS fp w) = misc_check_disk w"
  "files_log (legacy_MAXDBDAYS fp w) = files_log w"
  "debug (legacy_MAXDBDAYS fp w) = debug w"
  "log_out (legacy_MAXDBDAYS fp w) = log_out w"
  "fclose_count (legacy_MAXDBDAYS fp w) = fclose_count w"
  "argv_dnsmasq2 (legacy_MAXDBDAYS fp w) = argv_dnsmasq2 w"
  by (simp_all add: legacy_MAXDBDAYS_def Let_def split: option.splits scan.splits prod.splits)

lemma legacy_DBINTERVAL_frame:
  "dns_analyzeAAAA (legacy_DBINTERVAL e fp w) = dns_analyzeAAAA w"
  "database_maxDBdays (legacy_DBINTERVAL e fp w) = database_maxDBdays w"
  "resolver_resolveIPv6 (legacy_DBINTERVAL e fp w) = resolver_resolveIPv6 w"
  "resolver_resolveIPv4 (legacy_DBINTERVAL e fp w) = resolver_resolveIPv4 w"
  "files_database (legacy_DBINTERVAL e fp w) = files_database w"
  "files_database_d (legacy_DBINTERVAL e fp w) = files_database_d w"
  "database_maxHistory (legacy_DBINTERVAL e fp w) = database_maxHistory w"
  "misc_privacylevel (legacy_DBINTERVAL e fp w) = misc_privacylevel w"
  "dns_ignoreLocalhost (legacy_DBINTERVAL e fp w) = dns_ignoreLocalhost w"
  "dns_blockingmode (legacy_DBINTERVAL e fp w) = dns_blockingmode w"
  "dns_blockingmode_d (legacy_DBINTERVAL e fp w) = dns_blockingmode_d w"
  "dns_analyzeOnlyAandAAAA (legacy_DBINTERVAL e fp w) = dns_analyzeOnlyAandAAAA w"
  "database_DBimport (legacy_DBINTERVAL e fp w) = database_DBimport w"
  "files_pid (legacy_DBINTERVAL e fp w) = files_pid w"
  "files_setupVars (legacy_DBINTERVAL e fp w) = files_setupVars w"
  "files_macvendor (legacy_DBINTERVAL e fp w) = files_macvendor w"
  "files_gravity (legacy_DBINTERVAL e fp w) = files_gravity w"
  "database_network_parseARPcache (legacy_DBINTERVAL e fp w) = database_network_parseARPcache w"
  "dns_CNAMEdeepInspect (legacy_DBINTERVAL e fp w) = dns_CNAMEdeepInspect w"
  "misc_delay_startup (legacy_DBINTERVAL e fp w) = misc_delay_startup w"
  "dns_blockESNI (legacy_DBINTERVAL e fp w) = dns_blockESNI w"
  "http_paths_webroot (legacy_DBINTERVAL e fp w) = http_paths_webroot w"
  "http_port (legacy_DBINTERVAL e fp w) = http_port w"
  "http_paths_webhome (legacy_DBINTERVAL e fp w) = http_paths_webhome w"
  "http_acl (legacy_DBINTERVAL e fp w) = http_acl w"
  "http_localAPIauth (legacy_DBINTERVAL e fp w) = http_localAPIauth w"
  "http_sessionTimeout (legacy_DBINTERVAL e fp w) = http_sessionTimeout w"
  "http_prettyJSON (legacy_DBINTERVAL e fp w) = http_prettyJSON w"
  "files_ph7_error (legacy_DBINTERVAL e fp w) = files_ph7_error w"
  "files_http_info (legacy_DBINTERVAL e fp w) = files_http_info w"
  "database_network_expire (legacy_DBINTERVAL e fp w) = database_network_expire w"
  "resolver_networkNames (legacy_DBINTERVAL e fp w) = resolver_networkNames w"
  "dns_EDNS0ECS (legacy_DBINTERVAL e fp w) = dns_EDNS0ECS w"
  "resolver_refreshNames (legacy_DBINTERVAL e fp w) = resolver_refreshNames w"
  "http_domain (legacy_DBINTERVAL e fp w) = http_domain w"
  "dns_rateLimit_count (legacy_DBINTERVAL e fp w) = dns_rateLimit_count w"
  "dns_rateLimit_interval (legacy_DBINTERVAL e fp w) = dns_rateLimit_interval w"
  "dns_reply_host_overwrite_v4 (legacy_DBINTERVAL e fp w) = dns_reply_host_overwrite_v4 w"
  "dns_reply_host_v4 (legacy_DBINTERVAL e fp w) = dns_reply_host_v4 w"
  "dns_reply_host_overwrite_v6 (legacy_DBINTERVAL e fp w) = dns_reply_host_overwrite_v6 w"
  "dns_reply_host_v6 (legacy_DBINTERVAL e fp w) = dns_reply_host_v6 w"
  "dns_reply_blocking_overwrite_v4 (legacy_DBINTERVAL e fp w) = dns_reply_blocking_overwrite_v4 w"
  "dns_reply_blocking_v4 (legacy_DBINTERVAL e fp w) = dns_reply_blocking_v4 w"
  "dns_reply_blocking_overwrite_v6 (legacy_DBINTERVAL e fp w) = dns_reply_blocking_overwrite_v6 w"
  "dns_reply_blocking_v6 (legacy_DBINTERVAL e fp w) = dns_reply_blocking_v6 w"
  "dns_showDNSSEC (legacy_DBINTERVAL e fp w) = dns_showDNSSEC w"
  "dns_specialDomains_mozillaCanary (legacy_DBINTERVAL e fp w) = dns_specialDomains_mozillaCanary w"
  "dns_piholePTR (legacy_DBINTERVAL e fp w) = dns_piholePTR w"
  "misc_addr2line (legacy_DBINTERVAL e fp w) = misc_addr2line w"
  "dns_replyWhenBusy (legacy_DBINTERVAL e fp w) = dns_replyWhenBusy w"
  "dns_blockTTL (legacy_DBINTERVAL e fp w) = dns_blockTTL w"
  "dns_specialDomains_iCloudPrivateRelay (legacy_DBINTERVAL e fp w) = dns_specialDomains_iCloudPrivateRelay w"
  "misc_check_load (legacy_DBINTERVAL e fp w) = misc_check_load w"
  "misc_check_shmem (legacy_DBINTERVAL e fp w) = misc_check_shmem w"
  "misc_check_disk (legacy_DBINTERVAL e fp w) = misc_check_disk w"
  "files_log (legacy_DBINTERVAL e fp w) = files_log w"
  "debug (legacy_DBINTERVAL e fp w) = debug w"
  "log_out (legacy_DBINTERVAL e fp w) = log_out w"
  "fclose_count (legacy_DBINTERVAL e fp w) = fclose_count w"
  "argv_dnsmasq2 (legacy_DBINTERVAL e fp w) = argv_dnsmasq2 w"
  by (simp_all add: legacy_DBINTERVAL_def Let_def split: option.splits scan.splits prod.splits)

lemma legacy_DBFILE_frame:
  "dns_analyzeAAAA (legacy_DBFILE fp w) = dns_analyzeAAAA w"
  "resolver_resolveIPv6 (legacy_DBFILE fp w) = resolver_resolveIPv6 w"
  "resolver_resolveIPv4 (legacy_DBFILE fp w) = resolver_resolveIPv4 w"
  "database_DBinterval (legacy_DBFILE fp w) = database_DBinterval w"
  "files_database_d (legacy_DBFILE fp w) = files_database_d w"
  "database_maxHistory (legacy_DBFILE fp w) = database_maxHistory w"
  "misc_privacylevel (legacy_DBFILE fp w) = misc_privacylevel w"
  "dns_ignoreLocalhost (legacy_DBFILE fp w) = dns_ignoreLocalhost w"
  "dns_blockingmode (legacy_DBFILE fp w) = dns_blockingmode w"
  "dns_blockingmode_d (legacy_DBFILE fp w) = dns_blockingmode_d w"
  "dns_analyzeOnlyAandAAAA (legacy_DBFILE fp w) = dns_analyzeOnlyAandAAAA w"
  "database_DBimport (legacy_DBFILE fp w) = database_DBimport w"
  "files_pid (legacy_DBFILE fp w) = files_pid w"
  "files_setupVars (legacy_DBFILE fp w) = files_setupVars w"
  "files_macvendor (legacy_DBFILE fp w) = files_macvendor w"
  "files_gravity (legacy_DBFILE fp w) = files_gravity w"
  "database_network_parseARPcache (legacy_DBFILE fp w) = database_network_parseARPcache w"
  "dns_CNAMEdeepInspect (legacy_DBFILE fp w) = dns_CNAMEdeepInspect w"
  "misc_delay_startup (legacy_DBFILE fp w) = misc_delay_startup w"
  "dns_blockESNI (legacy_DBFILE fp w) = dns_blockESNI w"
  "http_paths_webroot (legacy_DBFILE fp w) = http_paths_webroot w"
  "http_port (legacy_DBFILE fp w) = http_port w"
  "http_paths_webhome (legacy_DBFILE fp w) = http_paths_webhome w"
  "http_acl (legacy_DBFILE fp w) = http_acl w"
  "http_localAPIauth (legacy_DBFILE fp w) = http_localAPIauth w"
  "http_sessionTimeout (legacy_DBFILE fp w) = http_sessionTimeout w"
  "http_prettyJSON (legacy_DBFILE fp w) = http_prettyJSON w"
  "files_ph7_error (legacy_DBFILE fp w) = files_ph7_error w"
  "files_http_info (legacy_DBFILE fp w) = files_http_info w"
  "database_network_expire (legacy_DBFILE fp w) = database_network_expire w"
  "resolver_networkNames (legacy_DBFILE fp w) = resolver_networkNames w"
  "dns_EDNS0ECS (legacy_DBFILE fp w) = dns_EDNS0ECS w"
  "resolver_refreshNames (legacy_DBFILE fp w) = resolver_refreshNames w"
  "http_domain (legacy_DBFILE fp w) = http_domain w"
  "dns_rateLimit_count (legacy_DBFILE fp w) = dns_rateLimit_count w"
  "dns_rateLimit_interval (legacy_DBFILE fp w) = dns_rateLimit_interval w"
  "dns_reply_host_overwrite_v4 (legacy_DBFILE fp w) = dns_reply_host_overwrite_v4 w"
  "dns_reply_host_v4 (legacy_DBFILE fp w) = dns_reply_host_v4 w"
  "dns_reply_host_overwrite_v6 (legacy_DBFILE fp w) = dns_reply_host_overwrite_v6 w"
  "dns_reply_host_v6 (legacy_DBFILE fp w) = dns_reply_host_v6 w"
  "dns_reply_blocking_overwrite_v4 (legacy_DBFILE fp w) = dns_reply_blocking_overwrite_v4 w"
  "dns_reply_blocking_v4 (legacy_DBFILE fp w) = dns_reply_blocking_v4 w"
  "dns_reply_blocking_overwrite_v6 (legacy_DBFILE fp w) = dns_reply_blocking_overwrite_v6 w"
  "dns_reply_blocking_v6 (legacy_DBFILE fp w) = dns_reply_blocking_v6 w"
  "dns_showDNSSEC (legacy_DBFILE fp w) = dns_showDNSSEC w"
  "dns_specialDomains_mozillaCanary (legacy_DBFILE fp w) = dns_specialDomains_mozillaCanary w"
  "dns_piholePTR (legacy_DBFILE fp w) = dns_piholePTR w"
  "misc_addr2line (legacy_DBFILE fp w) = misc_addr2line w"
  "dns_replyWhenBusy (legacy_DBFILE fp w) = dns_replyWhenBusy w"
  "dns_blockTTL (legacy_DBFILE fp w) = dns_blockTTL w"
  "dns_specialDomains_iCloudPrivateRelay (legacy_DBFILE fp w) = dns_specialDomains_iCloudPrivateRelay w"
  "misc_check_load (legacy_DBFILE fp w) = misc_check_load w"
  "misc_check_shmem (legacy_DBFILE fp w) = misc_check_shmem w"
  "misc_check_disk (legacy_DBFILE fp w) = misc_check_disk w"
  "files_log (legacy_DBFILE fp w) = files_log w"
  "debug (legacy_DBFILE fp w) = debug w"
  "log_out (legacy_DBFILE fp w) = log_out w"
  "fclose_count (legacy_DBFILE fp w) = fclose_count w"
  "argv_dnsmasq2 (legacy_DBFILE fp w) = argv_dnsmasq2 w"
  by (simp_all add: legacy_DBFILE_def Let_def split: option.splits scan.splits prod.splits)

lemma legacy_MAXLOGAGE_frame:
  "dns_analyzeAAAA (legacy_MAXLOGAGE e fp w) = dns_analyzeAAAA w"
  "database_maxDBdays (legacy_MAXLOGAGE e fp w) = database_maxDBdays w"
  "resolver_resolveIPv6 (legacy_MAXLOGAGE e fp w) = resolver_resolveIPv6 w"
  "resolver_resolveIPv4 (legacy_MAXLOGAGE e fp w) = resolver_resolveIPv4 w"
  "database_DBinterval (legacy_MAXLOGAGE e fp w) = database_DBinterval w"
  "files_database (legacy_MAXLOGAGE e fp w) = files_database w"
  "files_database_d (legacy_MAXLOGAGE e fp w) = files_database_d w"
  "misc_privacylevel (legacy_MAXLOGAGE e fp w) = misc_privacylevel w"
  "dns_ignoreLocalhost (legacy_MAXLOGAGE e fp w) = dns_ignoreLocalhost w"
  "dns_blockingmode (legacy_MAXLOGAGE e fp w) = dns_blockingmode w"
  "dns_blockingmode_d (legacy_MAXLOGAGE e fp w) = dns_blockingmode_d w"
  "dns_analyzeOnlyAandAAAA (legacy_MAXLOGAGE e fp w) = dns_analyzeOnlyAandAAAA w"
  "database_DBimport (legacy_MAXLOGAGE e fp w) = database_DBimport w"
  "files_pid (legacy_MAXLOGAGE e fp w) = files_pid w"
  "files_setupVars (legacy_MAXLOGAGE e fp w) = files_setupVars w"
  "files_macvendor (legacy_MAXLOGAGE e fp w) = files_macvendor w"
  "files_gravity (legacy_MAXLOGAGE e fp w) = files_gravity w"
  "database_network_parseARPcache (legacy_MAXLOGAGE e fp w) = database_network_parseARPcache w"
  "dns_CNAMEdeepInspect (legacy_MAXLOGAGE e fp w) = dns_CNAMEdeepInspect w"
  "misc_delay_startup (legacy_MAXLOGAGE e fp w) = misc_delay_startup w"
  "dns_blockESNI (legacy_MAXLOGAGE e fp w) = dns_blockESNI w"
  "http_paths_webroot (legacy_MAXLOGAGE e fp w) = http_paths_webroot w"
  "http_port (legacy_MAXLOGAGE e fp w) = http_port w"
  "http_paths_webhome (legacy_MAXLOGAGE e fp w) = http_paths_webhome w"
  "http_acl (legacy_MAXLOGAGE e fp w) = http_acl w"
  "http_localAPIauth (legacy_MAXLOGAGE e fp w) = http_localAPIauth w"
  "http_sessionTimeout (legacy_MAXLOGAGE e fp w) = http_sessionTimeout w"
  "http_prettyJSON (legacy_MAXLOGAGE e fp w) = http_prettyJSON w"
  "files_ph7_error (legacy_MAXLOGAGE e fp w) = files_ph7_error w"
  "files_http_info (legacy_MAXLOGAGE e fp w) = files_http_info w"
  "database_network_expire (legacy_MAXLOGAGE e fp w) = database_network_expire w"
  "resolver_networkNames (legacy_MAXLOGAGE e fp w) = resolver_networkNames w"
  "dns_EDNS0ECS (legacy_MAXLOGAGE e fp w) = dns_EDNS0ECS w"
  "resolver_refreshNames (legacy_MAXLOGAGE e fp w) = resolver_refreshNames w"
  "http_domain (legacy_MAXLOGAGE e fp w) = http_domain w"
  "dns_rateLimit_count (legacy_MAXLOGAGE e fp w) = dns_rateLimit_count w"
  "dns_rateLimit_interval (legacy_MAXLOGAGE e fp w) = dns_rateLimit_interval w"
  "dns_reply_host_overwrite_v4 (legacy_MAXLOGAGE e fp w) = dns_reply_host_overwrite_v4 w"
  "dns_reply_host_v4 (legacy_MAXLOGAGE e fp w) = dns_reply_host_v4 w"
  "dns_reply_host_overwrite_v6 (legacy_MAXLOGAGE e fp w) = dns_reply_host_overwrite_v6 w"
  "dns_reply_host_v6 (legacy_MAXLOGAGE e fp w) = dns_reply_host_v6 w"
  "dns_reply_blocking_overwrite_v4 (legacy_MAXLOGAGE e fp w) = dns_reply_blocking_overwrite_v4 w"
  "dns_reply_blocking_v4 (legacy_MAXLOGAGE e fp w) = dns_reply_blocking_v4 w"
  "dns_reply_blocking_overwrite_v6 (legacy_MAXLOGAGE e fp w) = dns_reply_blocking_overwrite_v6 w"
  "dns_reply_blocking_v6 (legacy_MAXLOGAGE e fp w) = dns_reply_blocking_v6 w"
  "dns_showDNSSEC (legacy_MAXLOGAGE e fp w) = dns_showDNSSEC w"
  "dns_specialDomains_mozillaCanary (legacy_MAXLOGAGE e fp w) = dns_specialDomains_mozillaCanary w"
  "dns_piholePTR (legacy_MAXLOGAGE e fp w) = dns_piholePTR w"
  "misc_addr2line (legacy_MAXLOGAGE e fp w) = misc_addr2line w"
  "dns_replyWhenBusy (legacy_MAXLOGAGE e fp w) = dns_replyWhenBusy w"
  "dns_blockTTL (legacy_MAXLOGAGE e fp w) = dns_blockTTL w"
  "dns_specialDomains_iCloudPrivateRelay (legacy_MAXLOGAGE e fp w) = dns_specialDomains_iCloudPrivateRelay w"
  "misc_check_load (legacy_MAXLOGAGE e fp w) = misc_check_load w"
  "misc_check_shmem (legacy_MAXLOGAGE e fp w) = misc_check_shmem w"
  "misc_check_disk (legacy_MAXLOGAGE e fp w) = misc_check_disk w"
  "files_log (legacy_MAXLOGAGE e fp w) = files_log w"
  "debug (legacy_MAXLOGAGE e fp w) = debug w"
  "log_out (legacy_MAXLOGAGE e fp w) = log_out w"
  "fclose_count (legacy_MAXLOGAGE e fp w) = fclose_count w"
  "argv_dnsmasq2 (legacy_MAXLOGAGE e fp w) = argv_dnsmasq2 w"
  by (simp_all add: legacy_MAXLOGAGE_def Let_def split: option.splits scan.splits prod.splits)

lemma getPrivacyLevelLegacy_frame:
  "dns_analyzeAAAA (getPrivacyLevelLegacy fs fp w) = dns_analyzeAAAA w"
  "database_maxDBdays (getPrivacyLevelLegacy fs fp w) = database_maxDBdays w"
  "resolver_resolveIPv6 (getPrivacyLevelLegacy fs fp w) = resolver_resolveIPv6 w"
  "resolver_resolveIPv4 (getPrivacyLevelLegacy fs fp w) = resolver_resolveIPv4 w"
  "database_DBinterval (getPrivacyLevelLegacy fs fp w) = database_DBinterval w"
  "files_database (getPrivacyLevelLegacy fs fp w) = files_database w"
  "files_database_d (getPrivacyLevelLegacy fs fp w) = files_database_d w"
  "database_maxHistory (getPrivacyLevelLegacy fs fp w) = database_maxHistory w"
  "dns_ignoreLocalhost (getPrivacyLevelLegacy fs fp w) = dns_ignoreLocalhost w"
  "dns_blockingmode (getPrivacyLevelLegacy fs fp w) = dns_blockingmode w"
  "dns_blockingmode_d (getPrivacyLevelLegacy fs fp w) = dns_blockingmode_d w"
  "dns_analyzeOnlyAandAAAA (getPrivacyLevelLegacy fs fp w) = dns_analyzeOnlyAandAAAA w"
  "database_DBimport (getPrivacyLevelLegacy fs fp w) = database_DBimport w"
  "files_pid (getPrivacyLevelLegacy fs fp w) = files_pid w"
  "files_setupVars (getPrivacyLevelLegacy fs fp w) = files_setupVars w"
  "files_macvendor (getPrivacyLevelLegacy fs fp w) = files_macvendor w"
  "files_gravity (getPrivacyLevelLegacy fs fp w) = files_gravity w"
  "database_network_parseARPcache (getPrivacyLevelLegacy fs fp w) = database_network_parseARPcache w"
  "dns_CNAMEdeepInspect (getPrivacyLevelLegacy fs fp w) = dns_CNAMEdeepInspect w"
  "misc_delay_startup (getPrivacyLevelLegacy fs fp w) = misc_delay_startup w"
  "dns_blockESNI (getPrivacyLevelLegacy fs fp w) = dns_blockESNI w"
  "http_paths_webroot (getPrivacyLevelLegacy fs fp w) = http_paths_webroot w"
  "http_port (getPrivacyLevelLegacy fs fp w) = http_port w"
  "http_paths_webhome (getPrivacyLevelLegacy fs fp w) = http_paths_webhome w"
  "http_acl (getPrivacyLevelLegacy fs fp w) = http_acl w"
  "http_localAPIauth (getPrivacyLevelLegacy fs fp w) = http_localAPIauth w"
  "http_sessionTimeout (getPrivacyLevelLegacy fs fp w) = http_sessionTimeout w"
  "http_prettyJSON (getPrivacyLevelLegacy fs fp w) = http_prettyJSON w"
  "files_ph7_error (getPrivacyLevelLegacy fs fp w) = files_ph7_error w"
  "files_http_info (getPrivacyLevelLegacy fs fp w) = files_http_info w"
  "database_network_expire (getPrivacyLevelLegacy fs fp w) = database_network_expire w"
  "resolver_networkNames (getPrivacyLevelLegacy fs fp w) = resolver_networkNames w"
  "dns_EDNS0ECS (getPrivacyLevelLegacy fs fp w) = dns_EDNS0ECS w"
  "resolver_refreshNames (getPrivacyLevelLegacy fs fp w) = resolver_refreshNames w"
  "http_domain (getPrivacyLevelLegacy fs fp w) = http_domain w"
  "dns_rateLimit_count (getPrivacyLevelLegacy fs fp w) = dns_rateLimit_count w"
  "dns_rateLimit_interval (getPrivacyLevelLegacy fs fp w) = dns_rateLimit_interval w"
  "dns_reply_host_overwrite_v4 (getPrivacyLevelLegacy fs fp w) = dns_reply_host_overwrite_v4 w"
  "dns_reply_host_v4 (getPrivacyLevelLegacy fs fp w) = dns_reply_host_v4 w"
  "dns_reply_host_overwrite_v6 (getPrivacyLevelLegacy fs fp w) = dns_reply_host_overwrite_v6 w"
  "dns_reply_host_v6 (getPrivacyLevelLegacy fs fp w) = dns_reply_host_v6 w"
  "dns_reply_blocking_overwrite_v4 (getPrivacyLevelLegacy fs fp w) = dns_reply_blocking_overwrite_v4 w"
  "dns_reply_blocking_v4 (getPrivacyLevelLegacy fs fp w) = dns_reply_blocking_v4 w"
  "dns_reply_blocking_overwrite_v6 (getPrivacyLevelLegacy fs fp w) = dns_reply_blocking_overwrite_v6 w"
  "dns_reply_blocking_v6 (getPrivacyLevelLegacy fs fp w) = dns_reply_blocking_v6 w"
  "dns_showDNSSEC (getPrivacyLevelLegacy fs fp w) = dns_showDNSSEC w"
  "dns_specialDomains_mozillaCanary (getPrivacyLevelLegacy fs fp w) = dns_specialDomains_mozillaCanary w"
  "dns_piholePTR (getPrivacyLevelLegacy fs fp w) = dns_piholePTR w"
  "misc_addr2line (getPrivacyLevelLegacy fs fp w) = misc_addr2line w"
  "dns_replyWhenBusy (getPrivacyLevelLegacy fs fp w) = dns_replyWhenBusy w"
  "dns_blockTTL (getPrivacyLevelLegacy fs fp w) = dns_blockTTL w"
  "dns_specialDomains_iCloudPrivateRelay (getPrivacyLevelLegacy fs fp w) = dns_specialDomains_iCloudPrivateRelay w"
  "misc_check_load (getPrivacyLevelLegacy fs fp w) = misc_check_load w"
  "misc_check_shmem (getPrivacyLevelLegacy fs fp w) = misc_check_shmem w"
  "misc_check_disk (getPrivacyLevelLegacy fs fp w) = misc_check_disk w"
  "files_log (getPrivacyLevelLegacy fs fp w) = files_log w"
  "debug (getPrivacyLevelLegacy fs fp w) = debug w"
  "log_out (getPrivacyLevelLegacy fs fp w) = log_out w"
  "argv_dnsmasq2 (getPrivacyLevelLegacy fs fp w) = argv_dnsmasq2 w"
  by (simp_all add: getPrivacyLevelLegacy_def Let_def fclose_def split: option.splits scan.splits prod.splits)

lemma legacy_IGNORE_LOCALHOST_frame:
  "dns_analyzeAAAA (legacy_IGNORE_LOCALHOST fp w) = dns_analyzeAAAA w"
  "database_maxDBdays (legacy_IGNORE_LOCALHOST fp w) = database_maxDBdays w"
  "resolver_resolveIPv6 (legacy_IGNORE_LOCALHOST fp w) = resolver_resolveIPv6 w"
  "resolver_resolveIPv4 (legacy_IGNORE_LOCALHOST fp w) = resolver_resolveIPv4 w"
  "database_DBinterval (legacy_IGNORE_LOCALHOST fp w) = database_DBinterval w"
  "files_database (legacy_IGNORE_LOCALHOST fp w) = files_database w"
  "files_database_d (legacy_IGNORE_LOCALHOST fp w) = files_database_d w"
  "database_maxHistory (legacy_IGNORE_LOCALHOST fp w) = database_maxHistory w"
  "misc_privacylevel (legacy_IGNORE_LOCALHOST fp w) = misc_privacylevel w"
  "dns_blockingmode (legacy_IGNORE_LOCALHOST fp w) = dns_blockingmode w"
  "dns_blockingmode_d (legacy_IGNORE_LOCALHOST fp w) = dns_blockingmode_d w"
  "dns_analyzeOnlyAandAAAA (legacy_IGNORE_LOCALHOST fp w) = dns_analyzeOnlyAandAAAA w"
  "database_DBimport (legacy_IGNORE_LOCALHOST fp w) = database_DBimport w"
  "files_pid (legacy_IGNORE_LOCALHOST fp w) = files_pid w"
  "files_setupVars (legacy_IGNORE_LOCALHOST fp w) = files_setupVars w"
  "files_macvendor (legacy_IGNORE_LOCALHOST fp w) = files_macvendor w"
  "files_gravity (legacy_IGNORE_LOCALHOST fp w) = files_gravity w"
  "database_network_parseARPcache (legacy_IGNORE_LOCALHOST fp w) = database_network_parseARPcache w"
  "dns_CNAMEdeepInspect (legacy_IGNORE_LOCALHOST fp w) = dns_CNAMEdeepInspect w"
  "misc_delay_startup (legacy_IGNORE_LOCALHOST fp w) = misc_delay_startup w"
  "dns_blockESNI (legacy_IGNORE_LOCALHOST fp w) = dns_blockESNI w"
  "http_paths_webroot (legacy_IGNORE_LOCALHOST fp w) = http_paths_webroot w"
  "http_port (legacy_IGNORE_LOCALHOST fp w) = http_port w"
  "http_paths_webhome (legacy_IGNORE_LOCALHOST fp w) = http_paths_webhome w"
  "http_acl (legacy_IGNORE_LOCALHOST fp w) = http_acl w"
  "http_localAPIauth (legacy_IGNORE_LOCALHOST fp w) = http_localAPIauth w"
  "http_sessionTimeout (legacy_IGNORE_LOCALHOST fp w) = http_sessionTimeout w"
  "http_prettyJSON (legacy_IGNORE_LOCALHOST fp w) = http_prettyJSON w"
  "files_ph7_error (legacy_IGNORE_LOCALHOST fp w) = files_ph7_error w"
  "files_http_info (legacy_IGNORE_LOCALHOST fp w) = files_http_info w"
  "database_network_expire (legacy_IGNORE_LOCALHOST fp w) = database_network_expire w"
  "resolver_networkNames (legacy_IGNORE_LOCALHOST fp w) = resolver_networkNames w"
  "dns_EDNS0ECS (legacy_IGNORE_LOCALHOST fp w) = dns_EDNS0ECS w"
  "resolver_refreshNames (legacy_IGNORE_LOCALHOST fp w) = resolver_refreshNames w"
  "http_domain (legacy_IGNORE_LOCALHOST fp w) = http_domain w"
  "dns_rateLimit_count (legacy_IGNORE_LOCALHOST fp w) = dns_rateLimit_count w"
  "dns_rateLimit_interval (legacy_IGNORE_LOCALHOST fp w) = dns_rateLimit_interval w"
  "dns_reply_host_overwrite_v4 (legacy_IGNORE_LOCALHOST fp w) = dns_reply_host_overwrite_v4 w"
  "dns_reply_host_v4 (legacy_IGNORE_LOCALHOST fp w) = dns_reply_host_v4 w"
  "dns_reply_host_overwrite_v6 (legacy_IGNORE_LOCALHOST fp w) = dns_reply_host_overwrite_v6 w"
  "dns_reply_host_v6 (legacy_IGNORE_LOCALHOST fp w) = dns_reply_host_v6 w"
  "dns_reply_blocking_overwrite_v4 (legacy_IGNORE_LOCALHOST fp w) = dns_reply_blocking_overwrite_v4 w"
  "dns_reply_blocking_v4 (legacy_IGNORE_LOCALHOST fp w) = dns_reply_blocking_v4 w"
  "dns_reply_blocking_overwrite_v6 (legacy_IGNORE_LOCALHOST fp w) = dns_reply_blocking_overwrite_v6 w"
  "dns_reply_blocking_v6 (legacy_IGNORE_LOCALHOST fp w) = dns_reply_blocking_v6 w"
  "dns_showDNSSEC (legacy_IGNORE_LOCALHOST fp w) = dns_showDNSSEC w"
  "dns_specialDomains_mozillaCanary (legacy_IGNORE_LOCALHOST fp w) = dns_specialDomains_mozillaCanary w"
  "dns_piholePTR (legacy_IGNORE_LOCALHOST fp w) = dns_piholePTR w"
  "misc_addr2line (legacy_IGNORE_LOCALHOST fp w) = misc_addr2line w"
  "dns_replyWhenBusy (legacy_IGNORE_LOCALHOST fp w) = dns_replyWhenBusy w"
  "dns_blockTTL (legacy_IGNORE_LOCALHOST fp w) = dns_blockTTL w"
  "dns_specialDomains_iCloudPrivateRelay (legacy_IGNORE_LOCALHOST fp w) = dns_specialDomains_iCloudPrivateRelay w"
  "misc_check_load (legacy_IGNORE_LOCALHOST fp w) = misc_check_load w"
  "misc_check_shmem (legacy_IGNORE_LOCALHOST fp w) = misc_check_shmem w"
  "misc_check_disk (legacy_IGNORE_LOCALHOST fp w) = misc_check_disk w"
  "files_log (legacy_IGNORE_LOCALHOST fp w) = files_log w"
  "debug (legacy_IGNORE_LOCALHOST fp w) = debug w"
  "log_out (legacy_IGNORE_LOCALHOST fp w) = log_out w"
  "fclose_count (legacy_IGNORE_LOCALHOST fp w) = fclose_count w"
  "argv_dnsmasq2 (legacy_IGNORE_LOCALHOST fp w) = argv_dnsmasq2 w"
  by (simp_all add: legacy_IGNORE_LOCALHOST_def Let_def split: option.splits scan.splits prod.splits)

lemma getBlockingModeLegacy_frame:
  "dns_analyzeAAAA (getBlockingModeLegacy fs fp w) = dns_analyzeAAAA w"
  "database_maxDBdays (getBlockingModeLegacy fs fp w) = database_maxDBdays w"
  "resolver_resolveIPv6 (getBlockingModeLegacy fs fp w) = resolver_resolveIPv6 w"
  "resolver_resolveIPv4 (getBlockingModeLegacy fs fp w) = resolver_resolveIPv4 w"
  "database_DBinterval (getBlockingModeLegacy fs fp w) = database_DBinterval w"
  "files_database (getBlockingModeLegacy fs fp w) = files_database w"
  "files_database_d (getBlockingModeLegacy fs fp w) = files_database_d w"
  "database_maxHistory (getBlockingModeLegacy fs fp w) = database_maxHistory w"
  "misc_privacylevel (getBlockingModeLegacy fs fp w) = misc_privacylevel w"
  "dns_ignoreLocalhost (getBlockingModeLegacy fs fp w) = dns_ignoreLocalhost w"
  "dns_blockingmode_d (getBlockingModeLegacy fs fp w) = dns_blockingmode_d w"
  "dns_analyzeOnlyAandAAAA (getBlockingModeLegacy fs fp w) = dns_analyzeOnlyAandAAAA w"
  "database_DBimport (getBlockingModeLegacy fs fp w) = database_DBimport w"
  "files_pid (getBlockingModeLegacy fs fp w) = files_pid w"
  "files_setupVars (getBlockingModeLegacy fs fp w) = files_setupVars w"
  "files_macvendor (getBlockingModeLegacy fs fp w) = files_macvendor w"
  "files_gravity (getBlockingModeLegacy fs fp w) = files_gravity w"
  "database_network_parseARPcache (getBlockingModeLegacy fs fp w) = database_network_parseARPcache w"
  "dns_CNAMEdeepInspect (getBlockingModeLegacy fs fp w) = dns_CNAMEdeepInspect w"
  "misc_delay_startup (getBlockingModeLegacy fs fp w) = misc_delay_startup w"
  "dns_blockESNI (getBlockingModeLegacy fs fp w) = dns_blockESNI w"
  "http_paths_webroot (getBlockingModeLegacy fs fp w) = http_paths_webroot w"
  "http_port (getBlockingModeLegacy fs fp w) = http_port w"
  "http_paths_webhome (getBlockingModeLegacy fs fp w) = http_paths_webhome w"
  "http_acl (getBlockingModeLegacy fs fp w) = http_acl w"
  "http_localAPIauth (getBlockingModeLegacy fs fp w) = http_localAPIauth w"
  "http_sessionTimeout (getBlockingModeLegacy fs fp w) = http_sessionTimeout w"
  "http_prettyJSON (getBlockingModeLegacy fs fp w) = http_prettyJSON w"
  "files_ph7_error (getBlockingModeLegacy fs fp w) = files_ph7_error w"
  "files_http_info (getBlockingModeLegacy fs fp w) = files_http_info w"
  "database_network_expire (getBlockingModeLegacy fs fp w) = database_network_expire w"
  "resolver_networkNames (getBlockingModeLegacy fs fp w) = resolver_networkNames w"
  "dns_EDNS0ECS (getBlockingModeLegacy fs fp w) = dns_EDNS0ECS w"
  "resolver_refreshNames (getBlockingModeLegacy fs fp w) = resolver_refreshNames w"
  "http_domain (getBlockingModeLegacy fs fp w) = http_domain w"
  "dns_rateLimit_count (getBlockingModeLegacy fs fp w) = dns_rateLimit_count w"
  "dns_rateLimit_interval (getBlockingModeLegacy fs fp w) = dns_rateLimit_interval w"
  "dns_reply_host_overwrite_v4 (getBlockingModeLegacy fs fp w) = dns_reply_host_overwrite_v4 w"
  "dns_reply_host_v4 (getBlockingModeLegacy fs fp w) = dns_reply_host_v4 w"
  "dns_reply_host_overwrite_v6 (getBlockingModeLegacy fs fp w) = dns_reply_host_overwrite_v6 w"
  "dns_reply_host_v6 (getBlockingModeLegacy fs fp w) = dns_reply_host_v6 w"
  "dns_reply_blocking_overwrite_v4 (getBlockingModeLegacy fs fp w) = dns_reply_blocking_overwrite_v4 w"
  "dns_reply_blocking_v4 (getBlockingModeLegacy fs fp w) = dns_reply_blocking_v4 w"
  "dns_reply_blocking_overwrite_v6 (getBlockingModeLegacy fs fp w) = dns_reply_blocking_overwrite_v6 w"
  "dns_reply_blocking_v6 (getBlockingModeLegacy fs fp w) = dns_reply_blocking_v6 w"
  "dns_showDNSSEC (getBlockingModeLegacy fs fp w) = dns_showDNSSEC w"
  "dns_specialDomains_mozillaCanary (getBlockingModeLegacy fs fp w) = dns_specialDomains_mozillaCanary w"
  "dns_piholePTR (getBlockingModeLegacy fs fp w) = dns_piholePTR w"
  "misc_addr2line (getBlockingModeLegacy fs fp w) = misc_addr2line w"
  "dns_replyWhenBusy (getBlockingModeLegacy fs fp w) = dns_replyWhenBusy w"
  "dns_blockTTL (getBlockingModeLegacy fs fp w) = dns_blockTTL w"
  "dns_specialDomains_iCloudPrivateRelay (getBlockingModeLegacy fs fp w) = dns_specialDomains_iCloudPrivateRelay w"
  "misc_check_load (getBlockingModeLegacy fs fp w) = misc_check_load w"
  "misc_check_shmem (getBlockingModeLegacy fs fp w) = misc_check_shmem w"
  "misc_check_disk (getBlockingModeLegacy fs fp w) = misc_check_disk w"
  "files_log (getBlockingModeLegacy fs fp w) = files_log w"
  "debug (getBlockingModeLegacy fs fp w) = debug w"
  "argv_dnsmasq2 (getBlockingModeLegacy fs fp w) = argv_dnsmasq2 w"
  by (simp_all add: getBlockingModeLegacy_def Let_def fclose_def log_line_def split: option.splits scan.splits prod.splits)

lemma legacy_ANALYZE_ONLY_A_AND_AAAA_frame:
  "dns_analyzeAAAA (legacy_ANALYZE_ONLY_A_AND_AAAA fp w) = dns_analyzeAAAA w"
  "database_maxDBdays (legacy_ANALYZE_ONLY_A_AND_AAAA fp w) = database_maxDBdays w"
  "resolver_resolveIPv6 (legacy_ANALYZE_ONLY_A_AND_AAAA fp w) = resolver_resolveIPv6 w"
  "resolver_resolveIPv4 (legacy_ANALYZE_ONLY_A_AND_AAAA fp w) = resolver_resolveIPv4 w"
  "database_DBinterval (legacy_ANALYZE_ONLY_A_AND_AAAA fp w) = database_DBinterval w"
  "files_database (legacy_ANALYZE_ONLY_A_AND_AAAA fp w) = files_database w"
  "files_database_d (legacy_ANALYZE_ONLY_A_AND_AAAA fp w) = files_database_d w"
  "database_maxHistory (legacy_ANALYZE_ONLY_A_AND_AAAA fp w) = database_maxHistory w"
  "misc_privacylevel (legacy_ANALYZE_ONLY_A_AND_AAAA fp w) = misc_privacylevel w"
  "dns_ignoreLocalhost (legacy_ANALYZE_ONLY_A_AND_AAAA fp w) = dns_ignoreLocalhost w"
  "dns_blockingmode (legacy_ANALYZE_ONLY_A_AND_AAAA fp w) = dns_blockingmode w"
  "dns_blockingmode_d (legacy_ANALYZE_ONLY_A_AND_AAAA fp w) = dns_blockingmode_d w"
  "database_DBimport (legacy_ANALYZE_ONLY_A_AND_AAAA fp w) = database_DBimport w"
  "files_pid (legacy_ANALYZE_ONLY_A_AND_AAAA fp w) = files_pid w"
  "files_setupVars (legacy_ANALYZE_ONLY_A_AND_AAAA fp w) = files_setupVars w"
  "files_macvendor (legacy_ANALYZE_ONLY_A_AND_AAAA fp w) = files_macvendor w"
  "files_gravity (legacy_ANALYZE_ONLY_A_AND_AAAA fp w) = files_gravity w"
  "database_network_parseARPcache (legacy_ANALYZE_ONLY_A_AND_AAAA fp w) = database_network_parseARPcache w"
  "dns_CNAMEdeepInspect (legacy_ANALYZE_ONLY_A_AND_AAAA fp w) = dns_CNAMEdeepInspect w"
  "misc_delay_startup (legacy_ANALYZE_ONLY_A_AND_AAAA fp w) = misc_delay_startup w"
  "dns_blockESNI (legacy_ANALYZE_ONLY_A_AND_AAAA fp w) = dns_blockESNI w"
  "http_paths_webroot (legacy_ANALYZE_ONLY_A_AND_AAAA fp w) = http_paths_webroot w"
  "http_port (legacy_ANALYZE_ONLY_A_AND_AAAA fp w) = http_port w"
  "http_paths_webhome (legacy_ANALYZE_ONLY_A_AND_AAAA fp w) = http_paths_webhome w"
  "http_acl (legacy_ANALYZE_ONLY_A_AND_AAAA fp w) = http_acl w"
  "http_localAPIauth (legacy_ANALYZE_ONLY_A_AND_AAAA fp w) = http_localAPIauth w"
  "http_sessionTimeout (legacy_ANALYZE_ONLY_A_AND_AAAA fp w) = http_sessionTimeout w"
  "http_prettyJSON (legacy_ANALYZE_ONLY_A_AND_AAAA fp w) = http_prettyJSON w"
  "files_ph7_error (legacy_ANALYZE_ONLY_A_AND_AAAA fp w) = files_ph7_error w"
  "files_http_info (legacy_ANALYZE_ONLY_A_AND_AAAA fp w) = files_http_info w"
  "database_network_expire (legacy_ANALYZE_ONLY_A_AND_AAAA fp w) = database_network_expire w"
  "resolver_networkNames (legacy_ANALYZE_ONLY_A_AND_AAAA fp w) = resolver_networkNames w"
  "dns_EDNS0ECS (legacy_ANALYZE_ONLY_A_AND_AAAA fp w) = dns_EDNS0ECS w"
  "resolver_refreshNames (legacy_ANALYZE_ONLY_A_AND_AAAA fp w) = resolver_refreshNames w"
  "http_domain (legacy_ANALYZE_ONLY_A_AND_AAAA fp w) = http_domain w"
  "dns_rateLimit_count (legacy_ANALYZE_ONLY_A_AND_AAAA fp w) = dns_rateLimit_count w"
  "dns_rateLimit_interval (legacy_ANALYZE_ONLY_A_AND_AAAA fp w) = dns_rateLimit_interval w"
  "dns_reply_host_overwrite_v4 (legacy_ANALYZE_ONLY_A_AND_AAAA fp w) = dns_reply_host_overwrite_v4 w"
  "dns_reply_host_v4 (legacy_ANALYZE_ONLY_A_AND_AAAA fp w) = dns_reply_host_v4 w"
  "dns_reply_host_overwrite_v6 (legacy_ANALYZE_ONLY_A_AND_AAAA fp w) = dns_reply_host_overwrite_v6 w"
  "dns_reply_host_v6 (legacy_ANALYZE_ONLY_A_AND_AAAA fp w) = dns_reply_host_v6 w"
  "dns_reply_blocking_overwrite_v4 (legacy_ANALYZE_ONLY_A_AND_AAAA fp w) = dns_reply_blocking_overwrite_v4 w"
  "dns_reply_blocking_v4 (legacy_ANALYZE_ONLY_A_AND_AAAA fp w) = dns_reply_blocking_v4 w"
  "dns_reply_blocking_overwrite_v6 (legacy_ANALYZE_ONLY_A_AND_AAAA fp w) = dns_reply_blocking_overwrite_v6 w"
  "dns_reply_blocking_v6 (legacy_ANALYZE_ONLY_A_AND_AAAA fp w) = dns_reply_blocking_v6 w"
  "dns_showDNSSEC (legacy_ANALYZE_ONLY_A_AND_AAAA fp w) = dns_showDNSSEC w"
  "dns_specialDomains_mozillaCanary (legacy_ANALYZE_ONLY_A_AND_AAAA fp w) = dns_specialDomains_mozillaCanary w"
  "dns_piholePTR (legacy_ANALYZE_ONLY_A_AND_AAAA fp w) = dns_piholePTR w"
  "misc_addr2line (legacy_ANALYZE_ONLY_A_AND_AAAA fp w) = misc_addr2line w"
  "dns_replyWhenBusy (legacy_ANALYZE_ONLY_A_AND_AAAA fp w) = dns_replyWhenBusy w"
  "dns_blockTTL (legacy_ANALYZE_ONLY_A_AND_AAAA fp w) = dns_blockTTL w"
  "dns_specialDomains_iCloudPrivateRelay (legacy_ANALYZE_ONLY_A_AND_AAAA fp w) = dns_specialDomains_iCloudPrivateRelay w"
  "misc_check_load (legacy_ANALYZE_ONLY_A_AND_AAAA fp w) = misc_check_load w"
  "misc_check_shmem (legacy_ANALYZE_ONLY_A_AND_AAAA fp w) = misc_check_shmem w"
  "misc_check_disk (legacy_ANALYZE_ONLY_A_AND_AAAA fp w) = misc_check_disk w"
  "files_log (legacy_ANALYZE_ONLY_A_AND_AAAA fp w) = files_log w"
  "debug (legacy_ANALYZE_ONLY_A_AND_AAAA fp w) = debug w"
  "log_out (legacy_ANALYZE_ONLY_A_AND_AAAA fp w) = log_out w"
  "fclose_count (legacy_ANALYZE_ONLY_A_AND_AAAA fp w) = fclose_count w"
  "argv_dnsmasq2 (legacy_ANALYZE_ONLY_A_AND_AAAA fp w) = argv_dnsmasq2 w"
  by (simp_all add: legacy_ANALYZE_ONLY_A_AND_AAAA_def Let_def split: option.splits scan.splits prod.splits)

lemma getPath_frame:
  "dns_analyzeAAAA (snd (getPath fp option ptr w)) = dns_analyzeAAAA w"
  "database_maxDBdays (snd (getPath fp option ptr w)) = database_maxDBdays w"
  "resolver_resolveIPv6 (snd (getPath fp option ptr w)) = resolver_resolveIPv6 w"
  "resolver_resolveIPv4 (snd (getPath fp option ptr w)) = resolver_resolveIPv4 w"
  "database_DBinterval (snd (getPath fp option ptr w)) = database_DBinterval w"
  "files_database (snd (getPath fp option ptr w)) = files_database w"
  "files_database_d (snd (getPath fp option ptr w)) = files_database_d w"
  "database_maxHistory (snd (getPath fp option ptr w)) = database_maxHistory w"
  "misc_privacylevel (snd (getPath fp option ptr w)) = misc_privacylevel w"
  "dns_ignoreLocalhost (snd (getPath fp option ptr w)) = dns_ignoreLocalhost w"
  "dns_blockingmode (snd (getPath fp option ptr w)) = dns_blockingmode w"
  "dns_blockingmode_d (snd (getPath fp option ptr w)) = dns_blockingmode_d w"
  "dns_analyzeOnlyAandAAAA (snd (getPath fp option ptr w)) = dns_analyzeOnlyAandAAAA w"
  "database_DBimport (snd (getPath fp option ptr w)) = database_DBimport w"
  "files_pid (snd (getPath fp option ptr w)) = files_pid w"
  "files_setupVars (snd (getPath fp option ptr w)) = files_setupVars w"
  "files_macvendor (snd (getPath fp option ptr w)) = files_macvendor w"
  "files_gravity (snd (getPath fp option ptr w)) = files_gravity w"
  "database_network_parseARPcache (snd (getPath fp option ptr w)) = database_network_parseARPcache w"
  "dns_CNAMEdeepInspect (snd (getPath fp option ptr w)) = dns_CNAMEdeepInspect w"
  "misc_delay_startup (snd (getPath fp option ptr w)) = misc_delay_startup w"
  "dns_blockESNI (snd (getPath fp option ptr w)) = dns_blockESNI w"
  "http_paths_webroot (snd (getPath fp option ptr w)) = http_paths_webroot w"
  "http_port (snd (getPath fp option ptr w)) = http_port w"
  "http_paths_webhome (snd (getPath fp option ptr w)) = http_paths_webhome w"
  "http_acl (snd (getPath fp option ptr w)) = http_acl w"
  "http_localAPIauth (snd (getPath fp option ptr w)) = http_localAPIauth w"
  "http_sessionTimeout (snd (getPath fp option ptr w)) = http_sessionTimeout w"
  "http_prettyJSON (snd (getPath fp option ptr w)) = http_prettyJSON w"
  "files_ph7_error (snd (getPath fp option ptr w)) = files_ph7_error w"
  "files_http_info (snd (getPath fp option ptr w)) = files_http_info w"
  "database_network_expire (snd (getPath fp option ptr w)) = database_network_expire w"
  "resolver_networkNames (snd (getPath fp option ptr w)) = resolver_networkNames w"
  "dns_EDNS0ECS (snd (getPath fp option ptr w)) = dns_EDNS0ECS w"
  "resolver_refreshNames (snd (getPath fp option ptr w)) = resolver_refreshNames w"
  "http_domain (snd (getPath fp option ptr w)) = http_domain w"
  "dns_rateLimit_count (snd (getPath fp option ptr w)) = dns_rateLimit_count w"
  "dns_rateLimit_interval (snd (getPath fp option ptr w)) = dns_rateLimit_interval w"
  "dns_reply_host_overwrite_v4 (snd (getPath fp option ptr w)) = dns_reply_host_overwrite_v4 w"
  "dns_reply_host_v4 (snd (getPath fp option ptr w)) = dns_reply_host_v4 w"
  "dns_reply_host_overwrite_v6 (snd (getPath fp option ptr w)) = dns_reply_host_overwrite_v6 w"
  "dns_reply_host_v6 (snd (getPath fp option ptr w)) = dns_reply_host_v6 w"
  "dns_reply_blocking_overwrite_v4 (snd (getPath fp option ptr w)) = dns_reply_blocking_overwrite_v4 w"
  "dns_reply_blocking_v4 (snd (getPath fp option ptr w)) = dns_reply_blocking_v4 w"
  "dns_reply_blocking_overwrite_v6 (snd (getPath fp option ptr w)) = dns_reply_blocking_overwrite_v6 w"
  "dns_reply_blocking_v6 (snd (getPath fp option ptr w)) = dns_reply_blocking_v6 w"
  "dns_showDNSSEC (snd (getPath fp option ptr w)) = dns_showDNSSEC w"
  "dns_specialDomains_mozillaCanary (snd (getPath fp option ptr w)) = dns_specialDomains_mozillaCanary w"
  "dns_piholePTR (snd (getPath fp option ptr w)) = dns_piholePTR w"
  "misc_addr2line (snd (getPath fp option ptr w)) = misc_addr2line w"
  "dns_replyWhenBusy (snd (getPath fp option ptr w)) = dns_replyWhenBusy w"
  "dns_blockTTL (snd (getPath fp option ptr w)) = dns_blockTTL w"
  "dns_specialDomains_iCloudPrivateRelay (snd (getPath fp option ptr w)) = dns_specialDomains_iCloudPrivateRelay w"
  "misc_check_load (snd (getPath fp option ptr w)) = misc_check_load w"
  "misc_check_shmem (snd (getPath fp option ptr w)) = misc_check_shmem w"
  "misc_check_disk (snd (getPath fp option ptr w)) = misc_check_disk w"
  "files_log (snd (getPath fp option ptr w)) = files_log w"
  "debug (snd (getPath fp option ptr w)) = debug w"
  "fclose_count (snd (getPath fp option ptr w)) = fclose_count w"
  "argv_dnsmasq2 (snd (getPath fp option ptr w)) = argv_dnsmasq2 w"
  by (simp_all add: getPath_def Let_def log_line_def split: option.splits scan.splits prod.splits)

lemma legacy_DELAY_STARTUP_frame:
  "dns_analyzeAAAA (legacy_DELAY_STARTUP e fp w) = dns_analyzeAAAA w"
  "database_maxDBdays (legacy_DELAY_STARTUP e fp w) = database_maxDBdays w"
  "resolver_resolveIPv6 (legacy_DELAY_STARTUP e fp w) = resolver_resolveIPv6 w"
  "resolver_resolveIPv4 (legacy_DELAY_STARTUP e fp w) = resolver_resolveIPv4 w"
  "database_DBinterval (legacy_DELAY_STARTUP e fp w) = database_DBinterval w"
  "files_database (legacy_DELAY_STARTUP e fp w) = files_database w"
  "files_database_d (legacy_DELAY_STARTUP e fp w) = files_database_d w"
  "database_maxHistory (legacy_DELAY_STARTUP e fp w) = database_maxHistory w"
  "misc_privacylevel (legacy_DELAY_STARTUP e fp w) = misc_privacylevel w"
  "dns_ignoreLocalhost (legacy_DELAY_STARTUP e fp w) = dns_ignoreLocalhost w"
  "dns_blockingmode (legacy_DELAY_STARTUP e fp w) = dns_blockingmode w"
  "dns_blockingmode_d (legacy_DELAY_STARTUP e fp w) = dns_blockingmode_d w"
  "dns_analyzeOnlyAandAAAA (legacy_DELAY_STARTUP e fp w) = dns_analyzeOnlyAandAAAA w"
  "database_DBimport (legacy_DELAY_STARTUP e fp w) = database_DBimport w"
  "files_pid (legacy_DELAY_STARTUP e fp w) = files_pid w"
  "files_setupVars (legacy_DELAY_STARTUP e fp w) = files_setupVars w"
  "files_macvendor (legacy_DELAY_STARTUP e fp w) = files_macvendor w"
  "files_gravity (legacy_DELAY_STARTUP e fp w) = files_gravity w"
  "database_network_parseARPcache (legacy_DELAY_STARTUP e fp w) = database_network_parseARPcache w"
  "dns_CNAMEdeepInspect (legacy_DELAY_STARTUP e fp w) = dns_CNAMEdeepInspect w"
  "dns_blockESNI (legacy_DELAY_STARTUP e fp w) = dns_blockESNI w"
  "http_paths_webroot (legacy_DELAY_STARTUP e fp w) = http_paths_webroot w"
  "http_port (legacy_DELAY_STARTUP e fp w) = http_port w"
  "http_paths_webhome (legacy_DELAY_STARTUP e fp w) = http_paths_webhome w"
  "http_acl (legacy_DELAY_STARTUP e fp w) = http_acl w"
  "http_localAPIauth (legacy_DELAY_STARTUP e fp w) = http_localAPIauth w"
  "http_sessionTimeout (legacy_DELAY_STARTUP e fp w) = http_sessionTimeout w"
  "http_prettyJSON (legacy_DELAY_STARTUP e fp w) = http_prettyJSON w"
  "files_ph7_error (legacy_DELAY_STARTUP e fp w) = files_ph7_error w"
  "files_http_info (legacy_DELAY_STARTUP e fp w) = files_http_info w"
  "database_network_expire (legacy_DELAY_STARTUP e fp w) = database_network_expire w"
  "resolver_networkNames (legacy_DELAY_STARTUP e fp w) = resolver_networkNames w"
  "dns_EDNS0ECS (legacy_DELAY_STARTUP e fp w) = dns_EDNS0ECS w"
  "resolver_refreshNames (legacy_DELAY_STARTUP e fp w) = resolver_refreshNames w"
  "http_domain (legacy_DELAY_STARTUP e fp w) = http_domain w"
  "dns_rateLimit_count (legacy_DELAY_STARTUP e fp w) = dns_rateLimit_count w"
  "dns_rateLimit_interval (legacy_DELAY_STARTUP e fp w) = dns_rateLimit_interval w"
  "dns_reply_host_overwrite_v4 (legacy_DELAY_STARTUP e fp w) = dns_reply_host_overwrite_v4 w"
  "dns_reply_host_v4 (legacy_DELAY_STARTUP e fp w) = dns_reply_host_v4 w"
  "dns_reply_host_overwrite_v6 (legacy_DELAY_STARTUP e fp w) = dns_reply_host_overwrite_v6 w"
  "dns_reply_host_v6 (legacy_DELAY_STARTUP e fp w) = dns_reply_host_v6 w"
  "dns_reply_blocking_overwrite_v4 (legacy_DELAY_STARTUP e fp w) = dns_reply_blocking_overwrite_v4 w"
  "dns_reply_blocking_v4 (legacy_DELAY_STARTUP e fp w) = dns_reply_blocking_v4 w"
  "dns_reply_blocking_overwrite_v6 (legacy_DELAY_STARTUP e fp w) = dns_reply_blocking_overwrite_v6 w"
  "dns_reply_blocking_v6 (legacy_DELAY_STARTUP e fp w) = dns_reply_blocking_v6 w"
  "dns_showDNSSEC (legacy_DELAY_STARTUP e fp w) = dns_showDNSSEC w"
  "dns_specialDomains_mozillaCanary (legacy_DELAY_STARTUP e fp w) = dns_specialDomains_mozillaCanary w"
  "dns_piholePTR (legacy_DELAY_STARTUP e fp w) = dns_piholePTR w"
  "misc_addr2line (legacy_DELAY_STARTUP e fp w) = misc_addr2line w"
  "dns_replyWhenBusy (legacy_DELAY_STARTUP e fp w) = dns_replyWhenBusy w"
  "dns_blockTTL (legacy_DELAY_STARTUP e fp w) = dns_blockTTL w"
  "dns_specialDomains_iCloudPrivateRelay (legacy_DELAY_STARTUP e fp w) = dns_specialDomains_iCloudPrivateRelay w"
  "misc_check_load (legacy_DELAY_STARTUP e fp w) = misc_check_load w"
  "misc_check_shmem (legacy_DELAY_STARTUP e fp w) = misc_check_shmem w"
  "misc_check_disk (legacy_DELAY_STARTUP e fp w) = misc_check_disk w"
  "files_log (legacy_DELAY_STARTUP e fp w) = files_log w"
  "debug (legacy_DELAY_STARTUP e fp w) = debug w"
  "log_out (legacy_DELAY_STARTUP e fp w) = log_out w"
  "fclose_count (legacy_DELAY_STARTUP e fp w) = fclose_count w"
  "argv_dnsmasq2 (legacy_DELAY_STARTUP e fp w) = argv_dnsmasq2 w"
  by (simp_all add: legacy_DELAY_STARTUP_def Let_def split: option.splits scan.splits prod.splits)

lemma legacy_WEBPORT_frame:
  "dns_analyzeAAAA (legacy_WEBPORT fp w) = dns_analyzeAAAA w"
  "database_maxDBdays (legacy_WEBPORT fp w) = database_maxDBdays w"
  "resolver_resolveIPv6 (legacy_WEBPORT fp w) = resolver_resolveIPv6 w"
  "resolver_resolveIPv4 (legacy_WEBPORT fp w) = resolver_resolveIPv4 w"
  "database_DBinterval (legacy_WEBPORT fp w) = database_DBinterval w"
  "files_database (legacy_WEBPORT fp w) = files_database w"
  "files_database_d (legacy_WEBPORT fp w) = files_database_d w"
  "database_maxHistory (legacy_WEBPORT fp w) = database_maxHistory w"
  "misc_privacylevel (legacy_WEBPORT fp w) = misc_privacylevel w"
  "dns_ignoreLocalhost (legacy_WEBPORT fp w) = dns_ignoreLocalhost w"
  "dns_blockingmode (legacy_WEBPORT fp w) = dns_blockingmode w"
  "dns_blockingmode_d (legacy_WEBPORT fp w) = dns_blockingmode_d w"
  "dns_analyzeOnlyAandAAAA (legacy_WEBPORT fp w) = dns_analyzeOnlyAandAAAA w"
  "database_DBimport (legacy_WEBPORT fp w) = database_DBimport w"
  "files_pid (legacy_WEBPORT fp w) = files_pid w"
  "files_setupVars (legacy_WEBPORT fp w) = files_setupVars w"
  "files_macvendor (legacy_WEBPORT fp w) = files_macvendor w"
  "files_gravity (legacy_WEBPORT fp w) = files_gravity w"
  "database_network_parseARPcache (legacy_WEBPORT fp w) = database_network_parseARPcache w"
  "dns_CNAMEdeepInspect (legacy_WEBPORT fp w) = dns_CNAMEdeepInspect w"
  "misc_delay_startup (legacy_WEBPORT fp w) = misc_delay_startup w"
  "dns_blockESNI (legacy_WEBPORT fp w) = dns_blockESNI w"
  "http_paths_webroot (legacy_WEBPORT fp w) = http_paths_webroot w"
  "http_paths_webhome (legacy_WEBPORT fp w) = http_paths_webhome w"
  "http_acl (legacy_WEBPORT fp w) = http_acl w"
  "http_localAPIauth (legacy_WEBPORT fp w) = http_localAPIauth w"
  "http_sessionTimeout (legacy_WEBPORT fp w) = http_sessionTimeout w"
  "http_prettyJSON (legacy_WEBPORT fp w) = http_prettyJSON w"
  "files_ph7_error (legacy_WEBPORT fp w) = files_ph7_error w"
  "files_http_info (legacy_WEBPORT fp w) = files_http_info w"
  "database_network_expire (legacy_WEBPORT fp w) = database_network_expire w"
  "resolver_networkNames (legacy_WEBPORT fp w) = resolver_networkNames w"
  "dns_EDNS0ECS (legacy_WEBPORT fp w) = dns_EDNS0ECS w"
  "resolver_refreshNames (legacy_WEBPORT fp w) = resolver_refreshNames w"
  "http_domain (legacy_WEBPORT fp w) = http_domain w"
  "dns_rateLimit_count (legacy_WEBPORT fp w) = dns_rateLimit_count w"
  "dns_rateLimit_interval (legacy_WEBPORT fp w) = dns_rateLimit_interval w"
  "dns_reply_host_overwrite_v4 (legacy_WEBPORT fp w) = dns_reply_host_overwrite_v4 w"
  "dns_reply_host_v4 (legacy_WEBPORT fp w) = dns_reply_host_v4 w"
  "dns_reply_host_overwrite_v6 (legacy_WEBPORT fp w) = dns_reply_host_overwrite_v6 w"
  "dns_reply_host_v6 (legacy_WEBPORT fp w) = dns_reply_host_v6 w"
  "dns_reply_blocking_overwrite_v4 (legacy_WEBPORT fp w) = dns_reply_blocking_overwrite_v4 w"
  "dns_reply_blocking_v4 (legacy_WEBPORT fp w) = dns_reply_blocking_v4 w"
  "dns_reply_blocking_overwrite_v6 (legacy_WEBPORT fp w) = dns_reply_blocking_overwrite_v6 w"
  "dns_reply_blocking_v6 (legacy_WEBPORT fp w) = dns_reply_blocking_v6 w"
  "dns_showDNSSEC (legacy_WEBPORT fp w) = dns_showDNSSEC w"
  "dns_specialDomains_mozillaCanary (legacy_WEBPORT fp w) = dns_specialDomains_mozillaCanary w"
  "dns_piholePTR (legacy_WEBPORT fp w) = dns_piholePTR w"
  "misc_addr2line (legacy_WEBPORT fp w) = misc_addr2line w"
  "dns_replyWhenBusy (legacy_WEBPORT fp w) = dns_replyWhenBusy w"
  "dns_blockTTL (legacy_WEBPORT fp w) = dns_blockTTL w"
  "dns_specialDomains_iCloudPrivateRelay (legacy_WEBPORT fp w) = dns_specialDomains_iCloudPrivateRelay w"
  "misc_check_load (legacy_WEBPORT fp w) = misc_check_load w"
  "misc_check_shmem (legacy_WEBPORT fp w) = misc_check_shmem w"
  "misc_check_disk (legacy_WEBPORT fp w) = misc_check_disk w"
  "files_log (legacy_WEBPORT fp w) = files_log w"
  "debug (legacy_WEBPORT fp w) = debug w"
  "log_out (legacy_WEBPORT fp w) = log_out w"
  "fclose_count (legacy_WEBPORT fp w) = fclose_count w"
  "argv_dnsmasq2 (legacy_WEBPORT fp w) = argv_dnsmasq2 w"
  by (simp_all add: legacy_WEBPORT_def split: option.splits scan.splits prod.splits)

lemma legacy_WEBACL_frame:
  "dns_analyzeAAAA (legacy_WEBACL fp w) = dns_analyzeAAAA w"
  "database_maxDBdays (legacy_WEBACL fp w) = database_maxDBdays w"
  "resolver_resolveIPv6 (legacy_WEBACL fp w) = resolver_resolveIPv6 w"
  "resolver_resolveIPv4 (legacy_WEBACL fp w) = resolver_resolveIPv4 w"
  "database_DBinterval (legacy_WEBACL fp w) = database_DBinterval w"
  "files_database (legacy_WEBACL fp w) = files_database w"
  "files_database_d (legacy_WEBACL fp w) = files_database_d w"
  "database_maxHistory (legacy_WEBACL fp w) = database_maxHistory w"
  "misc_privacylevel (legacy_WEBACL fp w) = misc_privacylevel w"
  "dns_ignoreLocalhost (legacy_WEBACL fp w) = dns_ignoreLocalhost w"
  "dns_blockingmode (legacy_WEBACL fp w) = dns_blockingmode w"
  "dns_blockingmode_d (legacy_WEBACL fp w) = dns_blockingmode_d w"
  "dns_analyzeOnlyAandAAAA (legacy_WEBACL fp w) = dns_analyzeOnlyAandAAAA w"
  "database_DBimport (legacy_WEBACL fp w) = database_DBimport w"
  "files_pid (legacy_WEBACL fp w) = files_pid w"
  "files_setupVars (legacy_WEBACL fp w) = files_setupVars w"
  "files_macvendor (legacy_WEBACL fp w) = files_macvendor w"
  "files_gravity (legacy_WEBACL fp w) = files_gravity w"
  "database_network_parseARPcache (legacy_WEBACL fp w) = database_network_parseARPcache w"
  "dns_CNAMEdeepInspect (legacy_WEBACL fp w) = dns_CNAMEdeepInspect w"
  "misc_delay_startup (legacy_WEBACL fp w) = misc_delay_startup w"
  "dns_blockESNI (legacy_WEBACL fp w) = dns_blockESNI w"
  "http_paths_webroot (legacy_WEBACL fp w) = http_paths_webroot w"
  "http_port (legacy_WEBACL fp w) = http_port w"
  "http_paths_webhome (legacy_WEBACL fp w) = http_paths_webhome w"
  "http_localAPIauth (legacy_WEBACL fp w) = http_localAPIauth w"
  "http_sessionTimeout (legacy_WEBACL fp w) = http_sessionTimeout w"
  "http_prettyJSON (legacy_WEBACL fp w) = http_prettyJSON w"
  "files_ph7_error (legacy_WEBACL fp w) = files_ph7_error w"
  "files_http_info (legacy_WEBACL fp w) = files_http_info w"
  "database_network_expire (legacy_WEBACL fp w) = database_network_expire w"
  "resolver_networkNames (legacy_WEBACL fp w) = resolver_networkNames w"
  "dns_EDNS0ECS (legacy_WEBACL fp w) = dns_EDNS0ECS w"
  "resolver_refreshNames (legacy_WEBACL fp w) = resolver_refreshNames w"
  "http_domain (legacy_WEBACL fp w) = http_domain w"
  "dns_rateLimit_count (legacy_WEBACL fp w) = dns_rateLimit_count w"
  "dns_rateLimit_interval (legacy_WEBACL fp w) = dns_rateLimit_interval w"
  "dns_reply_host_overwrite_v4 (legacy_WEBACL fp w) = dns_reply_host_overwrite_v4 w"
  "dns_reply_host_v4 (legacy_WEBACL fp w) = dns_reply_host_v4 w"
  "dns_reply_host_overwrite_v6 (legacy_WEBACL fp w) = dns_reply_host_overwrite_v6 w"
  "dns_reply_host_v6 (legacy_WEBACL fp w) = dns_reply_host_v6 w"
  "dns_reply_blocking_overwrite_v4 (legacy_WEBACL fp w) = dns_reply_blocking_overwrite_v4 w"
  "dns_reply_blocking_v4 (legacy_WEBACL fp w) = dns_reply_blocking_v4 w"
  "dns_reply_blocking_overwrite_v6 (legacy_WEBACL fp w) = dns_reply_blocking_overwrite_v6 w"
  "dns_reply_blocking_v6 (legacy_WEBACL fp w) = dns_reply_blocking_v6 w"
  "dns_showDNSSEC (legacy_WEBACL fp w) = dns_showDNSSEC w"
  "dns_specialDomains_mozillaCanary (legacy_WEBACL fp w) = dns_specialDomains_mozillaCanary w"
  "dns_piholePTR (legacy_WEBACL fp w) = dns_piholePTR w"
  "misc_addr2line (legacy_WEBACL fp w) = misc_addr2line w"
  "dns_replyWhenBusy (legacy_WEBACL fp w) = dns_replyWhenBusy w"
  "dns_blockTTL (legacy_WEBACL fp w) = dns_blockTTL w"
  "dns_specialDomains_iCloudPrivateRelay (legacy_WEBACL fp w) = dns_specialDomains_iCloudPrivateRelay w"
  "misc_check_load (legacy_WEBACL fp w) = misc_check_load w"
  "misc_check_shmem (legacy_WEBACL fp w) = misc_check_shmem w"
  "misc_check_disk (legacy_WEBACL fp w) = misc_check_disk w"
  "files_log (legacy_WEBACL fp w) = files_log w"
  "debug (legacy_WEBACL fp w) = debug w"
  "log_out (legacy_WEBACL fp w) = log_out w"
  "fclose_count (legacy_WEBACL fp w) = fclose_count w"
  "argv_dnsmasq2 (legacy_WEBACL fp w) = argv_dnsmasq2 w"
  by (simp_all add: legacy_WEBACL_def split: option.splits scan.splits prod.splits)

lemma legacy_API_SESSION_TIMEOUT_frame:
  "dns_analyzeAAAA (legacy_API_SESSION_TIMEOUT fp w) = dns_analyzeAAAA w"
  "database_maxDBdays (legacy_API_SESSION_TIMEOUT fp w) = database_maxDBdays w"
  "resolver_resolveIPv6 (legacy_API_SESSION_TIMEOUT fp w) = resolver_resolveIPv6 w"
  "resolver_resolveIPv4 (legacy_API_SESSION_TIMEOUT fp w) = resolver_resolveIPv4 w"
  "database_DBinterval (legacy_API_SESSION_TIMEOUT fp w) = database_DBinterval w"
  "files_database (legacy_API_SESSION_TIMEOUT fp w) = files_database w"
  "files_database_d (legacy_API_SESSION_TIMEOUT fp w) = files_database_d w"
  "database_maxHistory (legacy_API_SESSION_TIMEOUT fp w) = database_maxHistory w"
  "misc_privacylevel (legacy_API_SESSION_TIMEOUT fp w) = misc_privacylevel w"
  "dns_ignoreLocalhost (legacy_API_SESSION_TIMEOUT fp w) = dns_ignoreLocalhost w"
  "dns_blockingmode (legacy_API_SESSION_TIMEOUT fp w) = dns_blockingmode w"
  "dns_blockingmode_d (legacy_API_SESSION_TIMEOUT fp w) = dns_blockingmode_d w"
  "dns_analyzeOnlyAandAAAA (legacy_API_SESSION_TIMEOUT fp w) = dns_analyzeOnlyAandAAAA w"
  "database_DBimport (legacy_API_SESSION_TIMEOUT fp w) = database_DBimport w"
  "files_pid (legacy_API_SESSION_TIMEOUT fp w) = files_pid w"
  "files_setupVars (legacy_API_SESSION_TIMEOUT fp w) = files_setupVars w"
  "files_macvendor (legacy_API_SESSION_TIMEOUT fp w) = files_macvendor w"
  "files_gravity (legacy_API_SESSION_TIMEOUT fp w) = files_gravity w"
  "database_network_parseARPcache (legacy_API_SESSION_TIMEOUT fp w) = database_network_parseARPcache w"
  "dns_CNAMEdeepInspect (legacy_API_SESSION_TIMEOUT fp w) = dns_CNAMEdeepInspect w"
  "misc_delay_startup (legacy_API_SESSION_TIMEOUT fp w) = misc_delay_startup w"
  "dns_blockESNI (legacy_API_SESSION_TIMEOUT fp w) = dns_blockESNI w"
  "http_paths_webroot (legacy_API_SESSION_TIMEOUT fp w) = http_paths_webroot w"
  "http_port (legacy_API_SESSION_TIMEOUT fp w) = http_port w"
  "http_paths_webhome (legacy_API_SESSION_TIMEOUT fp w) = http_paths_webhome w"
  "http_acl (legacy_API_SESSION_TIMEOUT fp w) = http_acl w"
  "http_localAPIauth (legacy_API_SESSION_TIMEOUT fp w) = http_localAPIauth w"
  "http_prettyJSON (legacy_API_SESSION_TIMEOUT fp w) = http_prettyJSON w"
  "files_ph7_error (legacy_API_SESSION_TIMEOUT fp w) = files_ph7_error w"
  "files_http_info (legacy_API_SESSION_TIMEOUT fp w) = files_http_info w"
  "database_network_expire (legacy_API_SESSION_TIMEOUT fp w) = database_network_expire w"
  "resolver_networkNames (legacy_API_SESSION_TIMEOUT fp w) = resolver_networkNames w"
  "dns_EDNS0ECS (legacy_API_SESSION_TIMEOUT fp w) = dns_EDNS0ECS w"
  "resolver_refreshNames (legacy_API_SESSION_TIMEOUT fp w) = resolver_refreshNames w"
  "http_domain (legacy_API_SESSION_TIMEOUT fp w) = http_domain w"
  "dns_rateLimit_count (legacy_API_SESSION_TIMEOUT fp w) = dns_rateLimit_count w"
  "dns_rateLimit_interval (legacy_API_SESSION_TIMEOUT fp w) = dns_rateLimit_interval w"
  "dns_reply_host_overwrite_v4 (legacy_API_SESSION_TIMEOUT fp w) = dns_reply_host_overwrite_v4 w"
  "dns_reply_host_v4 (legacy_API_SESSION_TIMEOUT fp w) = dns_reply_host_v4 w"
  "dns_reply_host_overwrite_v6 (legacy_API_SESSION_TIMEOUT fp w) = dns_reply_host_overwrite_v6 w"
  "dns_reply_host_v6 (legacy_API_SESSION_TIMEOUT fp w) = dns_reply_host_v6 w"
  "dns_reply_blocking_overwrite_v4 (legacy_API_SESSION_TIMEOUT fp w) = dns_reply_blocking_overwrite_v4 w"
  "dns_reply_blocking_v4 (legacy_API_SESSION_TIMEOUT fp w) = dns_reply_blocking_v4 w"
  "dns_reply_blocking_overwrite_v6 (legacy_API_SESSION_TIMEOUT fp w) = dns_reply_blocking_overwrite_v6 w"
  "dns_reply_blocking_v6 (legacy_API_SESSION_TIMEOUT fp w) = dns_reply_blocking_v6 w"
  "dns_showDNSSEC (legacy_API_SESSION_TIMEOUT fp w) = dns_showDNSSEC w"
  "dns_specialDomains_mozillaCanary (legacy_API_SESSION_TIMEOUT fp w) = dns_specialDomains_mozillaCanary w"
  "dns_piholePTR (legacy_API_SESSION_TIMEOUT fp w) = dns_piholePTR w"
  "misc_addr2line (legacy_API_SESSION_TIMEOUT fp w) = misc_addr2line w"
  "dns_replyWhenBusy (legacy_API_SESSION_TIMEOUT fp w) = dns_replyWhenBusy w"
  "dns_blockTTL (legacy_API_SESSION_TIMEOUT fp w) = dns_blockTTL w"
  "dns_specialDomains_iCloudPrivateRelay (legacy_API_SESSION_TIMEOUT fp w) = dns_specialDomains_iCloudPrivateRelay w"
  "misc_check_load (legacy_API_SESSION_TIMEOUT fp w) = misc_check_load w"
  "misc_check_shmem (legacy_API_SESSION_TIMEOUT fp w) = misc_check_shmem w"
  "misc_check_disk (legacy_API_SESSION_TIMEOUT fp w) = misc_check_disk w"
  "files_log (legacy_API_SESSION_TIMEOUT fp w) = files_log w"
  "debug (legacy_API_SESSION_TIMEOUT fp w) = debug w"
  "log_out (legacy_API_SESSION_TIMEOUT fp w) = log_out w"
  "fclose_count (legacy_API_SESSION_TIMEOUT fp w) = fclose_count w"
  "argv_dnsmasq2 (legacy_API_SESSION_TIMEOUT fp w) = argv_dnsmasq2 w"
  by (simp_all add: legacy_API_SESSION_TIMEOUT_def Let_def split: option.splits scan.splits prod.splits)

lemma legacy_MAXNETAGE_frame:
  "dns_analyzeAAAA (snd (legacy_MAXNETAGE fp w)) = dns_analyzeAAAA w"
  "database_maxDBdays (snd (legacy_MAXNETAGE fp w)) = database_maxDBdays w"
  "resolver_resolveIPv6 (snd (legacy_MAXNETAGE fp w)) = resolver_resolveIPv6 w"
  "resolver_resolveIPv4 (snd (legacy_MAXNETAGE fp w)) = resolver_resolveIPv4 w"
  "database_DBinterval (snd (legacy_MAXNETAGE fp w)) = database_DBinterval w"
  "files_database (snd (legacy_MAXNETAGE fp w)) = files_database w"
  "files_database_d (snd (legacy_MAXNETAGE fp w)) = files_database_d w"
  "database_maxHistory (snd (legacy_MAXNETAGE fp w)) = database_maxHistory w"
  "misc_privacylevel (snd (legacy_MAXNETAGE fp w)) = misc_privacylevel w"
  "dns_ignoreLocalhost (snd (legacy_MAXNETAGE fp w)) = dns_ignoreLocalhost w"
  "dns_blockingmode (snd (legacy_MAXNETAGE fp w)) = dns_blockingmode w"
  "dns_blockingmode_d (snd (legacy_MAXNETAGE fp w)) = dns_blockingmode_d w"
  "dns_analyzeOnlyAandAAAA (snd (legacy_MAXNETAGE fp w)) = dns_analyzeOnlyAandAAAA w"
  "database_DBimport (snd (legacy_MAXNETAGE fp w)) = database_DBimport w"
  "files_pid (snd (legacy_MAXNETAGE fp w)) = files_pid w"
  "files_setupVars (snd (legacy_MAXNETAGE fp w)) = files_setupVars w"
  "files_macvendor (snd (legacy_MAXNETAGE fp w)) = files_macvendor w"
  "files_gravity (snd (legacy_MAXNETAGE fp w)) = files_gravity w"
  "database_network_parseARPcache (snd (legacy_MAXNETAGE fp w)) = database_network_parseARPcache w"
  "dns_CNAMEdeepInspect (snd (legacy_MAXNETAGE fp w)) = dns_CNAMEdeepInspect w"
  "misc_delay_startup (snd (legacy_MAXNETAGE fp w)) = misc_delay_startup w"
  "dns_blockESNI (snd (legacy_MAXNETAGE fp w)) = dns_blockESNI w"
  "http_paths_webroot (snd (legacy_MAXNETAGE fp w)) = http_paths_webroot w"
  "http_port (snd (legacy_MAXNETAGE fp w)) = http_port w"
  "http_paths_webhome (snd (legacy_MAXNETAGE fp w)) = http_paths_webhome w"
  "http_acl (snd (legacy_MAXNETAGE fp w)) = http_acl w"
  "http_localAPIauth (snd (legacy_MAXNETAGE fp w)) = http_localAPIauth w"
  "http_sessionTimeout (snd (legacy_MAXNETAGE fp w)) = http_sessionTimeout w"
  "http_prettyJSON (snd (legacy_MAXNETAGE fp w)) = http_prettyJSON w"
  "files_ph7_error (snd (legacy_MAXNETAGE fp w)) = files_ph7_error w"
  "files_http_info (snd (legacy_MAXNETAGE fp w)) = files_http_info w"
  "resolver_networkNames (snd (legacy_MAXNETAGE fp w)) = resolver_networkNames w"
  "dns_EDNS0ECS (snd (legacy_MAXNETAGE fp w)) = dns_EDNS0ECS w"
  "resolver_refreshNames (snd (legacy_MAXNETAGE fp w)) = resolver_refreshNames w"
  "http_domain (snd (legacy_MAXNETAGE fp w)) = http_domain w"
  "dns_rateLimit_count (snd (legacy_MAXNETAGE fp w)) = dns_rateLimit_count w"
  "dns_rateLimit_interval (snd (legacy_MAXNETAGE fp w)) = dns_rateLimit_interval w"
  "dns_reply_host_overwrite_v4 (snd (legacy_MAXNETAGE fp w)) = dns_reply_host_overwrite_v4 w"
  "dns_reply_host_v4 (snd (legacy_MAXNETAGE fp w)) = dns_reply_host_v4 w"
  "dns_reply_host_overwrite_v6 (snd (legacy_MAXNETAGE fp w)) = dns_reply_host_overwrite_v6 w"
  "dns_reply_host_v6 (snd (legacy_MAXNETAGE fp w)) = dns_reply_host_v6 w"
  "dns_reply_blocking_overwrite_v4 (snd (legacy_MAXNETAGE fp w)) = dns_reply_blocking_overwrite_v4 w"
  "dns_reply_blocking_v4 (snd (legacy_MAXNETAGE fp w)) = dns_reply_blocking_v4 w"
  "dns_reply_blocking_overwrite_v6 (snd (legacy_MAXNETAGE fp w)) = dns_reply_blocking_overwrite_v6 w"
  "dns_reply_blocking_v6 (snd (legacy_MAXNETAGE fp w)) = dns_reply_blocking_v6 w"
  "dns_showDNSSEC (snd (legacy_MAXNETAGE fp w)) = dns_showDNSSEC w"
  "dns_specialDomains_mozillaCanary (snd (legacy_MAXNETAGE fp w)) = dns_specialDomains_mozillaCanary w"
  "dns_piholePTR (snd (legacy_MAXNETAGE fp w)) = dns_piholePTR w"
  "misc_addr2line (snd (legacy_MAXNETAGE fp w)) = misc_addr2line w"
  "dns_replyWhenBusy (snd (legacy_MAXNETAGE fp w)) = dns_replyWhenBusy w"
  "dns_blockTTL (snd (legacy_MAXNETAGE fp w)) = dns_blockTTL w"
  "dns_specialDomains_iCloudPrivateRelay (snd (legacy_MAXNETAGE fp w)) = dns_specialDomains_iCloudPrivateRelay w"
  "misc_check_load (snd (legacy_MAXNETAGE fp w)) = misc_check_load w"
  "misc_check_shmem (snd (legacy_MAXNETAGE fp w)) = misc_check_shmem w"
  "misc_check_disk (snd (legacy_MAXNETAGE fp w)) = misc_check_disk w"
  "files_log (snd (legacy_MAXNETAGE fp w)) = files_log w"
  "debug (snd (legacy_MAXNETAGE fp w)) = debug w"
  "log_out (snd (legacy_MAXNETAGE fp w)) = log_out w"
  "fclose_count (snd (legacy_MAXNETAGE fp w)) = fclose_count w"
  "argv_dnsmasq2 (snd (legacy_MAXNETAGE fp w)) = argv_dnsmasq2 w"
  by (simp_all add: legacy_MAXNETAGE_def Let_def split: option.splits scan.splits prod.splits)

lemma legacy_REFRESH_HOSTNAMES_frame:
  "dns_analyzeAAAA (legacy_REFRESH_HOSTNAMES fp w) = dns_analyzeAAAA w"
  "database_maxDBdays (legacy_REFRESH_HOSTNAMES fp w) = database_maxDBdays w"
  "resolver_resolveIPv6 (legacy_REFRESH_HOSTNAMES fp w) = resolver_resolveIPv6 w"
  "resolver_resolveIPv4 (legacy_REFRESH_HOSTNAMES fp w) = resolver_resolveIPv4 w"
  "database_DBinterval (legacy_REFRESH_HOSTNAMES fp w) = database_DBinterval w"
  "files_database (legacy_REFRESH_HOSTNAMES fp w) = files_database w"
  "files_database_d (legacy_REFRESH_HOSTNAMES fp w) = files_database_d w"
  "database_maxHistory (legacy_REFRESH_HOSTNAMES fp w) = database_maxHistory w"
  "misc_privacylevel (legacy_REFRESH_HOSTNAMES fp w) = misc_privacylevel w"
  "dns_ignoreLocalhost (legacy_REFRESH_HOSTNAMES fp w) = dns_ignoreLocalhost w"
  "dns_blockingmode (legacy_REFRESH_HOSTNAMES fp w) = dns_blockingmode w"
  "dns_blockingmode_d (legacy_REFRESH_HOSTNAMES fp w) = dns_blockingmode_d w"
  "dns_analyzeOnlyAandAAAA (legacy_REFRESH_HOSTNAMES fp w) = dns_analyzeOnlyAandAAAA w"
  "database_DBimport (legacy_REFRESH_HOSTNAMES fp w) = database_DBimport w"
  "files_pid (legacy_REFRESH_HOSTNAMES fp w) = files_pid w"
  "files_setupVars (legacy_REFRESH_HOSTNAMES fp w) = files_setupVars w"
  "files_macvendor (legacy_REFRESH_HOSTNAMES fp w) = files_macvendor w"
  "files_gravity (legacy_REFRESH_HOSTNAMES fp w) = files_gravity w"
  "database_network_parseARPcache (legacy_REFRESH_HOSTNAMES fp w) = database_network_parseARPcache w"
  "dns_CNAMEdeepInspect (legacy_REFRESH_HOSTNAMES fp w) = dns_CNAMEdeepInspect w"
  "misc_delay_startup (legacy_REFRESH_HOSTNAMES fp w) = misc_delay_startup w"
  "dns_blockESNI (legacy_REFRESH_HOSTNAMES fp w) = dns_blockESNI w"
  "http_paths_webroot (legacy_REFRESH_HOSTNAMES fp w) = http_paths_webroot w"
  "http_port (legacy_REFRESH_HOSTNAMES fp w) = http_port w"
  "http_paths_webhome (legacy_REFRESH_HOSTNAMES fp w) = http_paths_webhome w"
  "http_acl (legacy_REFRESH_HOSTNAMES fp w) = http_acl w"
  "http_localAPIauth (legacy_REFRESH_HOSTNAMES fp w) = http_localAPIauth w"
  "http_sessionTimeout (legacy_REFRESH_HOSTNAMES fp w) = http_sessionTimeout w"
  "http_prettyJSON (legacy_REFRESH_HOSTNAMES fp w) = http_prettyJSON w"
  "files_ph7_error (legacy_REFRESH_HOSTNAMES fp w) = files_ph7_error w"
  "files_http_info (legacy_REFRESH_HOSTNAMES fp w) = files_http_info w"
  "database_network_expire (legacy_REFRESH_HOSTNAMES fp w) = database_network_expire w"
  "resolver_networkNames (legacy_REFRESH_HOSTNAMES fp w) = resolver_networkNames w"
  "dns_EDNS0ECS (legacy_REFRESH_HOSTNAMES fp w) = dns_EDNS0ECS w"
  "http_domain (legacy_REFRESH_HOSTNAMES fp w) = http_domain w"
  "dns_rateLimit_count (legacy_REFRESH_HOSTNAMES fp w) = dns_rateLimit_count w"
  "dns_rateLimit_interval (legacy_REFRESH_HOSTNAMES fp w) = dns_rateLimit_interval w"
  "dns_reply_host_overwrite_v4 (legacy_REFRESH_HOSTNAMES fp w) = dns_reply_host_overwrite_v4 w"
  "dns_reply_host_v4 (legacy_REFRESH_HOSTNAMES fp w) = dns_reply_host_v4 w"
  "dns_reply_host_overwrite_v6 (legacy_REFRESH_HOSTNAMES fp w) = dns_reply_host_overwrite_v6 w"
  "dns_reply_host_v6 (legacy_REFRESH_HOSTNAMES fp w) = dns_reply_host_v6 w"
  "dns_reply_blocking_overwrite_v4 (legacy_REFRESH_HOSTNAMES fp w) = dns_reply_blocking_overwrite_v4 w"
  "dns_reply_blocking_v4 (legacy_REFRESH_HOSTNAMES fp w) = dns_reply_blocking_v4 w"
  "dns_reply_blocking_overwrite_v6 (legacy_REFRESH_HOSTNAMES fp w) = dns_reply_blocking_overwrite_v6 w"
  "dns_reply_blocking_v6 (legacy_REFRESH_HOSTNAMES fp w) = dns_reply_blocking_v6 w"
  "dns_showDNSSEC (legacy_REFRESH_HOSTNAMES fp w) = dns_showDNSSEC w"
  "dns_specialDomains_mozillaCanary (legacy_REFRESH_HOSTNAMES fp w) = dns_specialDomains_mozillaCanary w"
  "dns_piholePTR (legacy_REFRESH_HOSTNAMES fp w) = dns_piholePTR w"
  "misc_addr2line (legacy_REFRESH_HOSTNAMES fp w) = misc_addr2line w"
  "dns_replyWhenBusy (legacy_REFRESH_HOSTNAMES fp w) = dns_replyWhenBusy w"
  "dns_blockTTL (legacy_REFRESH_HOSTNAMES fp w) = dns_blockTTL w"
  "dns_specialDomains_iCloudPrivateRelay (legacy_REFRESH_HOSTNAMES fp w) = dns_specialDomains_iCloudPrivateRelay w"
  "misc_check_load (legacy_REFRESH_HOSTNAMES fp w) = misc_check_load w"
  "misc_check_shmem (legacy_REFRESH_HOSTNAMES fp w) = misc_check_shmem w"
  "misc_check_disk (legacy_REFRESH_HOSTNAMES fp w) = misc_check_disk w"
  "files_log (legacy_REFRESH_HOSTNAMES fp w) = files_log w"
  "debug (legacy_REFRESH_HOSTNAMES fp w) = debug w"
  "log_out (legacy_REFRESH_HOSTNAMES fp w) = log_out w"
  "fclose_count (legacy_REFRESH_HOSTNAMES fp w) = fclose_count w"
  "argv_dnsmasq2 (legacy_REFRESH_HOSTNAMES fp w) = argv_dnsmasq2 w"
  by (simp_all add: legacy_REFRESH_HOSTNAMES_def Let_def split: option.splits scan.splits prod.splits)

lemma legacy_RATE_LIMIT_frame:
  "dns_analyzeAAAA (legacy_RATE_LIMIT fp w) = dns_analyzeAAAA w"
  "database_maxDBdays (legacy_RATE_LIMIT fp w) = database_maxDBdays w"
  "resolver_resolveIPv6 (legacy_RATE_LIMIT fp w) = resolver_resolveIPv6 w"
  "resolver_resolveIPv4 (legacy_RATE_LIMIT fp w) = resolver_resolveIPv4 w"
  "database_DBinterval (legacy_RATE_LIMIT fp w) = database_DBinterval w"
  "files_database (legacy_RATE_LIMIT fp w) = files_database w"
  "files_database_d (legacy_RATE_LIMIT fp w) = files_database_d w"
  "database_maxHistory (legacy_RATE_LIMIT fp w) = database_maxHistory w"
  "misc_privacylevel (legacy_RATE_LIMIT fp w) = misc_privacylevel w"
  "dns_ignoreLocalhost (legacy_RATE_LIMIT fp w) = dns_ignoreLocalhost w"
  "dns_blockingmode (legacy_RATE_LIMIT fp w) = dns_blockingmode w"
  "dns_blockingmode_d (legacy_RATE_LIMIT fp w) = dns_blockingmode_d w"
  "dns_analyzeOnlyAandAAAA (legacy_RATE_LIMIT fp w) = dns_analyzeOnlyAandAAAA w"
  "database_DBimport (legacy_RATE_LIMIT fp w) = database_DBimport w"
  "files_pid (legacy_RATE_LIMIT fp w) = files_pid w"
  "files_setupVars (legacy_RATE_LIMIT fp w) = files_setupVars w"
  "files_macvendor (legacy_RATE_LIMIT fp w) = files_macvendor w"
  "files_gravity (legacy_RATE_LIMIT fp w) = files_gravity w"
  "database_network_parseARPcache (legacy_RATE_LIMIT fp w) = database_network_parseARPcache w"
  "dns_CNAMEdeepInspect (legacy_RATE_LIMIT fp w) = dns_CNAMEdeepInspect w"
  "misc_delay_startup (legacy_RATE_LIMIT fp w) = misc_delay_startup w"
  "dns_blockESNI (legacy_RATE_LIMIT fp w) = dns_blockESNI w"
  "http_paths_webroot (legacy_RATE_LIMIT fp w) = http_paths_webroot w"
  "http_port (legacy_RATE_LIMIT fp w) = http_port w"
  "http_paths_webhome (legacy_RATE_LIMIT fp w) = http_paths_webhome w"
  "http_acl (legacy_RATE_LIMIT fp w) = http_acl w"
  "http_localAPIauth (legacy_RATE_LIMIT fp w) = http_localAPIauth w"
  "http_sessionTimeout (legacy_RATE_LIMIT fp w) = http_sessionTimeout w"
  "http_prettyJSON (legacy_RATE_LIMIT fp w) = http_prettyJSON w"
  "files_ph7_error (legacy_RATE_LIMIT fp w) = files_ph7_error w"
  "files_http_info (legacy_RATE_LIMIT fp w) = files_http_info w"
  "database_network_expire (legacy_RATE_LIMIT fp w) = database_network_expire w"
  "resolver_networkNames (legacy_RATE_LIMIT fp w) = resolver_networkNames w"
  "dns_EDNS0ECS (legacy_RATE_LIMIT fp w) = dns_EDNS0ECS w"
  "resolver_refreshNames (legacy_RATE_LIMIT fp w) = resolver_refreshNames w"
  "http_domain (legacy_RATE_LIMIT fp w) = http_domain w"
  "dns_reply_host_overwrite_v4 (legacy_RATE_LIMIT fp w) = dns_reply_host_overwrite_v4 w"
  "dns_reply_host_v4 (legacy_RATE_LIMIT fp w) = dns_reply_host_v4 w"
  "dns_reply_host_overwrite_v6 (legacy_RATE_LIMIT fp w) = dns_reply_host_overwrite_v6 w"
  "dns_reply_host_v6 (legacy_RATE_LIMIT fp w) = dns_reply_host_v6 w"
  "dns_reply_blocking_overwrite_v4 (legacy_RATE_LIMIT fp w) = dns_reply_blocking_overwrite_v4 w"
  "dns_reply_blocking_v4 (legacy_RATE_LIMIT fp w) = dns_reply_blocking_v4 w"
  "dns_reply_blocking_overwrite_v6 (legacy_RATE_LIMIT fp w) = dns_reply_blocking_overwrite_v6 w"
  "dns_reply_blocking_v6 (legacy_RATE_LIMIT fp w) = dns_reply_blocking_v6 w"
  "dns_showDNSSEC (legacy_RATE_LIMIT fp w) = dns_showDNSSEC w"
  "dns_specialDomains_mozillaCanary (legacy_RATE_LIMIT fp w) = dns_specialDomains_mozillaCanary w"
  "dns_piholePTR (legacy_RATE_LIMIT fp w) = dns_piholePTR w"
  "misc_addr2line (legacy_RATE_LIMIT fp w) = misc_addr2line w"
  "dns_replyWhenBusy (legacy_RATE_LIMIT fp w) = dns_replyWhenBusy w"
  "dns_blockTTL (legacy_RATE_LIMIT fp w) = dns_blockTTL w"
  "dns_specialDomains_iCloudPrivateRelay (legacy_RATE_LIMIT fp w) = dns_specialDomains_iCloudPrivateRelay w"
  "misc_check_load (legacy_RATE_LIMIT fp w) = misc_check_load w"
  "misc_check_shmem (legacy_RATE_LIMIT fp w) = misc_check_shmem w"
  "misc_check_disk (legacy_RATE_LIMIT fp w) = misc_check_disk w"
  "files_log (legacy_RATE_LIMIT fp w) = files_log w"
  "debug (legacy_RATE_LIMIT fp w) = debug w"
  "log_out (legacy_RATE_LIMIT fp w) = log_out w"
  "fclose_count (legacy_RATE_LIMIT fp w) = fclose_count w"
  "argv_dnsmasq2 (legacy_RATE_LIMIT fp w) = argv_dnsmasq2 w"
  by (simp_all add: legacy_RATE_LIMIT_def split: option.splits scan.splits prod.splits)

lemma legacy_LOCAL_IPV4_frame:
  "dns_analyzeAAAA (legacy_LOCAL_IPV4 fp w) = dns_analyzeAAAA w"
  "database_maxDBdays (legacy_LOCAL_IPV4 fp w) = database_maxDBdays w"
  "resolver_resolveIPv6 (legacy_LOCAL_IPV4 fp w) = resolver_resolveIPv6 w"
  "resolver_resolveIPv4 (legacy_LOCAL_IPV4 fp w) = resolver_resolveIPv4 w"
  "database_DBinterval (legacy_LOCAL_IPV4 fp w) = database_DBinterval w"
  "files_database (legacy_LOCAL_IPV4 fp w) = files_database w"
  "files_database_d (legacy_LOCAL_IPV4 fp w) = files_database_d w"
  "database_maxHistory (legacy_LOCAL_IPV4 fp w) = database_maxHistory w"
  "misc_privacylevel (legacy_LOCAL_IPV4 fp w) = misc_privacylevel w"
  "dns_ignoreLocalhost (legacy_LOCAL_IPV4 fp w) = dns_ignoreLocalhost w"
  "dns_blockingmode (legacy_LOCAL_IPV4 fp w) = dns_blockingmode w"
  "dns_blockingmode_d (legacy_LOCAL_IPV4 fp w) = dns_blockingmode_d w"
  "dns_analyzeOnlyAandAAAA (legacy_LOCAL_IPV4 fp w) = dns_analyzeOnlyAandAAAA w"
  "database_DBimport (legacy_LOCAL_IPV4 fp w) = database_DBimport w"
  "files_pid (legacy_LOCAL_IPV4 fp w) = files_pid w"
  "files_setupVars (legacy_LOCAL_IPV4 fp w) = files_setupVars w"
  "files_macvendor (legacy_LOCAL_IPV4 fp w) = files_macvendor w"
  "files_gravity (legacy_LOCAL_IPV4 fp w) = files_gravity w"
  "database_network_parseARPcache (legacy_LOCAL_IPV4 fp w) = database_network_parseARPcache w"
  "dns_CNAMEdeepInspect (legacy_LOCAL_IPV4 fp w) = dns_CNAMEdeepInspect w"
  "misc_delay_startup (legacy_LOCAL_IPV4 fp w) = misc_delay_startup w"
  "dns_blockESNI (legacy_LOCAL_IPV4 fp w) = dns_blockESNI w"
  "http_paths_webroot (legacy_LOCAL_IPV4 fp w) = http_paths_webroot w"
  "http_port (legacy_LOCAL_IPV4 fp w) = http_port w"
  "http_paths_webhome (legacy_LOCAL_IPV4 fp w) = http_paths_webhome w"
  "http_acl (legacy_LOCAL_IPV4 fp w) = http_acl w"
  "http_localAPIauth (legacy_LOCAL_IPV4 fp w) = http_localAPIauth w"
  "http_sessionTimeout (legacy_LOCAL_IPV4 fp w) = http_sessionTimeout w"
  "http_prettyJSON (legacy_LOCAL_IPV4 fp w) = http_prettyJSON w"
  "files_ph7_error (legacy_LOCAL_IPV4 fp w) = files_ph7_error w"
  "files_http_info (legacy_LOCAL_IPV4 fp w) = files_http_info w"
  "database_network_expire (legacy_LOCAL_IPV4 fp w) = database_network_expire w"
  "resolver_networkNames (legacy_LOCAL_IPV4 fp w) = resolver_networkNames w"
  "dns_EDNS0ECS (legacy_LOCAL_IPV4 fp w) = dns_EDNS0ECS w"
  "resolver_refreshNames (legacy_LOCAL_IPV4 fp w) = resolver_refreshNames w"
  "http_domain (legacy_LOCAL_IPV4 fp w) = http_domain w"
  "dns_rateLimit_count (legacy_LOCAL_IPV4 fp w) = dns_rateLimit_count w"
  "dns_rateLimit_interval (legacy_LOCAL_IPV4 fp w) = dns_rateLimit_interval w"
  "dns_reply_host_overwrite_v6 (legacy_LOCAL_IPV4 fp w) = dns_reply_host_overwrite_v6 w"
  "dns_reply_host_v6 (legacy_LOCAL_IPV4 fp w) = dns_reply_host_v6 w"
  "dns_reply_blocking_overwrite_v4 (legacy_LOCAL_IPV4 fp w) = dns_reply_blocking_overwrite_v4 w"
  "dns_reply_blocking_v4 (legacy_LOCAL_IPV4 fp w) = dns_reply_blocking_v4 w"
  "dns_reply_blocking_overwrite_v6 (legacy_LOCAL_IPV4 fp w) = dns_reply_blocking_overwrite_v6 w"
  "dns_reply_blocking_v6 (legacy_LOCAL_IPV4 fp w) = dns_reply_blocking_v6 w"
  "dns_showDNSSEC (legacy_LOCAL_IPV4 fp w) = dns_showDNSSEC w"
  "dns_specialDomains_mozillaCanary (legacy_LOCAL_IPV4 fp w) = dns_specialDomains_mozillaCanary w"
  "dns_piholePTR (legacy_LOCAL_IPV4 fp w) = dns_piholePTR w"
  "misc_addr2line (legacy_LOCAL_IPV4 fp w) = misc_addr2line w"
  "dns_replyWhenBusy (legacy_LOCAL_IPV4 fp w) = dns_replyWhenBusy w"
  "dns_blockTTL (legacy_LOCAL_IPV4 fp w) = dns_blockTTL w"
  "dns_specialDomains_iCloudPrivateRelay (legacy_LOCAL_IPV4 fp w) = dns_specialDomains_iCloudPrivateRelay w"
  "misc_check_load (legacy_LOCAL_IPV4 fp w) = misc_check_load w"
  "misc_check_shmem (legacy_LOCAL_IPV4 fp w) = misc_check_shmem w"
  "misc_check_disk (legacy_LOCAL_IPV4 fp w) = misc_check_disk w"
  "files_log (legacy_LOCAL_IPV4 fp w) = files_log w"
  "debug (legacy_LOCAL_IPV4 fp w) = debug w"
  "log_out (legacy_LOCAL_IPV4 fp w) = log_out w"
  "fclose_count (legacy_LOCAL_IPV4 fp w) = fclose_count w"
  "argv_dnsmasq2 (legacy_LOCAL_IPV4 fp w) = argv_dnsmasq2 w"
  by (simp_all add: legacy_LOCAL_IPV4_def Let_def split: option.splits scan.splits prod.splits)

lemma legacy_LOCAL_IPV6_frame:
  "dns_analyzeAAAA (legacy_LOCAL_IPV6 fp w) = dns_analyzeAAAA w"
  "database_maxDBdays (legacy_LOCAL_IPV6 fp w) = database_maxDBdays w"
  "resolver_resolveIPv6 (legacy_LOCAL_IPV6 fp w) = resolver_resolveIPv6 w"
  "resolver_resolveIPv4 (legacy_LOCAL_IPV6 fp w) = resolver_resolveIPv4 w"
  "database_DBinterval (legacy_LOCAL_IPV6 fp w) = database_DBinterval w"
  "files_database (legacy_LOCAL_IPV6 fp w) = files_database w"
  "files_database_d (legacy_LOCAL_IPV6 fp w) = files_database_d w"
  "database_maxHistory (legacy_LOCAL_IPV6 fp w) = database_maxHistory w"
  "misc_privacylevel (legacy_LOCAL_IPV6 fp w) = misc_privacylevel w"
  "dns_ignoreLocalhost (legacy_LOCAL_IPV6 fp w) = dns_ignoreLocalhost w"
  "dns_blockingmode (legacy_LOCAL_IPV6 fp w) = dns_blockingmode w"
  "dns_blockingmode_d (legacy_LOCAL_IPV6 fp w) = dns_blockingmode_d w"
  "dns_analyzeOnlyAandAAAA (legacy_LOCAL_IPV6 fp w) = dns_analyzeOnlyAandAAAA w"
  "database_DBimport (legacy_LOCAL_IPV6 fp w) = database_DBimport w"
  "files_pid (legacy_LOCAL_IPV6 fp w) = files_pid w"
  "files_setupVars (legacy_LOCAL_IPV6 fp w) = files_setupVars w"
  "files_macvendor (legacy_LOCAL_IPV6 fp w) = files_macvendor w"
  "files_gravity (legacy_LOCAL_IPV6 fp w) = files_gravity w"
  "database_network_parseARPcache (legacy_LOCAL_IPV6 fp w) = database_network_parseARPcache w"
  "dns_CNAMEdeepInspect (legacy_LOCAL_IPV6 fp w) = dns_CNAMEdeepInspect w"
  "misc_delay_startup (legacy_LOCAL_IPV6 fp w) = misc_delay_startup w"
  "dns_blockESNI (legacy_LOCAL_IPV6 fp w) = dns_blockESNI w"
  "http_paths_webroot (legacy_LOCAL_IPV6 fp w) = http_paths_webroot w"
  "http_port (legacy_LOCAL_IPV6 fp w) = http_port w"
  "http_paths_webhome (legacy_LOCAL_IPV6 fp w) = http_paths_webhome w"
  "http_acl (legacy_LOCAL_IPV6 fp w) = http_acl w"
  "http_localAPIauth (legacy_LOCAL_IPV6 fp w) = http_localAPIauth w"
  "http_sessionTimeout (legacy_LOCAL_IPV6 fp w) = http_sessionTimeout w"
  "http_prettyJSON (legacy_LOCAL_IPV6 fp w) = http_prettyJSON w"
  "files_ph7_error (legacy_LOCAL_IPV6 fp w) = files_ph7_error w"
  "files_http_info (legacy_LOCAL_IPV6 fp w) = files_http_info w"
  "database_network_expire (legacy_LOCAL_IPV6 fp w) = database_network_expire w"
  "resolver_networkNames (legacy_LOCAL_IPV6 fp w) = resolver_networkNames w"
  "dns_EDNS0ECS (legacy_LOCAL_IPV6 fp w) = dns_EDNS0ECS w"
  "resolver_refreshNames (legacy_LOCAL_IPV6 fp w) = resolver_refreshNames w"
  "http_domain (legacy_LOCAL_IPV6 fp w) = http_domain w"
  "dns_rateLimit_count (legacy_LOCAL_IPV6 fp w) = dns_rateLimit_count w"
  "dns_rateLimit_interval (legacy_LOCAL_IPV6 fp w) = dns_rateLimit_interval w"
  "dns_reply_host_overwrite_v4 (legacy_LOCAL_IPV6 fp w) = dns_reply_host_overwrite_v4 w"
  "dns_reply_host_v4 (legacy_LOCAL_IPV6 fp w) = dns_reply_host_v4 w"
  "dns_reply_blocking_overwrite_v4 (legacy_LOCAL_IPV6 fp w) = dns_reply_blocking_overwrite_v4 w"
  "dns_reply_blocking_v4 (legacy_LOCAL_IPV6 fp w) = dns_reply_blocking_v4 w"
  "dns_reply_blocking_overwrite_v6 (legacy_LOCAL_IPV6 fp w) = dns_reply_blocking_overwrite_v6 w"
  "dns_reply_blocking_v6 (legacy_LOCAL_IPV6 fp w) = dns_reply_blocking_v6 w"
  "dns_showDNSSEC (legacy_LOCAL_IPV6 fp w) = dns_showDNSSEC w"
  "dns_specialDomains_mozillaCanary (legacy_LOCAL_IPV6 fp w) = dns_specialDomains_mozillaCanary w"
  "dns_piholePTR (legacy_LOCAL_IPV6 fp w) = dns_piholePTR w"
  "misc_addr2line (legacy_LOCAL_IPV6 fp w) = misc_addr2line w"
  "dns_replyWhenBusy (legacy_LOCAL_IPV6 fp w) = dns_replyWhenBusy w"
  "dns_blockTTL (legacy_LOCAL_IPV6 fp w) = dns_blockTTL w"
  "dns_specialDomains_iCloudPrivateRelay (legacy_LOCAL_IPV6 fp w) = dns_specialDomains_iCloudPrivateRelay w"
  "misc_check_load (legacy_LOCAL_IPV6 fp w) = misc_check_load w"
  "misc_check_shmem (legacy_LOCAL_IPV6 fp w) = misc_check_shmem w"
  "misc_check_disk (legacy_LOCAL_IPV6 fp w) = misc_check_disk w"
  "files_log (legacy_LOCAL_IPV6 fp w) = files_log w"
  "debug (legacy_LOCAL_IPV6 fp w) = debug w"
  "log_out (legacy_LOCAL_IPV6 fp w) = log_out w"
  "fclose_count (legacy_LOCAL_IPV6 fp w) = fclose_count w"
  "argv_dnsmasq2 (legacy_LOCAL_IPV6 fp w) = argv_dnsmasq2 w"
  by (simp_all add: legacy_LOCAL_IPV6_def Let_def split: option.splits scan.splits prod.splits)

lemma legacy_BLOCK_IPV4_frame:
  "dns_analyzeAAAA (legacy_BLOCK_IPV4 fp w) = dns_analyzeAAAA w"
  "database_maxDBdays (legacy_BLOCK_IPV4 fp w) = database_maxDBdays w"
  "resolver_resolveIPv6 (legacy_BLOCK_IPV4 fp w) = resolver_resolveIPv6 w"
  "resolver_resolveIPv4 (legacy_BLOCK_IPV4 fp w) = resolver_resolveIPv4 w"
  "database_DBinterval (legacy_BLOCK_IPV4 fp w) = database_DBinterval w"
  "files_database (legacy_BLOCK_IPV4 fp w) = files_database w"
  "files_database_d (legacy_BLOCK_IPV4 fp w) = files_database_d w"
  "database_maxHistory (legacy_BLOCK_IPV4 fp w) = database_maxHistory w"
  "misc_privacylevel (legacy_BLOCK_IPV4 fp w) = misc_privacylevel w"
  "dns_ignoreLocalhost (legacy_BLOCK_IPV4 fp w) = dns_ignoreLocalhost w"
  "dns_blockingmode (legacy_BLOCK_IPV4 fp w) = dns_blockingmode w"
  "dns_blockingmode_d (legacy_BLOCK_IPV4 fp w) = dns_blockingmode_d w"
  "dns_analyzeOnlyAandAAAA (legacy_BLOCK_IPV4 fp w) = dns_analyzeOnlyAandAAAA w"
  "database_DBimport (legacy_BLOCK_IPV4 fp w) = database_DBimport w"
  "files_pid (legacy_BLOCK_IPV4 fp w) = files_pid w"
  "files_setupVars (legacy_BLOCK_IPV4 fp w) = files_setupVars w"
  "files_macvendor (legacy_BLOCK_IPV4 fp w) = files_macvendor w"
  "files_gravity (legacy_BLOCK_IPV4 fp w) = files_gravity w"
  "database_network_parseARPcache (legacy_BLOCK_IPV4 fp w) = database_network_parseARPcache w"
  "dns_CNAMEdeepInspect (legacy_BLOCK_IPV4 fp w) = dns_CNAMEdeepInspect w"
  "misc_delay_startup (legacy_BLOCK_IPV4 fp w) = misc_delay_startup w"
  "dns_blockESNI (legacy_BLOCK_IPV4 fp w) = dns_blockESNI w"
  "http_paths_webroot (legacy_BLOCK_IPV4 fp w) = http_paths_webroot w"
  "http_port (legacy_BLOCK_IPV4 fp w) = http_port w"
  "http_paths_webhome (legacy_BLOCK_IPV4 fp w) = http_paths_webhome w"
  "http_acl (legacy_BLOCK_IPV4 fp w) = http_acl w"
  "http_localAPIauth (legacy_BLOCK_IPV4 fp w) = http_localAPIauth w"
  "http_sessionTimeout (legacy_BLOCK_IPV4 fp w) = http_sessionTimeout w"
  "http_prettyJSON (legacy_BLOCK_IPV4 fp w) = http_prettyJSON w"
  "files_ph7_error (legacy_BLOCK_IPV4 fp w) = files_ph7_error w"
  "files_http_info (legacy_BLOCK_IPV4 fp w) = files_http_info w"
  "database_network_expire (legacy_BLOCK_IPV4 fp w) = database_network_expire w"
  "resolver_networkNames (legacy_BLOCK_IPV4 fp w) = resolver_networkNames w"
  "dns_EDNS0ECS (legacy_BLOCK_IPV4 fp w) = dns_EDNS0ECS w"
  "resolver_refreshNames (legacy_BLOCK_IPV4 fp w) = resolver_refreshNames w"
  "http_domain (legacy_BLOCK_IPV4 fp w) = http_domain w"
  "dns_rateLimit_count (legacy_BLOCK_IPV4 fp w) = dns_rateLimit_count w"
  "dns_rateLimit_interval (legacy_BLOCK_IPV4 fp w) = dns_rateLimit_interval w"
  "dns_reply_host_overwrite_v4 (legacy_BLOCK_IPV4 fp w) = dns_reply_host_overwrite_v4 w"
  "dns_reply_host_v4 (legacy_BLOCK_IPV4 fp w) = dns_reply_host_v4 w"
  "dns_reply_host_overwrite_v6 (legacy_BLOCK_IPV4 fp w) = dns_reply_host_overwrite_v6 w"
  "dns_reply_host_v6 (legacy_BLOCK_IPV4 fp w) = dns_reply_host_v6 w"
  "dns_reply_blocking_overwrite_v6 (legacy_BLOCK_IPV4 fp w) = dns_reply_blocking_overwrite_v6 w"
  "dns_reply_blocking_v6 (legacy_BLOCK_IPV4 fp w) = dns_reply_blocking_v6 w"
  "dns_showDNSSEC (legacy_BLOCK_IPV4 fp w) = dns_showDNSSEC w"
  "dns_specialDomains_mozillaCanary (legacy_BLOCK_IPV4 fp w) = dns_specialDomains_mozillaCanary w"
  "dns_piholePTR (legacy_BLOCK_IPV4 fp w) = dns_piholePTR w"
  "misc_addr2line (legacy_BLOCK_IPV4 fp w) = misc_addr2line w"
  "dns_replyWhenBusy (legacy_BLOCK_IPV4 fp w) = dns_replyWhenBusy w"
  "dns_blockTTL (legacy_BLOCK_IPV4 fp w) = dns_blockTTL w"
  "dns_specialDomains_iCloudPrivateRelay (legacy_BLOCK_IPV4 fp w) = dns_specialDomains_iCloudPrivateRelay w"
  "misc_check_load (legacy_BLOCK_IPV4 fp w) = misc_check_load w"
  "misc_check_shmem (legacy_BLOCK_IPV4 fp w) = misc_check_shmem w"
  "misc_check_disk (legacy_BLOCK_IPV4 fp w) = misc_check_disk w"
  "files_log (legacy_BLOCK_IPV4 fp w) = files_log w"
  "debug (legacy_BLOCK_IPV4 fp w) = debug w"
  "log_out (legacy_BLOCK_IPV4 fp w) = log_out w"
  "fclose_count (legacy_BLOCK_IPV4 fp w) = fclose_count w"
  "argv_dnsmasq2 (legacy_BLOCK_IPV4 fp w) = argv_dnsmasq2 w"
  by (simp_all add: legacy_BLOCK_IPV4_def Let_def split: option.splits scan.splits prod.splits)

lemma legacy_BLOCK_IPV6_frame:
  "dns_analyzeAAAA (legacy_BLOCK_IPV6 fp w) = dns_analyzeAAAA w"
  "database_maxDBdays (legacy_BLOCK_IPV6 fp w) = database_maxDBdays w"
  "resolver_resolveIPv6 (legacy_BLOCK_IPV6 fp w) = resolver_resolveIPv6 w"
  "resolver_resolveIPv4 (legacy_BLOCK_IPV6 fp w) = resolver_resolveIPv4 w"
  "database_DBinterval (legacy_BLOCK_IPV6 fp w) = database_DBinterval w"
  "files_database (legacy_BLOCK_IPV6 fp w) = files_database w"
  "files_database_d (legacy_BLOCK_IPV6 fp w) = files_database_d w"
  "database_maxHistory (legacy_BLOCK_IPV6 fp w) = database_maxHistory w"
  "misc_privacylevel (legacy_BLOCK_IPV6 fp w) = misc_privacylevel w"
  "dns_ignoreLocalhost (legacy_BLOCK_IPV6 fp w) = dns_ignoreLocalhost w"
  "dns_blockingmode (legacy_BLOCK_IPV6 fp w) = dns_blockingmode w"
  "dns_blockingmode_d (legacy_BLOCK_IPV6 fp w) = dns_blockingmode_d w"
  "dns_analyzeOnlyAandAAAA (legacy_BLOCK_IPV6 fp w) = dns_analyzeOnlyAandAAAA w"
  "database_DBimport (legacy_BLOCK_IPV6 fp w) = database_DBimport w"
  "files_pid (legacy_BLOCK_IPV6 fp w) = files_pid w"
  "files_setupVars (legacy_BLOCK_IPV6 fp w) = files_setupVars w"
  "files_macvendor (legacy_BLOCK_IPV6 fp w) = files_macvendor w"
  "files_gravity (legacy_BLOCK_IPV6 fp w) = files_gravity w"
  "database_network_parseARPcache (legacy_BLOCK_IPV6 fp w) = database_network_parseARPcache w"
  "dns_CNAMEdeepInspect (legacy_BLOCK_IPV6 fp w) = dns_CNAMEdeepInspect w"
  "misc_delay_startup (legacy_BLOCK_IPV6 fp w) = misc_delay_startup w"
  "dns_blockESNI (legacy_BLOCK_IPV6 fp w) = dns_blockESNI w"
  "http_paths_webroot (legacy_BLOCK_IPV6 fp w) = http_paths_webroot w"
  "http_port (legacy_BLOCK_IPV6 fp w) = http_port w"
  "http_paths_webhome (legacy_BLOCK_IPV6 fp w) = http_paths_webhome w"
  "http_acl (legacy_BLOCK_IPV6 fp w) = http_acl w"
  "http_localAPIauth (legacy_BLOCK_IPV6 fp w) = http_localAPIauth w"
  "http_sessionTimeout (legacy_BLOCK_IPV6 fp w) = http_sessionTimeout w"
  "http_prettyJSON (legacy_BLOCK_IPV6 fp w) = http_prettyJSON w"
  "files_ph7_error (legacy_BLOCK_IPV6 fp w) = files_ph7_error w"
  "files_http_info (legacy_BLOCK_IPV6 fp w) = files_http_info w"
  "database_network_expire (legacy_BLOCK_IPV6 fp w) = database_network_expire w"
  "resolver_networkNames (legacy_BLOCK_IPV6 fp w) = resolver_networkNames w"
  "dns_EDNS0ECS (legacy_BLOCK_IPV6 fp w) = dns_EDNS0ECS w"
  "resolver_refreshNames (legacy_BLOCK_IPV6 fp w) = resolver_refreshNames w"
  "http_domain (legacy_BLOCK_IPV6 fp w) = http_domain w"
  "dns_rateLimit_count (legacy_BLOCK_IPV6 fp w) = dns_rateLimit_count w"
  "dns_rateLimit_interval (legacy_BLOCK_IPV6 fp w) = dns_rateLimit_interval w"
  "dns_reply_host_overwrite_v4 (legacy_BLOCK_IPV6 fp w) = dns_reply_host_overwrite_v4 w"
  "dns_reply_host_v4 (legacy_BLOCK_IPV6 fp w) = dns_reply_host_v4 w"
  "dns_reply_host_overwrite_v6 (legacy_BLOCK_IPV6 fp w) = dns_reply_host_overwrite_v6 w"
  "dns_reply_host_v6 (legacy_BLOCK_IPV6 fp w) = dns_reply_host_v6 w"
  "dns_reply_blocking_overwrite_v4 (legacy_BLOCK_IPV6 fp w) = dns_reply_blocking_overwrite_v4 w"
  "dns_reply_blocking_v4 (legacy_BLOCK_IPV6 fp w) = dns_reply_blocking_v4 w"
  "dns_showDNSSEC (legacy_BLOCK_IPV6 fp w) = dns_showDNSSEC w"
  "dns_specialDomains_mozillaCanary (legacy_BLOCK_IPV6 fp w) = dns_specialDomains_mozillaCanary w"
  "dns_piholePTR (legacy_BLOCK_IPV6 fp w) = dns_piholePTR w"
  "misc_addr2line (legacy_BLOCK_IPV6 fp w) = misc_addr2line w"
  "dns_replyWhenBusy (legacy_BLOCK_IPV6 fp w) = dns_replyWhenBusy w"
  "dns_blockTTL (legacy_BLOCK_IPV6 fp w) = dns_blockTTL w"
  "dns_specialDomains_iCloudPrivateRelay (legacy_BLOCK_IPV6 fp w) = dns_specialDomains_iCloudPrivateRelay w"
  "misc_check_load (legacy_BLOCK_IPV6 fp w) = misc_check_load w"
  "misc_check_shmem (legacy_BLOCK_IPV6 fp w) = misc_check_shmem w"
  "misc_check_disk (legacy_BLOCK_IPV6 fp w) = misc_check_disk w"
  "files_log (legacy_BLOCK_IPV6 fp w) = files_log w"
  "debug (legacy_BLOCK_IPV6 fp w) = debug w"
  "log_out (legacy_BLOCK_IPV6 fp w) = log_out w"
  "fclose_count (legacy_BLOCK_IPV6 fp w) = fclose_count w"
  "argv_dnsmasq2 (legacy_BLOCK_IPV6 fp w) = argv_dnsmasq2 w"
  by (simp_all add: legacy_BLOCK_IPV6_def Let_def split: option.splits scan.splits prod.splits)

lemma legacy_REPLY_ADDR4_frame:
  "dns_analyzeAAAA (legacy_REPLY_ADDR4 fp w) = dns_analyzeAAAA w"
  "database_maxDBdays (legacy_REPLY_ADDR4 fp w) = database_maxDBdays w"
  "resolver_resolveIPv6 (legacy_REPLY_ADDR4 fp w) = resolver_resolveIPv6 w"
  "resolver_resolveIPv4 (legacy_REPLY_ADDR4 fp w) = resolver_resolveIPv4 w"
  "database_DBinterval (legacy_REPLY_ADDR4 fp w) = database_DBinterval w"
  "files_database (legacy_REPLY_ADDR4 fp w) = files_database w"
  "files_database_d (legacy_REPLY_ADDR4 fp w) = files_database_d w"
  "database_maxHistory (legacy_REPLY_ADDR4 fp w) = database_maxHistory w"
  "misc_privacylevel (legacy_REPLY_ADDR4 fp w) = misc_privacylevel w"
  "dns_ignoreLocalhost (legacy_REPLY_ADDR4 fp w) = dns_ignoreLocalhost w"
  "dns_blockingmode (legacy_REPLY_ADDR4 fp w) = dns_blockingmode w"
  "dns_blockingmode_d (legacy_REPLY_ADDR4 fp w) = dns_blockingmode_d w"
  "dns_analyzeOnlyAandAAAA (legacy_REPLY_ADDR4 fp w) = dns_analyzeOnlyAandAAAA w"
  "database_DBimport (legacy_REPLY_ADDR4 fp w) = database_DBimport w"
  "files_pid (legacy_REPLY_ADDR4 fp w) = files_pid w"
  "files_setupVars (legacy_REPLY_ADDR4 fp w) = files_setupVars w"
  "files_macvendor (legacy_REPLY_ADDR4 fp w) = files_macvendor w"
  "files_gravity (legacy_REPLY_ADDR4 fp w) = files_gravity w"
  "database_network_parseARPcache (legacy_REPLY_ADDR4 fp w) = database_network_parseARPcache w"
  "dns_CNAMEdeepInspect (legacy_REPLY_ADDR4 fp w) = dns_CNAMEdeepInspect w"
  "misc_delay_startup (legacy_REPLY_ADDR4 fp w) = misc_delay_startup w"
  "dns_blockESNI (legacy_REPLY_ADDR4 fp w) = dns_blockESNI w"
  "http_paths_webroot (legacy_REPLY_ADDR4 fp w) = http_paths_webroot w"
  "http_port (legacy_REPLY_ADDR4 fp w) = http_port w"
  "http_paths_webhome (legacy_REPLY_ADDR4 fp w) = http_paths_webhome w"
  "http_acl (legacy_REPLY_ADDR4 fp w) = http_acl w"
  "http_localAPIauth (legacy_REPLY_ADDR4 fp w) = http_localAPIauth w"
  "http_sessionTimeout (legacy_REPLY_ADDR4 fp w) = http_sessionTimeout w"
  "http_prettyJSON (legacy_REPLY_ADDR4 fp w) = http_prettyJSON w"
  "files_ph7_error (legacy_REPLY_ADDR4 fp w) = files_ph7_error w"
  "files_http_info (legacy_REPLY_ADDR4 fp w) = files_http_info w"
  "database_network_expire (legacy_REPLY_ADDR4 fp w) = database_network_expire w"
  "resolver_networkNames (legacy_REPLY_ADDR4 fp w) = resolver_networkNames w"
  "dns_EDNS0ECS (legacy_REPLY_ADDR4 fp w) = dns_EDNS0ECS w"
  "resolver_refreshNames (legacy_REPLY_ADDR4 fp w) = resolver_refreshNames w"
  "http_domain (legacy_REPLY_ADDR4 fp w) = http_domain w"
  "dns_rateLimit_count (legacy_REPLY_ADDR4 fp w) = dns_rateLimit_count w"
  "dns_rateLimit_interval (legacy_REPLY_ADDR4 fp w) = dns_rateLimit_interval w"
  "dns_reply_host_overwrite_v6 (legacy_REPLY_ADDR4 fp w) = dns_reply_host_overwrite_v6 w"
  "dns_reply_host_v6 (legacy_REPLY_ADDR4 fp w) = dns_reply_host_v6 w"
  "dns_reply_blocking_overwrite_v6 (legacy_REPLY_ADDR4 fp w) = dns_reply_blocking_overwrite_v6 w"
  "dns_reply_blocking_v6 (legacy_REPLY_ADDR4 fp w) = dns_reply_blocking_v6 w"
  "dns_showDNSSEC (legacy_REPLY_ADDR4 fp w) = dns_showDNSSEC w"
  "dns_specialDomains_mozillaCanary (legacy_REPLY_ADDR4 fp w) = dns_specialDomains_mozillaCanary w"
  "dns_piholePTR (legacy_REPLY_ADDR4 fp w) = dns_piholePTR w"
  "misc_addr2line (legacy_REPLY_ADDR4 fp w) = misc_addr2line w"
  "dns_replyWhenBusy (legacy_REPLY_ADDR4 fp w) = dns_replyWhenBusy w"
  "dns_blockTTL (legacy_REPLY_ADDR4 fp w) = dns_blockTTL w"
  "dns_specialDomains_iCloudPrivateRelay (legacy_REPLY_ADDR4 fp w) = dns_specialDomains_iCloudPrivateRelay w"
  "misc_check_load (legacy_REPLY_ADDR4 fp w) = misc_check_load w"
  "misc_check_shmem (legacy_REPLY_ADDR4 fp w) = misc_check_shmem w"
  "misc_check_disk (legacy_REPLY_ADDR4 fp w) = misc_check_disk w"
  "files_log (legacy_REPLY_ADDR4 fp w) = files_log w"
  "debug (legacy_REPLY_ADDR4 fp w) = debug w"
  "fclose_count (legacy_REPLY_ADDR4 fp w) = fclose_count w"
  "argv_dnsmasq2 (legacy_REPLY_ADDR4 fp w) = argv_dnsmasq2 w"
  by (simp_all add: legacy_REPLY_ADDR4_def Let_def log_line_def split: option.splits scan.splits prod.splits)

lemma legacy_REPLY_ADDR6_frame:
  "dns_analyzeAAAA (legacy_REPLY_ADDR6 e fp w) = dns_analyzeAAAA w"
  "database_maxDBdays (legacy_REPLY_ADDR6 e fp w) = database_maxDBdays w"
  "resolver_resolveIPv6 (legacy_REPLY_ADDR6 e fp w) = resolver_resolveIPv6 w"
  "resolver_resolveIPv4 (legacy_REPLY_ADDR6 e fp w) = resolver_resolveIPv4 w"
  "database_DBinterval (legacy_REPLY_ADDR6 e fp w) = database_DBinterval w"
  "files_database (legacy_REPLY_ADDR6 e fp w) = files_database w"
  "files_database_d (legacy_REPLY_ADDR6 e fp w) = files_database_d w"
  "database_maxHistory (legacy_REPLY_ADDR6 e fp w) = database_maxHistory w"
  "misc_privacylevel (legacy_REPLY_ADDR6 e fp w) = misc_privacylevel w"
  "dns_ignoreLocalhost (legacy_REPLY_ADDR6 e fp w) = dns_ignoreLocalhost w"
  "dns_blockingmode (legacy_REPLY_ADDR6 e fp w) = dns_blockingmode w"
  "dns_blockingmode_d (legacy_REPLY_ADDR6 e fp w) = dns_blockingmode_d w"
  "dns_analyzeOnlyAandAAAA (legacy_REPLY_ADDR6 e fp w) = dns_analyzeOnlyAandAAAA w"
  "database_DBimport (legacy_REPLY_ADDR6 e fp w) = database_DBimport w"
  "files_pid (legacy_REPLY_ADDR6 e fp w) = files_pid w"
  "files_setupVars (legacy_REPLY_ADDR6 e fp w) = files_setupVars w"
  "files_macvendor (legacy_REPLY_ADDR6 e fp w) = files_macvendor w"
  "files_gravity (legacy_REPLY_ADDR6 e fp w) = files_gravity w"
  "database_network_parseARPcache (legacy_REPLY_ADDR6 e fp w) = database_network_parseARPcache w"
  "dns_CNAMEdeepInspect (legacy_REPLY_ADDR6 e fp w) = dns_CNAMEdeepInspect w"
  "misc_delay_startup (legacy_REPLY_ADDR6 e fp w) = misc_delay_startup w"
  "dns_blockESNI (legacy_REPLY_ADDR6 e fp w) = dns_blockESNI w"
  "http_paths_webroot (legacy_REPLY_ADDR6 e fp w) = http_paths_webroot w"
  "http_port (legacy_REPLY_ADDR6 e fp w) = http_port w"
  "http_paths_webhome (legacy_REPLY_ADDR6 e fp w) = http_paths_webhome w"
  "http_acl (legacy_REPLY_ADDR6 e fp w) = http_acl w"
  "http_localAPIauth (legacy_REPLY_ADDR6 e fp w) = http_localAPIauth w"
  "http_sessionTimeout (legacy_REPLY_ADDR6 e fp w) = http_sessionTimeout w"
  "http_prettyJSON (legacy_REPLY_ADDR6 e fp w) = http_prettyJSON w"
  "files_ph7_error (legacy_REPLY_ADDR6 e fp w) = files_ph7_error w"
  "files_http_info (legacy_REPLY_ADDR6 e fp w) = files_http_info w"
  "database_network_expire (legacy_REPLY_ADDR6 e fp w) = database_network_expire w"
  "resolver_networkNames (legacy_REPLY_ADDR6 e fp w) = resolver_networkNames w"
  "dns_EDNS0ECS (legacy_REPLY_ADDR6 e fp w) = dns_EDNS0ECS w"
  "resolver_refreshNames (legacy_REPLY_ADDR6 e fp w) = resolver_refreshNames w"
  "http_domain (legacy_REPLY_ADDR6 e fp w) = http_domain w"
  "dns_rateLimit_count (legacy_REPLY_ADDR6 e fp w) = dns_rateLimit_count w"
  "dns_rateLimit_interval (legacy_REPLY_ADDR6 e fp w) = dns_rateLimit_interval w"
  "dns_reply_host_overwrite_v4 (legacy_REPLY_ADDR6 e fp w) = dns_reply_host_overwrite_v4 w"
  "dns_reply_host_v4 (legacy_REPLY_ADDR6 e fp w) = dns_reply_host_v4 w"
  "dns_reply_blocking_overwrite_v4 (legacy_REPLY_ADDR6 e fp w) = dns_reply_blocking_overwrite_v4 w"
  "dns_reply_blocking_v4 (legacy_REPLY_ADDR6 e fp w) = dns_reply_blocking_v4 w"
  "dns_showDNSSEC (legacy_REPLY_ADDR6 e fp w) = dns_showDNSSEC w"
  "dns_specialDomains_mozillaCanary (legacy_REPLY_ADDR6 e fp w) = dns_specialDomains_mozillaCanary w"
  "dns_piholePTR (legacy_REPLY_ADDR6 e fp w) = dns_piholePTR w"
  "misc_addr2line (legacy_REPLY_ADDR6 e fp w) = misc_addr2line w"
  "dns_replyWhenBusy (legacy_REPLY_ADDR6 e fp w) = dns_replyWhenBusy w"
  "dns_blockTTL (legacy_REPLY_ADDR6 e fp w) = dns_blockTTL w"
  "dns_specialDomains_iCloudPrivateRelay (legacy_REPLY_ADDR6 e fp w) = dns_specialDomains_iCloudPrivateRelay w"
  "misc_check_load (legacy_REPLY_ADDR6 e fp w) = misc_check_load w"
  "misc_check_shmem (legacy_REPLY_ADDR6 e fp w) = misc_check_shmem w"
  "misc_check_disk (legacy_REPLY_ADDR6 e fp w) = misc_check_disk w"
  "files_log (legacy_REPLY_ADDR6 e fp w) = files_log w"
  "debug (legacy_REPLY_ADDR6 e fp w) = debug w"
  "fclose_count (legacy_REPLY_ADDR6 e fp w) = fclose_count w"
  "argv_dnsmasq2 (legacy_REPLY_ADDR6 e fp w) = argv_dnsmasq2 w"
  by (simp_all add: legacy_REPLY_ADDR6_def Let_def log_line_def split: option.splits scan.splits prod.splits)

lemma legacy_PIHOLE_PTR_frame:
  "dns_analyzeAAAA (legacy_PIHOLE_PTR fp w) = dns_analyzeAAAA w"
  "database_maxDBdays (legacy_PIHOLE_PTR fp w) = database_maxDBdays w"
  "resolver_resolveIPv6 (legacy_PIHOLE_PTR fp w) = resolver_resolveIPv6 w"
  "resolver_resolveIPv4 (legacy_PIHOLE_PTR fp w) = resolver_resolveIPv4 w"
  "database_DBinterval (legacy_PIHOLE_PTR fp w) = database_DBinterval w"
  "files_database (legacy_PIHOLE_PTR fp w) = files_database w"
  "files_database_d (legacy_PIHOLE_PTR fp w) = files_database_d w"
  "database_maxHistory (legacy_PIHOLE_PTR fp w) = database_maxHistory w"
  "misc_privacylevel (legacy_PIHOLE_PTR fp w) = misc_privacylevel w"
  "dns_ignoreLocalhost (legacy_PIHOLE_PTR fp w) = dns_ignoreLocalhost w"
  "dns_blockingmode (legacy_PIHOLE_PTR fp w) = dns_blockingmode w"
  "dns_blockingmode_d (legacy_PIHOLE_PTR fp w) = dns_blockingmode_d w"
  "dns_analyzeOnlyAandAAAA (legacy_PIHOLE_PTR fp w) = dns_analyzeOnlyAandAAAA w"
  "database_DBimport (legacy_PIHOLE_PTR fp w) = database_DBimport w"
  "files_pid (legacy_PIHOLE_PTR fp w) = files_pid w"
  "files_setupVars (legacy_PIHOLE_PTR fp w) = files_setupVars w"
  "files_macvendor (legacy_PIHOLE_PTR fp w) = files_macvendor w"
  "files_gravity (legacy_PIHOLE_PTR fp w) = files_gravity w"
  "database_network_parseARPcache (legacy_PIHOLE_PTR fp w) = database_network_parseARPcache w"
  "dns_CNAMEdeepInspect (legacy_PIHOLE_PTR fp w) = dns_CNAMEdeepInspect w"
  "misc_delay_startup (legacy_PIHOLE_PTR fp w) = misc_delay_startup w"
  "dns_blockESNI (legacy_PIHOLE_PTR fp w) = dns_blockESNI w"
  "http_paths_webroot (legacy_PIHOLE_PTR fp w) = http_paths_webroot w"
  "http_port (legacy_PIHOLE_PTR fp w) = http_port w"
  "http_paths_webhome (legacy_PIHOLE_PTR fp w) = http_paths_webhome w"
  "http_acl (legacy_PIHOLE_PTR fp w) = http_acl w"
  "http_localAPIauth (legacy_PIHOLE_PTR fp w) = http_localAPIauth w"
  "http_sessionTimeout (legacy_PIHOLE_PTR fp w) = http_sessionTimeout w"
  "http_prettyJSON (legacy_PIHOLE_PTR fp w) = http_prettyJSON w"
  "files_ph7_error (legacy_PIHOLE_PTR fp w) = files_ph7_error w"
  "files_http_info (legacy_PIHOLE_PTR fp w) = files_http_info w"
  "database_network_expire (legacy_PIHOLE_PTR fp w) = database_network_expire w"
  "resolver_networkNames (legacy_PIHOLE_PTR fp w) = resolver_networkNames w"
  "dns_EDNS0ECS (legacy_PIHOLE_PTR fp w) = dns_EDNS0ECS w"
  "resolver_refreshNames (legacy_PIHOLE_PTR fp w) = resolver_refreshNames w"
  "http_domain (legacy_PIHOLE_PTR fp w) = http_domain w"
  "dns_rateLimit_count (legacy_PIHOLE_PTR fp w) = dns_rateLimit_count w"
  "dns_rateLimit_interval (legacy_PIHOLE_PTR fp w) = dns_rateLimit_interval w"
  "dns_reply_host_overwrite_v4 (legacy_PIHOLE_PTR fp w) = dns_reply_host_overwrite_v4 w"
  "dns_reply_host_v4 (legacy_PIHOLE_PTR fp w) = dns_reply_host_v4 w"
  "dns_reply_host_overwrite_v6 (legacy_PIHOLE_PTR fp w) = dns_reply_host_overwrite_v6 w"
  "dns_reply_host_v6 (legacy_PIHOLE_PTR fp w) = dns_reply_host_v6 w"
  "dns_reply_blocking_overwrite_v4 (legacy_PIHOLE_PTR fp w) = dns_reply_blocking_overwrite_v4 w"
  "dns_reply_blocking_v4 (legacy_PIHOLE_PTR fp w) = dns_reply_blocking_v4 w"
  "dns_reply_blocking_overwrite_v6 (legacy_PIHOLE_PTR fp w) = dns_reply_blocking_overwrite_v6 w"
  "dns_reply_blocking_v6 (legacy_PIHOLE_PTR fp w) = dns_reply_blocking_v6 w"
  "dns_showDNSSEC (legacy_PIHOLE_PTR fp w) = dns_showDNSSEC w"
  "dns_specialDomains_mozillaCanary (legacy_PIHOLE_PTR fp w) = dns_specialDomains_mozillaCanary w"
  "misc_addr2line (legacy_PIHOLE_PTR fp w) = misc_addr2line w"
  "dns_replyWhenBusy (legacy_PIHOLE_PTR fp w) = dns_replyWhenBusy w"
  "dns_blockTTL (legacy_PIHOLE_PTR fp w) = dns_blockTTL w"
  "dns_specialDomains_iCloudPrivateRelay (legacy_PIHOLE_PTR fp w) = dns_specialDomains_iCloudPrivateRelay w"
  "misc_check_load (legacy_PIHOLE_PTR fp w) = misc_check_load w"
  "misc_check_shmem (legacy_PIHOLE_PTR fp w) = misc_check_shmem w"
  "misc_check_disk (legacy_PIHOLE_PTR fp w) = misc_check_disk w"
  "files_log (legacy_PIHOLE_PTR fp w) = files_log w"
  "debug (legacy_PIHOLE_PTR fp w) = debug w"
  "log_out (legacy_PIHOLE_PTR fp w) = log_out w"
  "fclose_count (legacy_PIHOLE_PTR fp w) = fclose_count w"
  "argv_dnsmasq2 (legacy_PIHOLE_PTR fp w) = argv_dnsmasq2 w"
  by (simp_all add: legacy_PIHOLE_PTR_def split: option.splits scan.splits prod.splits)

lemma legacy_REPLY_WHEN_BUSY_frame:
  "dns_analyzeAAAA (legacy_REPLY_WHEN_BUSY fp w) = dns_analyzeAAAA w"
  "database_maxDBdays (legacy_REPLY_WHEN_BUSY fp w) = database_maxDBdays w"
  "resolver_resolveIPv6 (legacy_REPLY_WHEN_BUSY fp w) = resolver_resolveIPv6 w"
  "resolver_resolveIPv4 (legacy_REPLY_WHEN_BUSY fp w) = resolver_resolveIPv4 w"
  "database_DBinterval (legacy_REPLY_WHEN_BUSY fp w) = database_DBinterval w"
  "files_database (legacy_REPLY_WHEN_BUSY fp w) = files_database w"
  "files_database_d (legacy_REPLY_WHEN_BUSY fp w) = files_database_d w"
  "database_maxHistory (legacy_REPLY_WHEN_BUSY fp w) = database_maxHistory w"
  "misc_privacylevel (legacy_REPLY_WHEN_BUSY fp w) = misc_privacylevel w"
  "dns_ignoreLocalhost (legacy_REPLY_WHEN_BUSY fp w) = dns_ignoreLocalhost w"
  "dns_blockingmode (legacy_REPLY_WHEN_BUSY fp w) = dns_blockingmode w"
  "dns_blockingmode_d (legacy_REPLY_WHEN_BUSY fp w) = dns_blockingmode_d w"
  "dns_analyzeOnlyAandAAAA (legacy_REPLY_WHEN_BUSY fp w) = dns_analyzeOnlyAandAAAA w"
  "database_DBimport (legacy_REPLY_WHEN_BUSY fp w) = database_DBimport w"
  "files_pid (legacy_REPLY_WHEN_BUSY fp w) = files_pid w"
  "files_setupVars (legacy_REPLY_WHEN_BUSY fp w) = files_setupVars w"
  "files_macvendor (legacy_REPLY_WHEN_BUSY fp w) = files_macvendor w"
  "files_gravity (legacy_REPLY_WHEN_BUSY fp w) = files_gravity w"
  "database_network_parseARPcache (legacy_REPLY_WHEN_BUSY fp w) = database_network_parseARPcache w"
  "dns_CNAMEdeepInspect (legacy_REPLY_WHEN_BUSY fp w) = dns_CNAMEdeepInspect w"
  "misc_delay_startup (legacy_REPLY_WHEN_BUSY fp w) = misc_delay_startup w"
  "dns_blockESNI (legacy_REPLY_WHEN_BUSY fp w) = dns_blockESNI w"
  "http_paths_webroot (legacy_REPLY_WHEN_BUSY fp w) = http_paths_webroot w"
  "http_port (legacy_REPLY_WHEN_BUSY fp w) = http_port w"
  "http_paths_webhome (legacy_REPLY_WHEN_BUSY fp w) = http_paths_webhome w"
  "http_acl (legacy_REPLY_WHEN_BUSY fp w) = http_acl w"
  "http_localAPIauth (legacy_REPLY_WHEN_BUSY fp w) = http_localAPIauth w"
  "http_sessionTimeout (legacy_REPLY_WHEN_BUSY fp w) = http_sessionTimeout w"
  "http_prettyJSON (legacy_REPLY_WHEN_BUSY fp w) = http_prettyJSON w"
  "files_ph7_error (legacy_REPLY_WHEN_BUSY fp w) = files_ph7_error w"
  "files_http_info (legacy_REPLY_WHEN_BUSY fp w) = files_http_info w"
  "database_network_expire (legacy_REPLY_WHEN_BUSY fp w) = database_network_expire w"
  "resolver_networkNames (legacy_REPLY_WHEN_BUSY fp w) = resolver_networkNames w"
  "dns_EDNS0ECS (legacy_REPLY_WHEN_BUSY fp w) = dns_EDNS0ECS w"
  "resolver_refreshNames (legacy_REPLY_WHEN_BUSY fp w) = resolver_refreshNames w"
  "http_domain (legacy_REPLY_WHEN_BUSY fp w) = http_domain w"
  "dns_rateLimit_count (legacy_REPLY_WHEN_BUSY fp w) = dns_rateLimit_count w"
  "dns_rateLimit_interval (legacy_REPLY_WHEN_BUSY fp w) = dns_rateLimit_interval w"
  "dns_reply_host_overwrite_v4 (legacy_REPLY_WHEN_BUSY fp w) = dns_reply_host_overwrite_v4 w"
  "dns_reply_host_v4 (legacy_REPLY_WHEN_BUSY fp w) = dns_reply_host_v4 w"
  "dns_reply_host_overwrite_v6 (legacy_REPLY_WHEN_BUSY fp w) = dns_reply_host_overwrite_v6 w"
  "dns_reply_host_v6 (legacy_REPLY_WHEN_BUSY fp w) = dns_reply_host_v6 w"
  "dns_reply_blocking_overwrite_v4 (legacy_REPLY_WHEN_BUSY fp w) = dns_reply_blocking_overwrite_v4 w"
  "dns_reply_blocking_v4 (legacy_REPLY_WHEN_BUSY fp w) = dns_reply_blocking_v4 w"
  "dns_reply_blocking_overwrite_v6 (legacy_REPLY_WHEN_BUSY fp w) = dns_reply_blocking_overwrite_v6 w"
  "dns_reply_blocking_v6 (legacy_REPLY_WHEN_BUSY fp w) = dns_reply_blocking_v6 w"
  "dns_showDNSSEC (legacy_REPLY_WHEN_BUSY fp w) = dns_showDNSSEC w"
  "dns_specialDomains_mozillaCanary (legacy_REPLY_WHEN_BUSY fp w) = dns_specialDomains_mozillaCanary w"
  "dns_piholePTR (legacy_REPLY_WHEN_BUSY fp w) = dns_piholePTR w"
  "misc_addr2line (legacy_REPLY_WHEN_BUSY fp w) = misc_addr2line w"
  "dns_blockTTL (legacy_REPLY_WHEN_BUSY fp w) = dns_blockTTL w"
  "dns_specialDomains_iCloudPrivateRelay (legacy_REPLY_WHEN_BUSY fp w) = dns_specialDomains_iCloudPrivateRelay w"
  "misc_check_load (legacy_REPLY_WHEN_BUSY fp w) = misc_check_load w"
  "misc_check_shmem (legacy_REPLY_WHEN_BUSY fp w) = misc_check_shmem w"
  "misc_check_disk (legacy_REPLY_WHEN_BUSY fp w) = misc_check_disk w"
  "files_log (legacy_REPLY_WHEN_BUSY fp w) = files_log w"
  "debug (legacy_REPLY_WHEN_BUSY fp w) = debug w"
  "log_out (legacy_REPLY_WHEN_BUSY fp w) = log_out w"
  "fclose_count (legacy_REPLY_WHEN_BUSY fp w) = fclose_count w"
  "argv_dnsmasq2 (legacy_REPLY_WHEN_BUSY fp w) = argv_dnsmasq2 w"
  by (simp_all add: legacy_REPLY_WHEN_BUSY_def split: option.splits scan.splits prod.splits)

lemma legacy_BLOCK_TTL_frame:
  "dns_analyzeAAAA (legacy_BLOCK_TTL fp w) = dns_analyzeAAAA w"
  "database_maxDBdays (legacy_BLOCK_TTL fp w) = database_maxDBdays w"
  "resolver_resolveIPv6 (legacy_BLOCK_TTL fp w) = resolver_resolveIPv6 w"
  "resolver_resolveIPv4 (legacy_BLOCK_TTL fp w) = resolver_resolveIPv4 w"
  "database_DBinterval (legacy_BLOCK_TTL fp w) = database_DBinterval w"
  "files_database (legacy_BLOCK_TTL fp w) = files_database w"
  "files_database_d (legacy_BLOCK_TTL fp w) = files_database_d w"
  "database_maxHistory (legacy_BLOCK_TTL fp w) = database_maxHistory w"
  "misc_privacylevel (legacy_BLOCK_TTL fp w) = misc_privacylevel w"
  "dns_ignoreLocalhost (legacy_BLOCK_TTL fp w) = dns_ignoreLocalhost w"
  "dns_blockingmode (legacy_BLOCK_TTL fp w) = dns_blockingmode w"
  "dns_blockingmode_d (legacy_BLOCK_TTL fp w) = dns_blockingmode_d w"
  "dns_analyzeOnlyAandAAAA (legacy_BLOCK_TTL fp w) = dns_analyzeOnlyAandAAAA w"
  "database_DBimport (legacy_BLOCK_TTL fp w) = database_DBimport w"
  "files_pid (legacy_BLOCK_TTL fp w) = files_pid w"
  "files_setupVars (legacy_BLOCK_TTL fp w) = files_setupVars w"
  "files_macvendor (legacy_BLOCK_TTL fp w) = files_macvendor w"
  "files_gravity (legacy_BLOCK_TTL fp w) = files_gravity w"
  "database_network_parseARPcache (legacy_BLOCK_TTL fp w) = database_network_parseARPcache w"
  "dns_CNAMEdeepInspect (legacy_BLOCK_TTL fp w) = dns_CNAMEdeepInspect w"
  "misc_delay_startup (legacy_BLOCK_TTL fp w) = misc_delay_startup w"
  "dns_blockESNI (legacy_BLOCK_TTL fp w) = dns_blockESNI w"
  "http_paths_webroot (legacy_BLOCK_TTL fp w) = http_paths_webroot w"
  "http_port (legacy_BLOCK_TTL fp w) = http_port w"
  "http_paths_webhome (legacy_BLOCK_TTL fp w) = http_paths_webhome w"
  "http_acl (legacy_BLOCK_TTL fp w) = http_acl w"
  "http_localAPIauth (legacy_BLOCK_TTL fp w) = http_localAPIauth w"
  "http_sessionTimeout (legacy_BLOCK_TTL fp w) = http_sessionTimeout w"
  "http_prettyJSON (legacy_BLOCK_TTL fp w) = http_prettyJSON w"
  "files_ph7_error (legacy_BLOCK_TTL fp w) = files_ph7_error w"
  "files_http_info (legacy_BLOCK_TTL fp w) = files_http_info w"
  "database_network_expire (legacy_BLOCK_TTL fp w) = database_network_expire w"
  "resolver_networkNames (legacy_BLOCK_TTL fp w) = resolver_networkNames w"
  "dns_EDNS0ECS (legacy_BLOCK_TTL fp w) = dns_EDNS0ECS w"
  "resolver_refreshNames (legacy_BLOCK_TTL fp w) = resolver_refreshNames w"
  "http_domain (legacy_BLOCK_TTL fp w) = http_domain w"
  "dns_rateLimit_count (legacy_BLOCK_TTL fp w) = dns_rateLimit_count w"
  "dns_rateLimit_interval (legacy_BLOCK_TTL fp w) = dns_rateLimit_interval w"
  "dns_reply_host_overwrite_v4 (legacy_BLOCK_TTL fp w) = dns_reply_host_overwrite_v4 w"
  "dns_reply_host_v4 (legacy_BLOCK_TTL fp w) = dns_reply_host_v4 w"
  "dns_reply_host_overwrite_v6 (legacy_BLOCK_TTL fp w) = dns_reply_host_overwrite_v6 w"
  "dns_reply_host_v6 (legacy_BLOCK_TTL fp w) = dns_reply_host_v6 w"
  "dns_reply_blocking_overwrite_v4 (legacy_BLOCK_TTL fp w) = dns_reply_blocking_overwrite_v4 w"
  "dns_reply_blocking_v4 (legacy_BLOCK_TTL fp w) = dns_reply_blocking_v4 w"
  "dns_reply_blocking_overwrite_v6 (legacy_BLOCK_TTL fp w) = dns_reply_blocking_overwrite_v6 w"
  "dns_reply_blocking_v6 (legacy_BLOCK_TTL fp w) = dns_reply_blocking_v6 w"
  "dns_showDNSSEC (legacy_BLOCK_TTL fp w) = dns_showDNSSEC w"
  "dns_specialDomains_mozillaCanary (legacy_BLOCK_TTL fp w) = dns_specialDomains_mozillaCanary w"
  "dns_piholePTR (legacy_BLOCK_TTL fp w) = dns_piholePTR w"
  "misc_addr2line (legacy_BLOCK_TTL fp w) = misc_addr2line w"
  "dns_replyWhenBusy (legacy_BLOCK_TTL fp w) = dns_replyWhenBusy w"
  "dns_specialDomains_iCloudPrivateRelay (legacy_BLOCK_TTL fp w) = dns_specialDomains_iCloudPrivateRelay w"
  "misc_check_load (legacy_BLOCK_TTL fp w) = misc_check_load w"
  "misc_check_shmem (legacy_BLOCK_TTL fp w) = misc_check_shmem w"
  "misc_check_disk (legacy_BLOCK_TTL fp w) = misc_check_disk w"
  "files_log (legacy_BLOCK_TTL fp w) = files_log w"
  "debug (legacy_BLOCK_TTL fp w) = debug w"
  "log_out (legacy_BLOCK_TTL fp w) = log_out w"
  "fclose_count (legacy_BLOCK_TTL fp w) = fclose_count w"
  "argv_dnsmasq2 (legacy_BLOCK_TTL fp w) = argv_dnsmasq2 w"
  by (simp_all add: legacy_BLOCK_TTL_def Let_def split: option.splits scan.splits prod.splits)

lemma legacy_CHECK_SHMEM_frame:
  "dns_analyzeAAAA (snd (legacy_CHECK_SHMEM fp ivalue w)) = dns_analyzeAAAA w"
  "database_maxDBdays (snd (legacy_CHECK_SHMEM fp ivalue w)) = database_maxDBdays w"
  "resolver_resolveIPv6 (snd (legacy_CHECK_SHMEM fp ivalue w)) = resolver_resolveIPv6 w"
  "resolver_resolveIPv4 (snd (legacy_CHECK_SHMEM fp ivalue w)) = resolver_resolveIPv4 w"
  "database_DBinterval (snd (legacy_CHECK_SHMEM fp ivalue w)) = database_DBinterval w"
  "files_database (snd (legacy_CHECK_SHMEM fp ivalue w)) = files_database w"
  "files_database_d (snd (legacy_CHECK_SHMEM fp ivalue w)) = files_database_d w"
  "database_maxHistory (snd (legacy_CHECK_SHMEM fp ivalue w)) = database_maxHistory w"
  "misc_privacylevel (snd (legacy_CHECK_SHMEM fp ivalue w)) = misc_privacylevel w"
  "dns_ignoreLocalhost (snd (legacy_CHECK_SHMEM fp ivalue w)) = dns_ignoreLocalhost w"
  "dns_blockingmode (snd (legacy_CHECK_SHMEM fp ivalue w)) = dns_blockingmode w"
  "dns_blockingmode_d (snd (legacy_CHECK_SHMEM fp ivalue w)) = dns_blockingmode_d w"
  "dns_analyzeOnlyAandAAAA (snd (legacy_CHECK_SHMEM fp ivalue w)) = dns_analyzeOnlyAandAAAA w"
  "database_DBimport (snd (legacy_CHECK_SHMEM fp ivalue w)) = database_DBimport w"
  "files_pid (snd (legacy_CHECK_SHMEM fp ivalue w)) = files_pid w"
  "files_setupVars (snd (legacy_CHECK_SHMEM fp ivalue w)) = files_setupVars w"
  "files_macvendor (snd (legacy_CHECK_SHMEM fp ivalue w)) = files_macvendor w"
  "files_gravity (snd (legacy_CHECK_SHMEM fp ivalue w)) = files_gravity w"
  "database_network_parseARPcache (snd (legacy_CHECK_SHMEM fp ivalue w)) = database_network_parseARPcache w"
  "dns_CNAMEdeepInspect (snd (legacy_CHECK_SHMEM fp ivalue w)) = dns_CNAMEdeepInspect w"
  "misc_delay_startup (snd (legacy_CHECK_SHMEM fp ivalue w)) = misc_delay_startup w"
  "dns_blockESNI (snd (legacy_CHECK_SHMEM fp ivalue w)) = dns_blockESNI w"
  "http_paths_webroot (snd (legacy_CHECK_SHMEM fp ivalue w)) = http_paths_webroot w"
  "http_port (snd (legacy_CHECK_SHMEM fp ivalue w)) = http_port w"
  "http_paths_webhome (snd (legacy_CHECK_SHMEM fp ivalue w)) = http_paths_webhome w"
  "http_acl (snd (legacy_CHECK_SHMEM fp ivalue w)) = http_acl w"
  "http_localAPIauth (snd (legacy_CHECK_SHMEM fp ivalue w)) = http_localAPIauth w"
  "http_sessionTimeout (snd (legacy_CHECK_SHMEM fp ivalue w)) = http_sessionTimeout w"
  "http_prettyJSON (snd (legacy_CHECK_SHMEM fp ivalue w)) = http_prettyJSON w"
  "files_ph7_error (snd (legacy_CHECK_SHMEM fp ivalue w)) = files_ph7_error w"
  "files_http_info (snd (legacy_CHECK_SHMEM fp ivalue w)) = files_http_info w"
  "database_network_expire (snd (legacy_CHECK_SHMEM fp ivalue w)) = database_network_expire w"
  "resolver_networkNames (snd (legacy_CHECK_SHMEM fp ivalue w)) = resolver_networkNames w"
  "dns_EDNS0ECS (snd (legacy_CHECK_SHMEM fp ivalue w)) = dns_EDNS0ECS w"
  "resolver_refreshNames (snd (legacy_CHECK_SHMEM fp ivalue w)) = resolver_refreshNames w"
  "http_domain (snd (legacy_CHECK_SHMEM fp ivalue w)) = http_domain w"
  "dns_rateLimit_count (snd (legacy_CHECK_SHMEM fp ivalue w)) = dns_rateLimit_count w"
  "dns_rateLimit_interval (snd (legacy_CHECK_SHMEM fp ivalue w)) = dns_rateLimit_interval w"
  "dns_reply_host_overwrite_v4 (snd (legacy_CHECK_SHMEM fp ivalue w)) = dns_reply_host_overwrite_v4 w"
  "dns_reply_host_v4 (snd (legacy_CHECK_SHMEM fp ivalue w)) = dns_reply_host_v4 w"
  "dns_reply_host_overwrite_v6 (snd (legacy_CHECK_SHMEM fp ivalue w)) = dns_reply_host_overwrite_v6 w"
  "dns_reply_host_v6 (snd (legacy_CHECK_SHMEM fp ivalue w)) = dns_reply_host_v6 w"
  "dns_reply_blocking_overwrite_v4 (snd (legacy_CHECK_SHMEM fp ivalue w)) = dns_reply_blocking_overwrite_v4 w"
  "dns_reply_blocking_v4 (snd (legacy_CHECK_SHMEM fp ivalue w)) = dns_reply_blocking_v4 w"
  "dns_reply_blocking_overwrite_v6 (snd (legacy_CHECK_SHMEM fp ivalue w)) = dns_reply_blocking_overwrite_v6 w"
  "dns_reply_blocking_v6 (snd (legacy_CHECK_SHMEM fp ivalue w)) = dns_reply_blocking_v6 w"
  "dns_showDNSSEC (snd (legacy_CHECK_SHMEM fp ivalue w)) = dns_showDNSSEC w"
  "dns_specialDomains_mozillaCanary (snd (legacy_CHECK_SHMEM fp ivalue w)) = dns_specialDomains_mozillaCanary w"
  "dns_piholePTR (snd (legacy_CHECK_SHMEM fp ivalue w)) = dns_piholePTR w"
  "misc_addr2line (snd (legacy_CHECK_SHMEM fp ivalue w)) = misc_addr2line w"
  "dns_replyWhenBusy (snd (legacy_CHECK_SHMEM fp ivalue w)) = dns_replyWhenBusy w"
  "dns_blockTTL (snd (legacy_CHECK_SHMEM fp ivalue w)) = dns_blockTTL w"
  "dns_specialDomains_iCloudPrivateRelay (snd (legacy_CHECK_SHMEM fp ivalue w)) = dns_specialDomains_iCloudPrivateRelay w"
  "misc_check_load (snd (legacy_CHECK_SHMEM fp ivalue w)) = misc_check_load w"
  "misc_check_disk (snd (legacy_CHECK_SHMEM fp ivalue w)) = misc_check_disk w"
  "files_log (snd (legacy_CHECK_SHMEM fp ivalue w)) = files_log w"
  "debug (snd (legacy_CHECK_SHMEM fp ivalue w)) = debug w"
  "log_out (snd (legacy_CHECK_SHMEM fp ivalue w)) = log_out w"
  "fclose_count (snd (legacy_CHECK_SHMEM fp ivalue w)) = fclose_count w"
  "argv_dnsmasq2 (snd (legacy_CHECK_SHMEM fp ivalue w)) = argv_dnsmasq2 w"
  by (simp_all add: legacy_CHECK_SHMEM_def Let_def split: option.splits scan.splits prod.splits)

lemma legacy_CHECK_DISK_frame:
  "dns_analyzeAAAA (legacy_CHECK_DISK fp ivalue w) = dns_analyzeAAAA w"
  "database_maxDBdays (legacy_CHECK_DISK fp ivalue w) = database_maxDBdays w"
  "resolver_resolveIPv6 (legacy_CHECK_DISK fp ivalue w) = resolver_resolveIPv6 w"
  "resolver_resolveIPv4 (legacy_CHECK_DISK fp ivalue w) = resolver_resolveIPv4 w"
  "database_DBinterval (legacy_CHECK_DISK fp ivalue w) = database_DBinterval w"
  "files_database (legacy_CHECK_DISK fp ivalue w) = files_database w"
  "files_database_d (legacy_CHECK_DISK fp ivalue w) = files_database_d w"
  "database_maxHistory (legacy_CHECK_DISK fp ivalue w) = database_maxHistory w"
  "misc_privacylevel (legacy_CHECK_DISK fp ivalue w) = misc_privacylevel w"
  "dns_ignoreLocalhost (legacy_CHECK_DISK fp ivalue w) = dns_ignoreLocalhost w"
  "dns_blockingmode (legacy_CHECK_DISK fp ivalue w) = dns_blockingmode w"
  "dns_blockingmode_d (legacy_CHECK_DISK fp ivalue w) = dns_blockingmode_d w"
  "dns_analyzeOnlyAandAAAA (legacy_CHECK_DISK fp ivalue w) = dns_analyzeOnlyAandAAAA w"
  "database_DBimport (legacy_CHECK_DISK fp ivalue w) = database_DBimport w"
  "files_pid (legacy_CHECK_DISK fp ivalue w) = files_pid w"
  "files_setupVars (legacy_CHECK_DISK fp ivalue w) = files_setupVars w"
  "files_macvendor (legacy_CHECK_DISK fp ivalue w) = files_macvendor w"
  "files_gravity (legacy_CHECK_DISK fp ivalue w) = files_gravity w"
  "database_network_parseARPcache (legacy_CHECK_DISK fp ivalue w) = database_network_parseARPcache w"
  "dns_CNAMEdeepInspect (legacy_CHECK_DISK fp ivalue w) = dns_CNAMEdeepInspect w"
  "misc_delay_startup (legacy_CHECK_DISK fp ivalue w) = misc_delay_startup w"
  "dns_blockESNI (legacy_CHECK_DISK fp ivalue w) = dns_blockESNI w"
  "http_paths_webroot (legacy_CHECK_DISK fp ivalue w) = http_paths_webroot w"
  "http_port (legacy_CHECK_DISK fp ivalue w) = http_port w"
  "http_paths_webhome (legacy_CHECK_DISK fp ivalue w) = http_paths_webhome w"
  "http_acl (legacy_CHECK_DISK fp ivalue w) = http_acl w"
  "http_localAPIauth (legacy_CHECK_DISK fp ivalue w) = http_localAPIauth w"
  "http_sessionTimeout (legacy_CHECK_DISK fp ivalue w) = http_sessionTimeout w"
  "http_prettyJSON (legacy_CHECK_DISK fp ivalue w) = http_prettyJSON w"
  "files_ph7_error (legacy_CHECK_DISK fp ivalue w) = files_ph7_error w"
  "files_http_info (legacy_CHECK_DISK fp ivalue w) = files_http_info w"
  "database_network_expire (legacy_CHECK_DISK fp ivalue w) = database_network_expire w"
  "resolver_networkNames (legacy_CHECK_DISK fp ivalue w) = resolver_networkNames w"
  "dns_EDNS0ECS (legacy_CHECK_DISK fp ivalue w) = dns_EDNS0ECS w"
  "resolver_refreshNames (legacy_CHECK_DISK fp ivalue w) = resolver_refreshNames w"
  "http_domain (legacy_CHECK_DISK fp ivalue w) = http_domain w"
  "dns_rateLimit_count (legacy_CHECK_DISK fp ivalue w) = dns_rateLimit_count w"
  "dns_rateLimit_interval (legacy_CHECK_DISK fp ivalue w) = dns_rateLimit_interval w"
  "dns_reply_host_overwrite_v4 (legacy_CHECK_DISK fp ivalue w) = dns_reply_host_overwrite_v4 w"
  "dns_reply_host_v4 (legacy_CHECK_DISK fp ivalue w) = dns_reply_host_v4 w"
  "dns_reply_host_overwrite_v6 (legacy_CHECK_DISK fp ivalue w) = dns_reply_host_overwrite_v6 w"
  "dns_reply_host_v6 (legacy_CHECK_DISK fp ivalue w) = dns_reply_host_v6 w"
  "dns_reply_blocking_overwrite_v4 (legacy_CHECK_DISK fp ivalue w) = dns_reply_blocking_overwrite_v4 w"
  "dns_reply_blocking_v4 (legacy_CHECK_DISK fp ivalue w) = dns_reply_blocking_v4 w"
  "dns_reply_blocking_overwrite_v6 (legacy_CHECK_DISK fp ivalue w) = dns_reply_blocking_overwrite_v6 w"
  "dns_reply_blocking_v6 (legacy_CHECK_DISK fp ivalue w) = dns_reply_blocking_v6 w"
  "dns_showDNSSEC (legacy_CHECK_DISK fp ivalue w) = dns_showDNSSEC w"
  "dns_specialDomains_mozillaCanary (legacy_CHECK_DISK fp ivalue w) = dns_specialDomains_mozillaCanary w"
  "dns_piholePTR (legacy_CHECK_DISK fp ivalue w) = dns_piholePTR w"
  "misc_addr2line (legacy_CHECK_DISK fp ivalue w) = misc_addr2line w"
  "dns_replyWhenBusy (legacy_CHECK_DISK fp ivalue w) = dns_replyWhenBusy w"
  "dns_blockTTL (legacy_CHECK_DISK fp ivalue w) = dns_blockTTL w"
  "dns_specialDomains_iCloudPrivateRelay (legacy_CHECK_DISK fp ivalue w) = dns_specialDomains_iCloudPrivateRelay w"
  "misc_check_load (legacy_CHECK_DISK fp ivalue w) = misc_check_load w"
  "misc_check_shmem (legacy_CHECK_DISK fp ivalue w) = misc_check_shmem w"
  "files_log (legacy_CHECK_DISK fp ivalue w) = files_log w"
  "debug (legacy_CHECK_DISK fp ivalue w) = debug w"
  "log_out (legacy_CHECK_DISK fp ivalue w) = log_out w"
  "fclose_count (legacy_CHECK_DISK fp ivalue w) = fclose_count w"
  "argv_dnsmasq2 (legacy_CHECK_DISK fp ivalue w) = argv_dnsmasq2 w"
  by (simp_all add: legacy_CHECK_DISK_def Let_def split: option.splits scan.splits prod.splits)

lemma setDebugOption_frame:
  "dns_analyzeAAAA (setDebugOption fp option w) = dns_analyzeAAAA w"
  "database_maxDBdays (setDebugOption fp option w) = database_maxDBdays w"
  "resolver_resolveIPv6 (setDebugOption fp option w) = resolver_resolveIPv6 w"
  "resolver_resolveIPv4 (setDebugOption fp option w) = resolver_resolveIPv4 w"
  "database_DBinterval (setDebugOption fp option w) = database_DBinterval w"
  "files_database (setDebugOption fp option w) = files_database w"
  "files_database_d (setDebugOption fp option w) = files_database_d w"
  "database_maxHistory (setDebugOption fp option w) = database_maxHistory w"
  "misc_privacylevel (setDebugOption fp option w) = misc_privacylevel w"
  "dns_ignoreLocalhost (setDebugOption fp option w) = dns_ignoreLocalhost w"
  "dns_blockingmode (setDebugOption fp option w) = dns_blockingmode w"
  "dns_blockingmode_d (setDebugOption fp option w) = dns_blockingmode_d w"
  "dns_analyzeOnlyAandAAAA (setDebugOption fp option w) = dns_analyzeOnlyAandAAAA w"
  "database_DBimport (setDebugOption fp option w) = database_DBimport w"
  "files_pid (setDebugOption fp option w) = files_pid w"
  "files_setupVars (setDebugOption fp option w) = files_setupVars w"
  "files_macvendor (setDebugOption fp option w) = files_macvendor w"
  "files_gravity (setDebugOption fp option w) = files_gravity w"
  "database_network_parseARPcache (setDebugOption fp option w) = database_network_parseARPcache w"
  "dns_CNAMEdeepInspect (setDebugOption fp option w) = dns_CNAMEdeepInspect w"
  "misc_delay_startup (setDebugOption fp option w) = misc_delay_startup w"
  "dns_blockESNI (setDebugOption fp option w) = dns_blockESNI w"
  "http_paths_webroot (setDebugOption fp option w) = http_paths_webroot w"
  "http_port (setDebugOption fp option w) = http_port w"
  "http_paths_webhome (setDebugOption fp option w) = http_paths_webhome w"
  "http_acl (setDebugOption fp option w) = http_acl w"
  "http_localAPIauth (setDebugOption fp option w) = http_localAPIauth w"
  "http_sessionTimeout (setDebugOption fp option w) = http_sessionTimeout w"
  "http_prettyJSON (setDebugOption fp option w) = http_prettyJSON w"
  "files_ph7_error (setDebugOption fp option w) = files_ph7_error w"
  "files_http_info (setDebugOption fp option w) = files_http_info w"
  "database_network_expire (setDebugOption fp option w) = database_network_expire w"
  "resolver_networkNames (setDebugOption fp option w) = resolver_networkNames w"
  "dns_EDNS0ECS (setDebugOption fp option w) = dns_EDNS0ECS w"
  "resolver_refreshNames (setDebugOption fp option w) = resolver_refreshNames w"
  "http_domain (setDebugOption fp option w) = http_domain w"
  "dns_rateLimit_count (setDebugOption fp option w) = dns_rateLimit_count w"
  "dns_rateLimit_interval (setDebugOption fp option w) = dns_rateLimit_interval w"
  "dns_reply_host_overwrite_v4 (setDebugOption fp option w) = dns_reply_host_overwrite_v4 w"
  "dns_reply_host_v4 (setDebugOption fp option w) = dns_reply_host_v4 w"
  "dns_reply_host_overwrite_v6 (setDebugOption fp option w) = dns_reply_host_overwrite_v6 w"
  "dns_reply_host_v6 (setDebugOption fp option w) = dns_reply_host_v6 w"
  "dns_reply_blocking_overwrite_v4 (setDebugOption fp option w) = dns_reply_blocking_overwrite_v4 w"
  "dns_reply_blocking_v4 (setDebugOption fp option w) = dns_reply_blocking_v4 w"
  "dns_reply_blocking_overwrite_v6 (setDebugOption fp option w) = dns_reply_blocking_overwrite_v6 w"
  "dns_reply_blocking_v6 (setDebugOption fp option w) = dns_reply_blocking_v6 w"
  "dns_showDNSSEC (setDebugOption fp option w) = dns_showDNSSEC w"
  "dns_specialDomains_mozillaCanary (setDebugOption fp option w) = dns_specialDomains_mozillaCanary w"
  "dns_piholePTR (setDebugOption fp option w) = dns_piholePTR w"
  "misc_addr2line (setDebugOption fp option w) = misc_addr2line w"
  "dns_replyWhenBusy (setDebugOption fp option w) = dns_replyWhenBusy w"
  "dns_blockTTL (setDebugOption fp option w) = dns_blockTTL w"
  "dns_specialDomains_iCloudPrivateRelay (setDebugOption fp option w) = dns_specialDomains_iCloudPrivateRelay w"
  "misc_check_load (setDebugOption fp option w) = misc_check_load w"
  "misc_check_shmem (setDebugOption fp option w) = misc_check_shmem w"
  "misc_check_disk (setDebugOption fp option w) = misc_check_disk w"
  "files_log (setDebugOption fp option w) = files_log w"
  "log_out (setDebugOption fp option w) = log_out w"
  "fclose_count (setDebugOption fp option w) = fclose_count w"
  "argv_dnsmasq2 (setDebugOption fp option w) = argv_dnsmasq2 w"
  by (simp_all add: setDebugOption_def split: option.splits scan.splits prod.splits)

lemma fold_setDebugOption_frame:
  "dns_analyzeAAAA (fold (setDebugOption fp) names w) = dns_analyzeAAAA w"
  "database_maxDBdays (fold (setDebugOption fp) names w) = database_maxDBdays w"
  "resolver_resolveIPv6 (fold (setDebugOption fp) names w) = resolver_resolveIPv6 w"
  "resolver_resolveIPv4 (fold (setDebugOption fp) names w) = resolver_resolveIPv4 w"
  "database_DBinterval (fold (setDebugOption fp) names w) = database_DBinterval w"
  "files_database (fold (setDebugOption fp) names w) = files_database w"
  "files_database_d (fold (setDebugOption fp) names w) = files_database_d w"
  "database_maxHistory (fold (setDebugOption fp) names w) = database_maxHistory w"
  "misc_privacylevel (fold (setDebugOption fp) names w) = misc_privacylevel w"
  "dns_ignoreLocalhost (fold (setDebugOption fp) names w) = dns_ignoreLocalhost w"
  "dns_blockingmode (fold (setDebugOption fp) names w) = dns_blockingmode w"
  "dns_blockingmode_d (fold (setDebugOption fp) names w) = dns_blockingmode_d w"
  "dns_analyzeOnlyAandAAAA (fold (setDebugOption fp) names w) = dns_analyzeOnlyAandAAAA w"
  "database_DBimport (fold (setDebugOption fp) names w) = database_DBimport w"
  "files_pid (fold (setDebugOption fp) names w) = files_pid w"
  "files_setupVars (fold (setDebugOption fp) names w) = files_setupVars w"
  "files_macvendor (fold (setDebugOption fp) names w) = files_macvendor w"
  "files_gravity (fold (setDebugOption fp) names w) = files_gravity w"
  "database_network_parseARPcache (fold (setDebugOption fp) names w) = database_network_parseARPcache w"
  "dns_CNAMEdeepInspect (fold (setDebugOption fp) names w) = dns_CNAMEdeepInspect w"
  "misc_delay_startup (fold (setDebugOption fp) names w) = misc_delay_startup w"
  "dns_blockESNI (fold (setDebugOption fp) names w) = dns_blockESNI w"
  "http_paths_webroot (fold (setDebugOption fp) names w) = http_paths_webroot w"
  "http_port (fold (setDebugOption fp) names w) = http_port w"
  "http_paths_webhome (fold (setDebugOption fp) names w) = http_paths_webhome w"
  "http_acl (fold (setDebugOption fp) names w) = http_acl w"
  "http_localAPIauth (fold (setDebugOption fp) names w) = http_localAPIauth w"
  "http_sessionTimeout (fold (setDebugOption fp) names w) = http_sessionTimeout w"
  "http_prettyJSON (fold (setDebugOption fp) names w) = http_prettyJSON w"
  "files_ph7_error (fold (setDebugOption fp) names w) = files_ph7_error w"
  "files_http_info (fold (setDebugOption fp) names w) = files_http_info w"
  "database_network_expire (fold (setDebugOption fp) names w) = database_network_expire w"
  "resolver_networkNames (fold (setDebugOption fp) names w) = resolver_networkNames w"
  "dns_EDNS0ECS (fold (setDebugOption fp) names w) = dns_EDNS0ECS w"
  "resolver_refreshNames (fold (setDebugOption fp) names w) = resolver_refreshNames w"
  "http_domain (fold (setDebugOption fp) names w) = http_domain w"
  "dns_rateLimit_count (fold (setDebugOption fp) names w) = dns_rateLimit_count w"
  "dns_rateLimit_interval (fold (setDebugOption fp) names w) = dns_rateLimit_interval w"
  "dns_reply_host_overwrite_v4 (fold (setDebugOption fp) names w) = dns_reply_host_overwrite_v4 w"
  "dns_reply_host_v4 (fold (setDebugOption fp) names w) = dns_reply_host_v4 w"
  "dns_reply_host_overwrite_v6 (fold (setDebugOption fp) names w) = dns_reply_host_overwrite_v6 w"
  "dns_reply_host_v6 (fold (setDebugOption fp) names w) = dns_reply_host_v6 w"
  "dns_reply_blocking_overwrite_v4 (fold (setDebugOption fp) names w) = dns_reply_blocking_overwrite_v4 w"
  "dns_reply_blocking_v4 (fold (setDebugOption fp) names w) = dns_reply_blocking_v4 w"
  "dns_reply_blocking_overwrite_v6 (fold (setDebugOption fp) names w) = dns_reply_blocking_overwrite_v6 w"
  "dns_reply_blocking_v6 (fold (setDebugOption fp) names w) = dns_reply_blocking_v6 w"
  "dns_showDNSSEC (fold (setDebugOption fp) names w) = dns_showDNSSEC w"
  "dns_specialDomains_mozillaCanary (fold (setDebugOption fp) names w) = dns_specialDomains_mozillaCanary w"
  "dns_piholePTR (fold (setDebugOption fp) names w) = dns_piholePTR w"
  "misc_addr2line (fold (setDebugOption fp) names w) = misc_addr2line w"
  "dns_replyWhenBusy (fold (setDebugOption fp) names w) = dns_replyWhenBusy w"
  "dns_blockTTL (fold (setDebugOption fp) names w) = dns_blockTTL w"
  "dns_specialDomains_iCloudPrivateRelay (fold (setDebugOption fp) names w) = dns_specialDomains_iCloudPrivateRelay w"
  "misc_check_load (fold (setDebugOption fp) names w) = misc_check_load w"
  "misc_check_shmem (fold (setDebugOption fp) names w) = misc_check_shmem w"
  "misc_check_disk (fold (setDebugOption fp) names w) = misc_check_disk w"
  "files_log (fold (setDebugOption fp) names w) = files_log w"
  "log_out (fold (setDebugOption fp) names w) = log_out w"
  "fclose_count (fold (setDebugOption fp) names w) = fclose_count w"
  "argv_dnsmasq2 (fold (setDebugOption fp) names w) = argv_dnsmasq2 w"
  by (induction names arbitrary: w) (simp_all add: setDebugOption_frame)

lemma readDebugingSettingsLegacy_frame:
  "dns_analyzeAAAA (readDebugingSettingsLegacy e fs fp w) = dns_analyzeAAAA w"
  "database_maxDBdays (readDebugingSettingsLegacy e fs fp w) = database_maxDBdays w"
  "resolver_resolveIPv6 (readDebugingSettingsLegacy e fs fp w) = resolver_resolveIPv6 w"
  "resolver_resolveIPv4 (readDebugingSettingsLegacy e fs fp w) = resolver_resolveIPv4 w"
  "database_DBinterval (readDebugingSettingsLegacy e fs fp w) = database_DBinterval w"
  "files_database (readDebugingSettingsLegacy e fs fp w) = files_database w"
  "files_database_d (readDebugingSettingsLegacy e fs fp w) = files_database_d w"
  "database_maxHistory (readDebugingSettingsLegacy e fs fp w) = database_maxHistory w"
  "misc_privacylevel (readDebugingSettingsLegacy e fs fp w) = misc_privacylevel w"
  "dns_ignoreLocalhost (readDebugingSettingsLegacy e fs fp w) = dns_ignoreLocalhost w"
  "dns_blockingmode (readDebugingSettingsLegacy e fs fp w) = dns_blockingmode w"
  "dns_blockingmode_d (readDebugingSettingsLegacy e fs fp w) = dns_blockingmode_d w"
  "dns_analyzeOnlyAandAAAA (readDebugingSettingsLegacy e fs fp w) = dns_analyzeOnlyAandAAAA w"
  "database_DBimport (readDebugingSettingsLegacy e fs fp w) = database_DBimport w"
  "files_pid (readDebugingSettingsLegacy e fs fp w) = files_pid w"
  "files_setupVars (readDebugingSettingsLegacy e fs fp w) = files_setupVars w"
  "files_macvendor (readDebugingSettingsLegacy e fs fp w) = files_macvendor w"
  "files_gravity (readDebugingSettingsLegacy e fs fp w) = files_gravity w"
  "database_network_parseARPcache (readDebugingSettingsLegacy e fs fp w) = database_network_parseARPcache w"
  "dns_CNAMEdeepInspect (readDebugingSettingsLegacy e fs fp w) = dns_CNAMEdeepInspect w"
  "misc_delay_startup (readDebugingSettingsLegacy e fs fp w) = misc_delay_startup w"
  "dns_blockESNI (readDebugingSettingsLegacy e fs fp w) = dns_blockESNI w"
  "http_paths_webroot (readDebugingSettingsLegacy e fs fp w) = http_paths_webroot w"
  "http_port (readDebugingSettingsLegacy e fs fp w) = http_port w"
  "http_paths_webhome (readDebugingSettingsLegacy e fs fp w) = http_paths_webhome w"
  "http_acl (readDebugingSettingsLegacy e fs fp w) = http_acl w"
  "http_localAPIauth (readDebugingSettingsLegacy e fs fp w) = http_localAPIauth w"
  "http_sessionTimeout (readDebugingSettingsLegacy e fs fp w) = http_sessionTimeout w"
  "http_prettyJSON (readDebugingSettingsLegacy e fs fp w) = http_prettyJSON w"
  "files_ph7_error (readDebugingSettingsLegacy e fs fp w) = files_ph7_error w"
  "files_http_info (readDebugingSettingsLegacy e fs fp w) = files_http_info w"
  "database_network_expire (readDebugingSettingsLegacy e fs fp w) = database_network_expire w"
  "resolver_networkNames (readDebugingSettingsLegacy e fs fp w) = resolver_networkNames w"
  "dns_EDNS0ECS (readDebugingSettingsLegacy e fs fp w) = dns_EDNS0ECS w"
  "resolver_refreshNames (readDebugingSettingsLegacy e fs fp w) = resolver_refreshNames w"
  "http_domain (readDebugingSettingsLegacy e fs fp w) = http_domain w"
  "dns_rateLimit_count (readDebugingSettingsLegacy e fs fp w) = dns_rateLimit_count w"
  "dns_rateLimit_interval (readDebugingSettingsLegacy e fs fp w) = dns_rateLimit_interval w"
  "dns_reply_host_overwrite_v4 (readDebugingSettingsLegacy e fs fp w) = dns_reply_host_overwrite_v4 w"
  "dns_reply_host_v4 (readDebugingSettingsLegacy e fs fp w) = dns_reply_host_v4 w"
  "dns_reply_host_overwrite_v6 (readDebugingSettingsLegacy e fs fp w) = dns_reply_host_overwrite_v6 w"
  "dns_reply_host_v6 (readDebugingSettingsLegacy e fs fp w) = dns_reply_host_v6 w"
  "dns_reply_blocking_overwrite_v4 (readDebugingSettingsLegacy e fs fp w) = dns_reply_blocking_overwrite_v4 w"
  "dns_reply_blocking_v4 (readDebugingSettingsLegacy e fs fp w) = dns_reply_blocking_v4 w"
  "dns_reply_blocking_overwrite_v6 (readDebugingSettingsLegacy e fs fp w) = dns_reply_blocking_overwrite_v6 w"
  "dns_reply_blocking_v6 (readDebugingSettingsLegacy e fs fp w) = dns_reply_blocking_v6 w"
  "dns_showDNSSEC (readDebugingSettingsLegacy e fs fp w) = dns_showDNSSEC w"
  "dns_specialDomains_mozillaCanary (readDebugingSettingsLegacy e fs fp w) = dns_specialDomains_mozillaCanary w"
  "dns_piholePTR (readDebugingSettingsLegacy e fs fp w) = dns_piholePTR w"
  "misc_addr2line (readDebugingSettingsLegacy e fs fp w) = misc_addr2line w"
  "dns_replyWhenBusy (readDebugingSettingsLegacy e fs fp w) = dns_replyWhenBusy w"
  "dns_blockTTL (readDebugingSettingsLegacy e fs fp w) = dns_blockTTL w"
  "dns_specialDomains_iCloudPrivateRelay (readDebugingSettingsLegacy e fs fp w) = dns_specialDomains_iCloudPrivateRelay w"
  "misc_check_load (readDebugingSettingsLegacy e fs fp w) = misc_check_load w"
  "misc_check_shmem (readDebugingSettingsLegacy e fs fp w) = misc_check_shmem w"
  "misc_check_disk (readDebugingSettingsLegacy e fs fp w) = misc_check_disk w"
  "files_log (readDebugingSettingsLegacy e fs fp w) = files_log w"
  "log_out (readDebugingSettingsLegacy e fs fp w) = log_out w"
  by (simp_all add: readDebugingSettingsLegacy_def Let_def fclose_def setDebugOption_frame
      fold_setDebugOption_frame split: option.splits prod.splits)

lemmas legacy_frames =
  log_line_frame
  fclose_frame
  legacy_MAXDBDAYS_frame
  legacy_DBINTERVAL_frame
  legacy_DBFILE_frame
  legacy_MAXLOGAGE_frame
  getPrivacyLevelLegacy_frame
  legacy_IGNORE_LOCALHOST_frame
  getBlockingModeLegacy_frame
  legacy_ANALYZE_ONLY_A_AND_AAAA_frame
  getPath_frame
  legacy_DELAY_STARTUP_frame
  legacy_WEBPORT_frame
  legacy_WEBACL_frame
  legacy_API_SESSION_TIMEOUT_frame
  legacy_MAXNETAGE_frame
  legacy_REFRESH_HOSTNAMES_frame
  legacy_RATE_LIMIT_frame
  legacy_LOCAL_IPV4_frame
  legacy_LOCAL_IPV6_frame
  legacy_BLOCK_IPV4_frame
  legacy_BLOCK_IPV6_frame
  legacy_REPLY_ADDR4_frame
  legacy_REPLY_ADDR6_frame
  legacy_PIHOLE_PTR_frame
  legacy_REPLY_WHEN_BUSY_frame
  legacy_BLOCK_TTL_frame
  legacy_CHECK_SHMEM_frame
  legacy_CHECK_DISK_frame
  setDebugOption_frame
  fold_setDebugOption_frame
  readDebugingSettingsLegacy_frame

subsection \<open>The claims\<close>

text \<open>
  C4. \<^verbatim>\<open>parseFTLconf\<close> looks for \<^verbatim>\<open>KEY=\<close> anywhere in a line, not at its start: in a file
  whose only line is \<^verbatim>\<open>XLOGFILE=abc\<close>, the key \<^verbatim>\<open>LOGFILE\<close> is found, with the value
  \<^verbatim>\<open>abc\<close>, although no line of the file starts with \<^verbatim>\<open>LOGFILE=\<close>.
\<close>

theorem parseFTLconf_interior_match:
  "parseFTLconf (Some ''XLOGFILE=abc\<newline>'') ''LOGFILE'' = Some ''abc'' \<and>
   \<not> starts_with ''XLOGFILE=abc\<newline>'' ''LOGFILE=''"
  by code_simp

lemma parseFTLconf_privacy0:
  "parseFTLconf (Some ''PRIVACYLEVEL=0\<newline>'') ''PRIVACYLEVEL'' = Some ''0''"
  by code_simp

lemma sscanf_i_0: "sscanf_i ''0'' = ScanOK 0"
  by code_simp

text \<open>
  C7. \<^verbatim>\<open>getPrivacyLevelLegacy\<close> never lowers the privacy level, whatever the level before
  and whatever the file holds (or whether there is one). From level 1 a file with
  \<^verbatim>\<open>PRIVACYLEVEL=0\<close> leaves level 1. A value that \<^verbatim>\<open>sscanf\<close> reads, that lies between
  \<^verbatim>\<open>PRIVACY_SHOW_ALL\<close> and \<^verbatim>\<open>PRIVACY_MAXIMUM\<close> and that is greater than the level before
  becomes the level.
\<close>

theorem getPrivacyLevelLegacy_monotone:
  "misc_privacylevel w \<le> misc_privacylevel (getPrivacyLevelLegacy fs fp w) \<and>
   (misc_privacylevel w = 1 \<longrightarrow>
      misc_privacylevel (getPrivacyLevelLegacy fs (Some ''PRIVACYLEVEL=0\<newline>'') w) = 1) \<and>
   (handle_or_open fs fp = Some (file, opened) \<and>
    parseFTLconf (Some file) ''PRIVACYLEVEL'' = Some b \<and> sscanf_i b = ScanOK v \<and>
    PRIVACY_SHOW_ALL \<le> v \<and> v \<le> PRIVACY_MAXIMUM \<and> int (misc_privacylevel w) < v \<longrightarrow>
      int (misc_privacylevel (getPrivacyLevelLegacy fs fp w)) = v)"
proof (intro conjI impI)
  show "misc_privacylevel w \<le> misc_privacylevel (getPrivacyLevelLegacy fs fp w)"
    by (auto simp add: getPrivacyLevelLegacy_def Let_def fclose_def
        split: option.splits prod.splits)
next
  assume "misc_privacylevel w = 1"
  then show "misc_privacylevel (getPrivacyLevelLegacy fs (Some ''PRIVACYLEVEL=0\<newline>'') w) = 1"
    by (simp add: getPrivacyLevelLegacy_def handle_or_open_def parseFTLconf_privacy0
        sscanf_i_0 Let_def assigned_def sscanf_ret_def)
next
  assume "handle_or_open fs fp = Some (file, opened) \<and>
    parseFTLconf (Some file) ''PRIVACYLEVEL'' = Some b \<and> sscanf_i b = ScanOK v \<and>
    PRIVACY_SHOW_ALL \<le> v \<and> v \<le> PRIVACY_MAXIMUM \<and> int (misc_privacylevel w) < v"
  then show "int (misc_privacylevel (getPrivacyLevelLegacy fs fp w)) = v"
    by (simp add: getPrivacyLevelLegacy_def Let_def assigned_def sscanf_ret_def fclose_def)
qed

lemma parseFTLconf_privacy3:
  "parseFTLconf (Some ''# privacy\<newline>PRIVACYLEVEL=3\<newline>'') ''PRIVACYLEVEL'' = Some ''3''"
  by code_simp

lemma sscanf_i_3: "sscanf_i ''3'' = ScanOK 3"
  by code_simp

theorem getPrivacyLevelLegacy_monotone_witness:
  "misc_privacylevel
     (getPrivacyLevelLegacy no_files (Some ''PRIVACYLEVEL=0\<newline>'')
        (example_ftl\<lparr>misc_privacylevel := 1\<rparr>)) = 1 \<and>
   int (misc_privacylevel
     (getPrivacyLevelLegacy (no_files\<lparr>local_conf := Some ''# privacy\<newline>PRIVACYLEVEL=3\<newline>''\<rparr>)
        None (example_ftl\<lparr>misc_privacylevel := 1\<rparr>))) = 3"
  using getPrivacyLevelLegacy_monotone
    [of "example_ftl\<lparr>misc_privacylevel := 1\<rparr>"
        "no_files\<lparr>local_conf := Some ''# privacy\<newline>PRIVACYLEVEL=3\<newline>''\<rparr>"
        None "''# privacy\<newline>PRIVACYLEVEL=3\<newline>''" True "''3''" 3]
    getPrivacyLevelLegacy_monotone
    [of "example_ftl\<lparr>misc_privacylevel := 1\<rparr>" no_files None undefined undefined undefined 0]
  by (simp add: handle_or_open_def openFTLconf_def no_files_def parseFTLconf_privacy3 sscanf_i_3)

lemma tolower_names:
  "map tolower ''NXDOMAIN'' = ''nxdomain''" "map tolower ''NULL'' = ''null''"
  "map tolower ''IP-NODATA-AAAA'' = ''ip-nodata-aaaa''" "map tolower ''IP'' = ''ip''"
  "map tolower ''NODATA'' = ''nodata''"
  "map tolower ''nxdomain'' = ''nxdomain''" "map tolower ''NxDomain'' = ''nxdomain''"
  "map tolower ''bogus'' = ''bogus''"
  by code_simp+

lemma example_ftl_fields:
  "dns_blockingmode_d example_ftl = MODE_NULL" "dns_blockingmode example_ftl = MODE_NULL"
  "log_out example_ftl = []" "files_log example_ftl = Some ''/var/log/pihole/FTL.log''"
  "misc_privacylevel example_ftl = 0" "fclose_count example_ftl = 0"
  by (simp_all add: example_ftl_def)

text \<open>
  C8. The value of \<^verbatim>\<open>BLOCKINGMODE\<close> is compared without regard to case: every spelling of
  \<^verbatim>\<open>nxdomain\<close> gives \<^verbatim>\<open>MODE_NX\<close>. A value that is none of the five names leaves the
  blocking mode at the default of the item (to which \<^verbatim>\<open>getBlockingModeLegacy\<close> sets it
  first, so at the value before the call when that was the default) and sends one
  warning to the log.
\<close>

theorem getBlockingModeLegacy_case_insensitive:
  "parseFTLconf (Some file) ''BLOCKINGMODE'' = Some b \<Longrightarrow>
   (map tolower b = ''nxdomain'' \<longrightarrow>
      dns_blockingmode (getBlockingModeLegacy fs (Some file) w) = MODE_NX) \<and>
   (map tolower b \<notin> {''nxdomain'', ''null'', ''ip-nodata-aaaa'', ''ip'', ''nodata''} \<longrightarrow>
      dns_blockingmode (getBlockingModeLegacy fs (Some file) w) = dns_blockingmode_d w \<and>
      (dns_blockingmode w = dns_blockingmode_d w \<longrightarrow>
         dns_blockingmode (getBlockingModeLegacy fs (Some file) w) = dns_blockingmode w) \<and>
      log_out (getBlockingModeLegacy fs (Some file) w) =
        log_out w @ [(LOG_WARN, ''Unknown blocking mode, using NULL as fallback'')])"
proof -
  assume buffer: "parseFTLconf (Some file) ''BLOCKINGMODE'' = Some b"
  have cmp:
    "strcasecmp b ''NXDOMAIN'' = (map tolower b = ''nxdomain'')"
    "strcasecmp b ''NULL'' = (map tolower b = ''null'')"
    "strcasecmp b ''IP-NODATA-AAAA'' = (map tolower b = ''ip-nodata-aaaa'')"
    "strcasecmp b ''IP'' = (map tolower b = ''ip'')"
    "strcasecmp b ''NODATA'' = (map tolower b = ''nodata'')"
    by (simp_all only: strcasecmp_def tolower_names)
  show ?thesis
    by (simp add: getBlockingModeLegacy_def handle_or_open_def Let_def buffer cmp log_line_def)
qed

lemma parseFTLconf_blockingmode:
  "parseFTLconf (Some ''BLOCKINGMODE=nxdomain\<newline>'') ''BLOCKINGMODE'' = Some ''nxdomain''"
  "parseFTLconf (Some ''BLOCKINGMODE=NXDOMAIN\<newline>'') ''BLOCKINGMODE'' = Some ''NXDOMAIN''"
  "parseFTLconf (Some ''BLOCKINGMODE=NxDomain\<newline>'') ''BLOCKINGMODE'' = Some ''NxDomain''"
  "parseFTLconf (Some ''BLOCKINGMODE=bogus\<newline>'') ''BLOCKINGMODE'' = Some ''bogus''"
  by code_simp+

theorem getBlockingModeLegacy_case_insensitive_witness:
  "dns_blockingmode
     (getBlockingModeLegacy no_files (Some ''BLOCKINGMODE=nxdomain\<newline>'') example_ftl) = MODE_NX \<and>
   dns_blockingmode
     (getBlockingModeLegacy no_files (Some ''BLOCKINGMODE=NXDOMAIN\<newline>'') example_ftl) = MODE_NX \<and>
   dns_blockingmode
     (getBlockingModeLegacy no_files (Some ''BLOCKINGMODE=NxDomain\<newline>'') example_ftl) = MODE_NX \<and>
   dns_blockingmode
     (getBlockingModeLegacy no_files (Some ''BLOCKINGMODE=bogus\<newline>'') example_ftl) = MODE_NULL \<and>
   log_out (getBlockingModeLegacy no_files (Some ''BLOCKINGMODE=bogus\<newline>'') example_ftl) =
     [(LOG_WARN, ''Unknown blocking mode, using NULL as fallback'')]"
proof -
  have other: "map tolower ''bogus'' \<notin> {''nxdomain'', ''null'', ''ip-nodata-aaaa'', ''ip'', ''nodata''}"
    unfolding tolower_names by simp
  note lower = getBlockingModeLegacy_case_insensitive
    [OF parseFTLconf_blockingmode(1), of no_files example_ftl, THEN conjunct1, THEN mp,
     OF tolower_names(6)]
  note upper = getBlockingModeLegacy_case_insensitive
    [OF parseFTLconf_blockingmode(2), of no_files example_ftl, THEN conjunct1, THEN mp,
     OF tolower_names(1)]
  note mixed = getBlockingModeLegacy_case_insensitive
    [OF parseFTLconf_blockingmode(3), of no_files example_ftl, THEN conjunct1, THEN mp,
     OF tolower_names(7)]
  note bogus = getBlockingModeLegacy_case_insensitive
    [OF parseFTLconf_blockingmode(4), of no_files example_ftl, THEN conjunct2, THEN mp,
     OF other]
  from lower upper mixed bogus show ?thesis
    by (simp add: example_ftl_fields)
qed





subsection \<open>The whole of \<^verbatim>\<open>readFTLlegacy\<close>\<close>

lemma getPath_fst:
  "fst (getPath fp option ptr w) =
     (case parseFTLconf fp option of
        None \<Rightarrow> ptr
      | Some buffer \<Rightarrow> assigned_ms (sscanf_ms buffer) ptr)"
  by (simp add: getPath_def Let_def split: option.splits)

lemma legacy_path_eq:
  "legacy_path fp key item item_update w =
     item_update (\<lambda>old. fst (getPath fp key (item w) w)) (snd (getPath fp key (item w) w))"
  by (simp add: legacy_path_def split_def)

text \<open>
  A property of one item after \<^verbatim>\<open>readFTLlegacy\<close> is proved in two steps: the sequence of
  blocks is unfolded (\<open>legacy_unfold\<close>), then the blocks that leave the item alone are
  passed over (\<open>legacy_simps\<close>).
\<close>

lemmas legacy_unfold = readFTLlegacy_def Let_def option.case prod.case snd_conv split_def
lemmas legacy_simps = legacy_frames legacy_bool_def legacy_path_eq getPath_fst

lemma sscanf_ms_nonempty: "sscanf_ms b = ScanOK s \<Longrightarrow> s \<noteq> []"
proof -
  assume a: "sscanf_ms b = ScanOK s"
  let ?r = "dropWhile isspace b"
  from a have ne: "?r \<noteq> []" and s: "s = take 127 (takeWhile (\<lambda>c. \<not> isspace c) ?r)"
    by (auto simp add: sscanf_ms_def Let_def split: if_splits)
  from ne have "\<not> isspace (hd ?r)" by (rule hd_dropWhile)
  with ne have "takeWhile (\<lambda>c. \<not> isspace c) ?r \<noteq> []"
    by (cases ?r) auto
  with s show ?thesis by simp
qed

lemma legacy_MAXDBDAYS_value:
  "parseFTLconf fp ''MAXDBDAYS'' = Some buffer \<Longrightarrow> sscanf_i buffer = ScanOK v \<Longrightarrow>
   database_maxDBdays (legacy_MAXDBDAYS fp w) =
     (if v > INT_MAX div 86400 then INT_MAX div 86400
      else if v = -1 \<or> v \<ge> 0 then v else database_maxDBdays w)"
  by (simp add: legacy_MAXDBDAYS_def Let_def assigned_def sscanf_ret_def)

text \<open>
  The block of \<^verbatim>\<open>DBFILE\<close> comes after the one of \<^verbatim>\<open>MAXDBDAYS\<close>. It leaves \<^verbatim>\<open>maxDBdays\<close> alone
  when it ends with a database path, and sets it to 0 when it does not.
\<close>

lemma legacy_DBFILE_keeps:
  assumes "database_path_given (parseFTLconf fp ''DBFILE'') (files_database_d w)"
  shows "database_maxDBdays (legacy_DBFILE fp w) = database_maxDBdays w"
proof (cases "parseFTLconf fp ''DBFILE''")
  case None
  with assms show ?thesis
    by (auto simp add: legacy_DBFILE_def database_path_given_def has_path_def Let_def
        split: option.splits)
next
  case (Some b)
  with assms have "dropWhile isspace b \<noteq> []"
    by (simp add: database_path_given_def)
  then obtain s where s: "sscanf_ms b = ScanOK s"
    by (simp add: sscanf_ms_def Let_def)
  from sscanf_ms_nonempty [OF s] have "s \<noteq> []" .
  with Some s show ?thesis
    by (simp add: legacy_DBFILE_def Let_def assigned_ms_def sscanf_ret_def)
qed

lemma legacy_DBFILE_zeroes:
  "\<not> database_path_given (parseFTLconf fp ''DBFILE'') (files_database_d w) \<Longrightarrow>
   database_maxDBdays (legacy_DBFILE fp w) = 0"
  by (cases "parseFTLconf fp ''DBFILE''")
    (auto simp add: legacy_DBFILE_def database_path_given_def has_path_def Let_def assigned_ms_def
      sscanf_ret_def sscanf_ms_def split: option.splits)

lemma readFTLlegacy_without_database:
  "openFTLconf fs = Some (path, content) \<Longrightarrow>
   \<not> database_path_given (parseFTLconf (Some content) ''DBFILE'') (files_database_d w) \<Longrightarrow>
   database_maxDBdays (snd (readFTLlegacy e fs w)) = 0"
  by (simp only: legacy_unfold) (simp add: legacy_simps legacy_DBFILE_zeroes)

text \<open>
  C6. When the value of \<^verbatim>\<open>MAXDBDAYS\<close> is read as the number \<open>v\<close>, the item after the block
  of \<^verbatim>\<open>MAXDBDAYS\<close> is \<^verbatim>\<open>INT_MAX / 86400\<close> for \<open>v\<close> above it, what it was before for \<open>v\<close>
  below -1, and \<open>v\<close> itself for -1 and for every \<open>v\<close> from 0 to \<^verbatim>\<open>INT_MAX / 86400\<close>. This is
  also the item after \<^verbatim>\<open>readFTLlegacy\<close> when the block of \<^verbatim>\<open>DBFILE\<close> ends with a database
  path (the value of \<^verbatim>\<open>DBFILE\<close> is not empty, or the key is absent and the item has a path
  as its default); otherwise that block sets the item to 0 afterwards
  (\<open>readFTLlegacy_without_database\<close>).
\<close>

theorem readFTLlegacy_MAXDBDAYS:
  "parseFTLconf (Some content) ''MAXDBDAYS'' = Some buffer \<Longrightarrow> sscanf_i buffer = ScanOK v \<Longrightarrow>
   (v > INT_MAX div 86400 \<longrightarrow>
      database_maxDBdays (legacy_MAXDBDAYS (Some content) w) = INT_MAX div 86400) \<and>
   (v < -1 \<longrightarrow> database_maxDBdays (legacy_MAXDBDAYS (Some content) w) = database_maxDBdays w) \<and>
   (v = -1 \<longrightarrow> database_maxDBdays (legacy_MAXDBDAYS (Some content) w) = -1) \<and>
   (0 \<le> v \<and> v \<le> INT_MAX div 86400 \<longrightarrow>
      database_maxDBdays (legacy_MAXDBDAYS (Some content) w) = v) \<and>
   (openFTLconf fs = Some (path, content) \<and>
    database_path_given (parseFTLconf (Some content) ''DBFILE'') (files_database_d w) \<longrightarrow>
      database_maxDBdays (snd (readFTLlegacy e fs w)) =
        database_maxDBdays (legacy_MAXDBDAYS (Some content) w))"
proof -
  assume key: "parseFTLconf (Some content) ''MAXDBDAYS'' = Some buffer"
    and number: "sscanf_i buffer = ScanOK v"
  note block = legacy_MAXDBDAYS_value [OF key number]
  have whole:
    "database_maxDBdays (snd (readFTLlegacy e fs w)) =
       database_maxDBdays (legacy_MAXDBDAYS (Some content) w)"
    if opened: "openFTLconf fs = Some (path, content)"
      and given: "database_path_given (parseFTLconf (Some content) ''DBFILE'') (files_database_d w)"
    using given
    by (simp only: legacy_unfold opened) (simp add: legacy_simps legacy_DBFILE_keeps block)
  show ?thesis
    using whole by (simp add: block)
qed

lemma maxdbdays_files:
  "parseFTLconf (Some ''MAXDBDAYS=999999999\<newline>'') ''MAXDBDAYS'' = Some ''999999999''"
  "parseFTLconf (Some ''MAXDBDAYS=-5\<newline>'') ''MAXDBDAYS'' = Some ''-5''"
  "parseFTLconf (Some ''MAXDBDAYS=-1\<newline>'') ''MAXDBDAYS'' = Some ''-1''"
  "parseFTLconf (Some ''MAXDBDAYS=30\<newline>'') ''MAXDBDAYS'' = Some ''30''"
  by code_simp+

lemmas scan_defs = sscanf_i_def scan_i_def scan_digits_def digits_val_def xdigit_val_def
  isdigit_def isodigit_def isxdigit_def isspace_def map_scan_def strtol_clamp_def to_int32_def
  Let_def

lemma maxdbdays_values:
  "sscanf_i ''999999999'' = ScanOK 999999999" "sscanf_i ''-5'' = ScanOK (-5)"
  "sscanf_i ''-1'' = ScanOK (-1)" "sscanf_i ''30'' = ScanOK 30"
  by (simp_all add: scan_defs)

lemma example_ftl_database:
  "files_database_d example_ftl = Some ''/etc/pihole/pihole-FTL.db''"
  "database_maxDBdays example_ftl = 365"
  by (simp_all add: example_ftl_def)

lemma openFTLconf_local:
  "openFTLconf (no_files\<lparr>local_conf := Some content\<rparr>) = Some (''pihole-FTL.conf'', content)"
  by (simp add: openFTLconf_def)

lemma maxdbdays_dbfile:
  "parseFTLconf (Some ''MAXDBDAYS=999999999\<newline>'') ''DBFILE'' = None"
  "parseFTLconf (Some ''MAXDBDAYS=-5\<newline>'') ''DBFILE'' = None"
  "parseFTLconf (Some ''MAXDBDAYS=-1\<newline>'') ''DBFILE'' = None"
  "parseFTLconf (Some ''MAXDBDAYS=30\<newline>DBFILE=/tmp/FTL.db\<newline>'') ''DBFILE'' = Some ''/tmp/FTL.db''"
  "parseFTLconf (Some ''MAXDBDAYS=30\<newline>DBFILE=/tmp/FTL.db\<newline>'') ''MAXDBDAYS'' = Some ''30''"
  by code_simp+

theorem readFTLlegacy_MAXDBDAYS_witness:
  "database_maxDBdays (snd (readFTLlegacy example_env
      (no_files\<lparr>local_conf := Some ''MAXDBDAYS=999999999\<newline>''\<rparr>) example_ftl)) = 24855 \<and>
   database_maxDBdays (snd (readFTLlegacy example_env
      (no_files\<lparr>local_conf := Some ''MAXDBDAYS=-5\<newline>''\<rparr>) example_ftl)) = 365 \<and>
   database_maxDBdays (snd (readFTLlegacy example_env
      (no_files\<lparr>local_conf := Some ''MAXDBDAYS=-1\<newline>''\<rparr>) example_ftl)) = -1 \<and>
   database_maxDBdays (snd (readFTLlegacy example_env
      (no_files\<lparr>local_conf := Some ''MAXDBDAYS=30\<newline>DBFILE=/tmp/FTL.db\<newline>''\<rparr>) example_ftl)) = 30"
  using
    readFTLlegacy_MAXDBDAYS [OF maxdbdays_files(1) maxdbdays_values(1),
      of example_ftl "no_files\<lparr>local_conf := Some ''MAXDBDAYS=999999999\<newline>''\<rparr>"
         "''pihole-FTL.conf''" example_env]
    readFTLlegacy_MAXDBDAYS [OF maxdbdays_files(2) maxdbdays_values(2),
      of example_ftl "no_files\<lparr>local_conf := Some ''MAXDBDAYS=-5\<newline>''\<rparr>"
         "''pihole-FTL.conf''" example_env]
    readFTLlegacy_MAXDBDAYS [OF maxdbdays_files(3) maxdbdays_values(3),
      of example_ftl "no_files\<lparr>local_conf := Some ''MAXDBDAYS=-1\<newline>''\<rparr>"
         "''pihole-FTL.conf''" example_env]
    readFTLlegacy_MAXDBDAYS [OF maxdbdays_dbfile(5) maxdbdays_values(4),
      of example_ftl "no_files\<lparr>local_conf := Some ''MAXDBDAYS=30\<newline>DBFILE=/tmp/FTL.db\<newline>''\<rparr>"
         "''pihole-FTL.conf''" example_env]
  by (simp add: example_ftl_database openFTLconf_local maxdbdays_dbfile database_path_given_def
      has_path_def isspace_def)

lemma reply6_file:
  "parseFTLconf (Some ''REPLY_ADDR6=::1\<newline>'') ''LOCAL_IPV6'' = None"
  "parseFTLconf (Some ''REPLY_ADDR6=::1\<newline>'') ''BLOCK_IPV6'' = None"
  "parseFTLconf (Some ''REPLY_ADDR6=::1\<newline>'') ''REPLY_ADDR6'' = Some ''::1''"
  "inet_pton AF_INET ''::1'' = None"
  "inet_pton AF_INET6 ''::1'' = Some (replicate 15 0 @ [1])"
  by code_simp+

lemma legacy_REPLY_ADDR6_not_v4:
  "parseFTLconf fp ''REPLY_ADDR6'' = Some b \<Longrightarrow> inet_pton AF_INET b = None \<Longrightarrow>
   legacy_REPLY_ADDR6 e fp w = w"
  by (simp add: legacy_REPLY_ADDR6_def)

lemma legacy_LOCAL_IPV6_absent:
  "parseFTLconf fp ''LOCAL_IPV6'' = None \<Longrightarrow>
   dns_reply_host_v6 (legacy_LOCAL_IPV6 fp w) = replicate 16 0 \<and>
   \<not> dns_reply_host_overwrite_v6 (legacy_LOCAL_IPV6 fp w)"
  by (simp add: legacy_LOCAL_IPV6_def)

lemma legacy_BLOCK_IPV6_absent:
  "parseFTLconf fp ''BLOCK_IPV6'' = None \<Longrightarrow>
   dns_reply_blocking_v6 (legacy_BLOCK_IPV6 fp w) = replicate 16 0 \<and>
   \<not> dns_reply_blocking_overwrite_v6 (legacy_BLOCK_IPV6 fp w)"
  by (simp add: legacy_BLOCK_IPV6_def)

text \<open>
  C5. A file whose only line is \<^verbatim>\<open>REPLY_ADDR6=::1\<close> sets neither \<^verbatim>\<open>LOCAL_IPV6\<close> nor
  \<^verbatim>\<open>BLOCK_IPV6\<close>, and \<^verbatim>\<open>::1\<close> is an IPv6 address in colon-hex form. The block of
  \<^verbatim>\<open>REPLY_ADDR6\<close> gives the value to \<^verbatim>\<open>inet_pton\<close> as an IPv4 address, which it is not:
  after \<^verbatim>\<open>readFTLlegacy\<close> both IPv6 items are the zero address and both overwrite flags
  are off, whatever the state before.
\<close>

theorem readFTLlegacy_REPLY_ADDR6_lost:
  "dns_reply_host_v6
     (snd (readFTLlegacy e (no_files\<lparr>local_conf := Some ''REPLY_ADDR6=::1\<newline>''\<rparr>) w)) =
     replicate 16 0 \<and>
   dns_reply_blocking_v6
     (snd (readFTLlegacy e (no_files\<lparr>local_conf := Some ''REPLY_ADDR6=::1\<newline>''\<rparr>) w)) =
     replicate 16 0 \<and>
   \<not> dns_reply_host_overwrite_v6
     (snd (readFTLlegacy e (no_files\<lparr>local_conf := Some ''REPLY_ADDR6=::1\<newline>''\<rparr>) w)) \<and>
   \<not> dns_reply_blocking_overwrite_v6
     (snd (readFTLlegacy e (no_files\<lparr>local_conf := Some ''REPLY_ADDR6=::1\<newline>''\<rparr>) w)) \<and>
   inet_pton AF_INET6 ''::1'' = Some (replicate 15 0 @ [1])"
  apply (simp only: legacy_unfold openFTLconf_def no_files_def filesys.simps)
  apply (simp add: legacy_simps legacy_REPLY_ADDR6_not_v4 [OF reply6_file(3) reply6_file(4)]
      legacy_LOCAL_IPV6_absent [OF reply6_file(1)] legacy_BLOCK_IPV6_absent [OF reply6_file(2)]
      reply6_file(5))
  done

text \<open>
  The IPv4 half of the same claim holds. With a valid \<^verbatim>\<open>REPLY_ADDR4\<close>: when neither
  \<^verbatim>\<open>LOCAL_IPV4\<close> nor \<^verbatim>\<open>BLOCK_IPV4\<close> gave an address, both IPv4 items take the address of
  \<^verbatim>\<open>REPLY_ADDR4\<close>; when one of them did, the items keep what these two keys gave and the
  block logs its warning.
\<close>

lemma legacy_REPLY_ADDR4_blocks:
  "parseFTLconf fp ''REPLY_ADDR4'' = Some b \<Longrightarrow> inet_pton AF_INET b = Some a \<Longrightarrow>
   local = (case parseFTLconf fp ''LOCAL_IPV4'' of None \<Rightarrow> None | Some x \<Rightarrow> inet_pton AF_INET x) \<Longrightarrow>
   block = (case parseFTLconf fp ''BLOCK_IPV4'' of None \<Rightarrow> None | Some x \<Rightarrow> inet_pton AF_INET x) \<Longrightarrow>
   w' = legacy_REPLY_ADDR4 fp (legacy_BLOCK_IPV6 fp (legacy_BLOCK_IPV4 fp
          (legacy_LOCAL_IPV6 fp (legacy_LOCAL_IPV4 fp w)))) \<Longrightarrow>
   (local = None \<and> block = None \<longrightarrow>
      dns_reply_host_v4 w' = a \<and> dns_reply_blocking_v4 w' = a \<and>
      dns_reply_host_overwrite_v4 w' \<and> dns_reply_blocking_overwrite_v4 w') \<and>
   (local \<noteq> None \<or> block \<noteq> None \<longrightarrow>
      dns_reply_host_v4 w' = (case local of None \<Rightarrow> replicate 4 0 | Some la \<Rightarrow> la) \<and>
      dns_reply_blocking_v4 w' = (case block of None \<Rightarrow> replicate 4 0 | Some ba \<Rightarrow> ba) \<and>
      dns_reply_host_overwrite_v4 w' = (local \<noteq> None) \<and>
      dns_reply_blocking_overwrite_v4 w' = (block \<noteq> None) \<and>
      log_out w' = log_out w @
        [(LOG_WARN, ''Ignoring REPLY_ADDR4 as LOCAL_IPV4 or BLOCK_IPV4 has been specified.'')])"
  by (auto simp add: legacy_REPLY_ADDR4_def legacy_BLOCK_IPV4_def legacy_LOCAL_IPV4_def
      legacy_BLOCK_IPV6_frame legacy_LOCAL_IPV6_frame log_line_def split: option.splits)

subsection \<open>A block whose key is absent or not accepted\<close>










































section \<open>Properties of the queries before the load\<close>

lemma parseTOML_fails:
  "openFTLtoml fs ''r'' = None \<or>
   (\<exists>content errbuf. openFTLtoml fs ''r'' = Some content \<and> toml_parse_file content = Inl errbuf) \<Longrightarrow>
   fst (parseTOML toml_parse_file fs w) = None \<and>
   same_config (snd (parseTOML toml_parse_file fs w)) w"
  by (auto simp add: parseTOML_def same_config_def fclose_def log_line_def)

text \<open>
  C9. When no structured file can be opened, or the parser rejects the one that is
  opened, each of the three queries returns false (and does return), and the
  configuration after the call is the configuration before it.
\<close>

theorem preload_queries_without_file:
  "openFTLtoml fs ''r'' = None \<or>
   (\<exists>content errbuf. openFTLtoml fs ''r'' = Some content \<and> toml_parse_file content = Inl errbuf) \<Longrightarrow>
   fst (getPrivacyLevel toml_parse_file fs w) = False \<and>
   same_config (snd (getPrivacyLevel toml_parse_file fs w)) w \<and>
   fst (getBlockingMode toml_parse_file blocking_mode_val k h fs w) = False \<and>
   same_config (snd (getBlockingMode toml_parse_file blocking_mode_val k h fs w)) w \<and>
   (\<exists>w'. getLogFilePathTOML toml_parse_file fs w = Some (False, w') \<and> same_config w' w)"
proof -
  assume "openFTLtoml fs ''r'' = None \<or>
    (\<exists>content errbuf. openFTLtoml fs ''r'' = Some content \<and> toml_parse_file content = Inl errbuf)"
  then have "fst (parseTOML toml_parse_file fs w) = None"
    and "same_config (snd (parseTOML toml_parse_file fs w)) w"
    using parseTOML_fails [of fs toml_parse_file w] by simp_all
  then show ?thesis
    by (cases "parseTOML toml_parse_file fs w")
      (simp add: getPrivacyLevel_def getBlockingMode_def getLogFilePathTOML_def)
qed

theorem preload_queries_without_file_witness:
  "fst (getPrivacyLevel (\<lambda>content. Inl ''line 1: syntax error'') no_files example_ftl) = False \<and>
   same_config
     (snd (getPrivacyLevel (\<lambda>content. Inl ''line 1: syntax error'') no_files example_ftl))
     example_ftl \<and>
   fst (getBlockingMode (\<lambda>content. Inl ''line 1: syntax error'') (\<lambda>name. None)
     ''dns.blockingmode'' ''the blocking modes''
     (no_files\<lparr>global_toml := Some ''[dns''\<rparr>) example_ftl) = False \<and>
   same_config
     (snd (getBlockingMode (\<lambda>content. Inl ''line 1: syntax error'') (\<lambda>name. None)
       ''dns.blockingmode'' ''the blocking modes''
       (no_files\<lparr>global_toml := Some ''[dns''\<rparr>) example_ftl))
     example_ftl \<and>
   (\<exists>w'. getLogFilePathTOML (\<lambda>content. Inl ''line 1: syntax error'')
       (no_files\<lparr>global_toml := Some ''[dns''\<rparr>) example_ftl = Some (False, w') \<and>
     same_config w' example_ftl)"
  using
    preload_queries_without_file
      [of no_files "\<lambda>content. Inl ''line 1: syntax error''" example_ftl "\<lambda>name. None"
          "''dns.blockingmode''" "''the blocking modes''"]
    preload_queries_without_file
      [of "no_files\<lparr>global_toml := Some ''[dns''\<rparr>" "\<lambda>content. Inl ''line 1: syntax error''"
          example_ftl "\<lambda>name. None" "''dns.blockingmode''" "''the blocking modes''"]
  by (simp add: openFTLtoml_def no_files_def)

end
